theory Spec2Isabelle
  imports Main "HOL-Library.Word"
begin

unbundle bit_operations_syntax

section \<open>Demangle node trees\<close>

text \<open>
  \<^verbatim>\<open>Node::Kind\<close> is a closed enumeration of 276 members, declared in a header that
  is not part of the sources at hand. A member is represented by its name, so that
  \<^verbatim>\<open>Node::Kind::Tuple\<close> is the string \<open>''Tuple''\<close>; the members are the names that the
  exhaustive switch of \<^verbatim>\<open>isSimpleType\<close> lists.
\<close>

type_synonym Kind = string

text \<open>
  Modelled from the spec: the class \<^verbatim>\<open>Node\<close> of \<^verbatim>\<open>swift/Demangling/Demangle.h\<close>.
  A node has a kind, an optional text, an optional 64-bit index and an ordered sequence
  of children; a child is never null.
\<close>

datatype Node =
  MkNode (getKind: Kind) (Text_of: "string option") (Index_of: "64 word option") (Children: "Node list")

text \<open>
  The ways in which a call can end without a result: \<^verbatim>\<open>printer_unreachable\<close> (which
  prints its message and aborts), an \<^verbatim>\<open>assert\<close> that fails in a build with assertions,
  an access to a node outside the contract of its accessors (a child index out of range,
  the text or index of a node that has none), and the guard of the recursion of \<open>print\<close>
  and of the loop of \<open>printFunctionSigSpecializationParams\<close>.
\<close>

datatype failure =
  Unreachable string | AssertionFailure | NodeAccess | NotSubnode | NoProgress

definition hasText :: "Node \<Rightarrow> bool" where
  "hasText n = (Text_of n \<noteq> None)"

definition getText :: "Node \<Rightarrow> failure + string" where
  "getText n = (case Text_of n of None \<Rightarrow> Inl NodeAccess | Some t \<Rightarrow> Inr t)"

definition hasIndex :: "Node \<Rightarrow> bool" where
  "hasIndex n = (Index_of n \<noteq> None)"

definition getIndex :: "Node \<Rightarrow> failure + 64 word" where
  "getIndex n = (case Index_of n of None \<Rightarrow> Inl NodeAccess | Some i \<Rightarrow> Inr i)"

definition getNumChildren :: "Node \<Rightarrow> nat" where
  "getNumChildren n = length (Children n)"

definition hasChildren :: "Node \<Rightarrow> bool" where
  "hasChildren n = (Children n \<noteq> [])"

definition getChild :: "Node \<Rightarrow> nat \<Rightarrow> failure + Node" where
  "getChild n i = (if i < getNumChildren n then Inr (Children n ! i) else Inl NodeAccess)"

definition getFirstChild :: "Node \<Rightarrow> failure + Node" where
  "getFirstChild n = getChild n 0"

definition getLastChild :: "Node \<Rightarrow> failure + Node" where
  "getLastChild n =
     (if getNumChildren n = 0 then Inl NodeAccess else getChild n (getNumChildren n - 1))"

text \<open>Sequencing of accessors: \<^verbatim>\<open>a->getChild(0)->getChild(1)\<close> stops at the first failure.\<close>

definition andThen :: "failure + 'a \<Rightarrow> ('a \<Rightarrow> failure + 'b) \<Rightarrow> failure + 'b" where
  "andThen x f = (case x of Inl e \<Rightarrow> Inl e | Inr v \<Rightarrow> f v)"

section \<open>What the headers declare\<close>

datatype Directness = Direct | Indirect

datatype ValueWitnessKind =
  AllocateBuffer | AssignWithCopy | AssignWithTake | DeallocateBuffer | Destroy
| DestroyBuffer | InitializeBufferWithCopyOfBuffer | InitializeBufferWithCopy
| InitializeWithCopy | InitializeBufferWithTake | InitializeWithTake | ProjectBuffer
| InitializeBufferWithTakeOfBuffer | DestroyArray | InitializeArrayWithCopy
| InitializeArrayWithTakeFrontToBack | InitializeArrayWithTakeBackToFront
| StoreExtraInhabitant | GetExtraInhabitantIndex | GetEnumTag
| DestructiveProjectEnumData | DestructiveInjectEnumTag | GetEnumTagSinglePayload
| StoreEnumTagSinglePayload

datatype FunctionSigSpecializationParamKind =
  ConstantPropFunction | ConstantPropGlobal | ConstantPropInteger | ConstantPropFloat
| ConstantPropString | ClosureProp | BoxToValue | BoxToStack
| Dead | OwnedToGuaranteed | SROA | GuaranteedToOwned | ExistentialToGeneric

text \<open>
  The constants, enumerations and functions that the printer takes from headers and from
  other files of the library, none of them among the sources at hand, are parameters of
  the model: whether \<^verbatim>\<open>assert\<close> is compiled in, the three module names of
  \<^verbatim>\<open>swift/Strings.h\<close>, the members of \<^verbatim>\<open>swift/AST/ReferenceStorage.def\<close> with the
  keyword of each, the demangler that the printer calls back, and the values of three
  enumerations.
\<close>

record Ext =
  assertions :: bool
  STDLIB_NAME :: string
  MANGLING_MODULE_OBJC :: string
  LLDB_EXPRESSIONS_MODULE_NAME_PREFIX :: string
  REF_STORAGE :: "(Kind \<times> string) list"
  demangleSymbolAsString :: "string \<Rightarrow> string"
  toDirectness :: "64 word \<Rightarrow> Directness option"
  toValueWitnessKind :: "64 word \<Rightarrow> ValueWitnessKind option"
  paramKindValue :: "FunctionSigSpecializationParamKind \<Rightarrow> 32 word"

text \<open>
  One value of these parameters, used where a theorem is applied to a concrete input: the
  names and keywords of the Swift toolchain, assertions compiled in, a demangler that
  fails on every text, the flag values of the parameter kinds, and no value witness kind.
\<close>

definition Swift_headers :: Ext where
  "Swift_headers =
     \<lparr> assertions = True,
       STDLIB_NAME = ''Swift'',
       MANGLING_MODULE_OBJC = ''__C'',
       LLDB_EXPRESSIONS_MODULE_NAME_PREFIX = ''__lldb_expr_'',
       REF_STORAGE =
         [(''Weak'', ''weak''), (''Unowned'', ''unowned''), (''Unmanaged'', ''unowned(unsafe)'')],
       demangleSymbolAsString = (\<lambda>text. []),
       toDirectness = (\<lambda>i. if (ucast i :: 32 word) = 0 then Some Direct
                           else if (ucast i :: 32 word) = 1 then Some Indirect else None),
       toValueWitnessKind = (\<lambda>i. None),
       paramKindValue = (\<lambda>k. case k of
           ConstantPropFunction \<Rightarrow> 0 | ConstantPropGlobal \<Rightarrow> 1 | ConstantPropInteger \<Rightarrow> 2
         | ConstantPropFloat \<Rightarrow> 3 | ConstantPropString \<Rightarrow> 4 | ClosureProp \<Rightarrow> 5
         | BoxToValue \<Rightarrow> 6 | BoxToStack \<Rightarrow> 7 | Dead \<Rightarrow> 64 | OwnedToGuaranteed \<Rightarrow> 128
         | SROA \<Rightarrow> 256 | GuaranteedToOwned \<Rightarrow> 512 | ExistentialToGeneric \<Rightarrow> 1024) \<rparr>"

section \<open>Literal formatting\<close>

text \<open>The conversions \<^verbatim>\<open>%llu\<close>, \<^verbatim>\<open>%lld\<close> and \<^verbatim>\<open>%llX\<close> of \<^verbatim>\<open>snprintf\<close>.\<close>

function decimal :: "nat \<Rightarrow> string" where
  "decimal n =
     (if n < 10 then [char_of (48 + n)] else decimal (n div 10) @ [char_of (48 + n mod 10)])"
  by pat_completeness auto
termination
  by (relation "measure id") auto

declare decimal.simps [simp del]

definition signed_decimal :: "int \<Rightarrow> string" where
  "signed_decimal i = (if i < 0 then CHR ''-'' # decimal (nat (- i)) else decimal (nat i))"

definition Hexdigit :: string where
  "Hexdigit = ''0123456789ABCDEF''"

function hexadecimal :: "nat \<Rightarrow> string" where
  "hexadecimal n =
     (if n < 16 then [Hexdigit ! n] else hexadecimal (n div 16) @ [Hexdigit ! (n mod 16)])"
  by pat_completeness auto
termination
  by (relation "measure id") auto

declare hexadecimal.simps [simp del]

section \<open>The generic parameter namer\<close>

text \<open>
  The \<^verbatim>\<open>do ... while (index)\<close> loop of \<^verbatim>\<open>genericParameterName\<close>: the body runs, then the
  test; \<open>name\<close> is the printer's buffer.
\<close>

function genericParameterName_loop :: "string \<Rightarrow> 64 word \<Rightarrow> string" where
  "genericParameterName_loop name index =
     (let name' = name @ [char_of (unat (of_char (CHR ''A'') + index mod 26))];
          index' = index div 26
      in if index' \<noteq> 0 then genericParameterName_loop name' index' else name')"
  by pat_completeness auto
termination
proof (relation "measure (\<lambda>(name, index). unat index)")
  show "wf (measure (\<lambda>(name, index). unat index))" by simp
next
  fix name x :: string and index xa :: "64 word"
  assume "xa = index div 26" and "xa \<noteq> 0"
  then have "unat (index div 26) \<noteq> 0" by (simp add: unsigned_eq_0_iff)
  then have "unat index div 26 \<noteq> 0" by (simp add: unat_div)
  then have "unat index div 26 < unat index" by arith
  then show "((x, xa), name, index) \<in> measure (\<lambda>(name, index). unat index)"
    using \<open>xa = index div 26\<close> by (simp add: unat_div)
qed

declare genericParameterName_loop.simps [simp del]

definition genericParameterName :: "64 word \<Rightarrow> 64 word \<Rightarrow> string" where
  "genericParameterName depth index =
     (let name = genericParameterName_loop [] index
      in if depth \<noteq> 0 then name @ decimal (unat depth) else name)"

text \<open>
  The spelling that the specification describes, for comparison: the digits of a number
  in base 26, least significant first, and the letter of a digit.
\<close>

function base26 :: "nat \<Rightarrow> nat list" where
  "base26 n = (if n < 26 then [n] else (n mod 26) # base26 (n div 26))"
  by pat_completeness auto
termination
  by (relation "measure id") auto

declare base26.simps [simp del]

definition letter :: "nat \<Rightarrow> char" where
  "letter d = char_of (of_char (CHR ''A'') + d)"

section \<open>Quoting\<close>

text \<open>
  The body of the loop of \<^verbatim>\<open>operator<<(DemanglerPrinter &, const QuotedString &)\<close>: the
  switch on one character \<open>C\<close> of the value, appending to the printer's buffer. The
  character codes are \<open>0x5C\<close> for the backslash, \<open>0x22\<close> for the double quote, \<open>0x09\<close>,
  \<open>0x0A\<close> and \<open>0x0D\<close> for tab, newline and carriage return.
\<close>

definition quote_step :: "string \<Rightarrow> char \<Rightarrow> string" where
  "quote_step printer C =
     (if C = CHR 0x5C then printer @ [CHR 0x5C, CHR 0x5C]
      else if C = CHR 0x09 then printer @ [CHR 0x5C, CHR ''t'']
      else if C = CHR 0x0A then printer @ [CHR 0x5C, CHR ''n'']
      else if C = CHR 0x0D then printer @ [CHR 0x5C, CHR ''r'']
      else if C = CHR 0x22 then printer @ [CHR 0x5C, CHR 0x22]
      else if C = CHR 0x00 then printer @ [CHR 0x5C, CHR ''0'']
      else
        let c = (of_char C :: 8 word)
        in if c < 0x20 \<or> c \<ge> 0x7F
           then printer @ [CHR 0x5C, CHR ''x'']
                  @ [Hexdigit ! unat (drop_bit 4 c)] @ [Hexdigit ! unat (c AND 0xF)]
           else printer @ [char_of (unat c)])"

definition print_QuotedString :: "string \<Rightarrow> string \<Rightarrow> string" where
  "print_QuotedString printer Value = foldl quote_step (printer @ [CHR 0x22]) Value @ [CHR 0x22]"

text \<open>
  The escape of one byte as the specification words it, for comparison: six bytes have a
  two-character escape, every other byte below \<open>0x20\<close> or from \<open>0x7F\<close> on is written
  \<^verbatim>\<open>\xHH\<close> with two uppercase hexadecimal digits, and the rest is unchanged.
\<close>

definition upper_hex_digit :: "nat \<Rightarrow> char" where
  "upper_hex_digit d =
     (if d < 10 then char_of (of_char (CHR ''0'') + d) else char_of (of_char (CHR ''A'') + (d - 10)))"

definition escape_spec :: "char \<Rightarrow> string" where
  "escape_spec C =
     (let b = (of_char C :: nat)
      in if b = 0x5C then [CHR 0x5C, CHR 0x5C]
         else if b = 0x09 then [CHR 0x5C, CHR ''t'']
         else if b = 0x0A then [CHR 0x5C, CHR ''n'']
         else if b = 0x0D then [CHR 0x5C, CHR ''r'']
         else if b = 0x22 then [CHR 0x5C, CHR 0x22]
         else if b = 0 then [CHR 0x5C, CHR ''0'']
         else if b < 0x20 \<or> 0x7F \<le> b
           then [CHR 0x5C, CHR ''x'', upper_hex_digit (b div 16), upper_hex_digit (b mod 16)]
         else [C])"

section \<open>The type-simplicity classifier\<close>

text \<open>
  The case labels of the switch of \<^verbatim>\<open>isSimpleType\<close>, in the order of the source: those
  that return true, and those that return false, before and after the labels that
  \<^verbatim>\<open>ReferenceStorage.def\<close> contributes.
\<close>

definition simple_kinds :: "Kind list" where
  "simple_kinds =
    [''AssociatedType'', ''AssociatedTypeRef'', ''BoundGenericClass'',
     ''BoundGenericEnum'', ''BoundGenericStructure'', ''BoundGenericProtocol'',
     ''BoundGenericOtherNominalType'', ''BoundGenericTypeAlias'',
     ''BoundGenericFunction'', ''BuiltinTypeName'', ''Class'', ''DependentGenericType'',
     ''DependentMemberType'', ''DependentGenericParamType'', ''DynamicSelf'', ''Enum'',
     ''ErrorType'', ''ExistentialMetatype'', ''Metatype'', ''MetatypeRepresentation'',
     ''Module'', ''Tuple'', ''Protocol'', ''ProtocolSymbolicReference'', ''ReturnType'',
     ''SILBoxType'', ''SILBoxTypeWithLayout'', ''Structure'', ''OtherNominalType'',
     ''TupleElementName'', ''Type'', ''TypeAlias'', ''TypeList'', ''LabelList'',
     ''TypeSymbolicReference'', ''SugaredOptional'', ''SugaredArray'',
     ''SugaredDictionary'', ''SugaredParen'']"

definition compound_kinds_before :: "Kind list" where
  "compound_kinds_before =
    [''ProtocolListWithClass'', ''AccessorFunctionReference'', ''Allocator'',
     ''ArgumentTuple'', ''AssociatedConformanceDescriptor'',
     ''AssociatedTypeDescriptor'', ''AssociatedTypeMetadataAccessor'',
     ''AssociatedTypeWitnessTableAccessor'', ''AutoClosureType'',
     ''BaseConformanceDescriptor'', ''BaseWitnessTableAccessor'', ''ClangType'',
     ''ClassMetadataBaseOffset'', ''CFunctionPointer'', ''Constructor'',
     ''CoroutineContinuationPrototype'', ''CurryThunk'', ''DispatchThunk'',
     ''Deallocator'', ''DeclContext'', ''DefaultArgumentInitializer'',
     ''DefaultAssociatedTypeMetadataAccessor'',
     ''DefaultAssociatedConformanceAccessor'', ''DependentAssociatedTypeRef'',
     ''DependentGenericSignature'', ''DependentGenericParamCount'',
     ''DependentGenericConformanceRequirement'', ''DependentGenericLayoutRequirement'',
     ''DependentGenericSameTypeRequirement'', ''DependentPseudogenericSignature'',
     ''Destructor'', ''DidSet'', ''DifferentiableFunctionType'',
     ''EscapingDifferentiableFunctionType'', ''LinearFunctionType'',
     ''EscapingLinearFunctionType'', ''DirectMethodReferenceAttribute'', ''Directness'',
     ''DynamicAttribute'', ''EscapingAutoClosureType'', ''EscapingObjCBlock'',
     ''NoEscapeFunctionType'', ''ExplicitClosure'', ''Extension'', ''EnumCase'',
     ''FieldOffset'', ''FullObjCResilientClassStub'', ''FullTypeMetadata'',
     ''Function'', ''FunctionSignatureSpecialization'',
     ''FunctionSignatureSpecializationParam'',
     ''FunctionSignatureSpecializationReturn'',
     ''FunctionSignatureSpecializationParamKind'',
     ''FunctionSignatureSpecializationParamPayload'', ''FunctionType'',
     ''GenericProtocolWitnessTable'',
     ''GenericProtocolWitnessTableInstantiationFunction'',
     ''GenericPartialSpecialization'', ''GenericPartialSpecializationNotReAbstracted'',
     ''GenericSpecialization'', ''GenericSpecializationNotReAbstracted'',
     ''GenericSpecializationParam'', ''GenericSpecializationPrespecialized'',
     ''InlinedGenericFunction'', ''GenericTypeMetadataPattern'', ''Getter'', ''Global'',
     ''GlobalGetter'', ''Identifier'', ''Index'', ''IVarInitializer'',
     ''IVarDestroyer'', ''ImplDifferentiable'', ''ImplLinear'', ''ImplEscaping'',
     ''ImplConvention'', ''ImplDifferentiability'', ''ImplFunctionAttribute'',
     ''ImplFunctionConvention'', ''ImplFunctionConventionName'', ''ImplFunctionType'',
     ''ImplInvocationSubstitutions'', ''ImplPatternSubstitutions'', ''ImplicitClosure'',
     ''ImplParameter'', ''ImplResult'', ''ImplYield'', ''ImplErrorResult'', ''InOut'',
     ''InfixOperator'', ''Initializer'', ''PropertyWrapperBackingInitializer'',
     ''KeyPathGetterThunkHelper'', ''KeyPathSetterThunkHelper'',
     ''KeyPathEqualsThunkHelper'', ''KeyPathHashThunkHelper'',
     ''LazyProtocolWitnessTableAccessor'', ''LazyProtocolWitnessTableCacheVariable'',
     ''LocalDeclName'', ''MaterializeForSet'', ''MergedFunction'', ''Metaclass'',
     ''MethodDescriptor'', ''MethodLookupFunction'', ''ModifyAccessor'',
     ''NativeOwningAddressor'', ''NativeOwningMutableAddressor'',
     ''NativePinningAddressor'', ''NativePinningMutableAddressor'',
     ''NominalTypeDescriptor'', ''NonObjCAttribute'', ''Number'',
     ''ObjCAsyncCompletionHandlerImpl'', ''ObjCAttribute'', ''ObjCBlock'',
     ''ObjCMetadataUpdateFunction'', ''ObjCResilientClassStub'',
     ''OpaqueTypeDescriptor'', ''OpaqueTypeDescriptorAccessor'',
     ''OpaqueTypeDescriptorAccessorImpl'', ''OpaqueTypeDescriptorAccessorKey'',
     ''OpaqueTypeDescriptorAccessorVar'', ''Owned'', ''OwningAddressor'',
     ''OwningMutableAddressor'', ''PartialApplyForwarder'',
     ''PartialApplyObjCForwarder'', ''PostfixOperator'', ''PrefixOperator'',
     ''PrivateDeclName'', ''PropertyDescriptor'', ''ProtocolConformance'',
     ''ProtocolConformanceDescriptor'', ''MetadataInstantiationCache'',
     ''ProtocolDescriptor'', ''ProtocolRequirementsBaseDescriptor'',
     ''ProtocolSelfConformanceDescriptor'', ''ProtocolSelfConformanceWitness'',
     ''ProtocolSelfConformanceWitnessTable'', ''ProtocolWitness'',
     ''ProtocolWitnessTable'', ''ProtocolWitnessTableAccessor'',
     ''ProtocolWitnessTablePattern'', ''ReabstractionThunk'',
     ''ReabstractionThunkHelper'', ''ReabstractionThunkHelperWithSelf'',
     ''ReadAccessor'', ''RelatedEntityDeclName'', ''RetroactiveConformance'',
     ''Setter'', ''Shared'', ''SILBoxLayout'', ''SILBoxMutableField'',
     ''SILBoxImmutableField'', ''IsSerialized'', ''SpecializationPassID'', ''Static'',
     ''Subscript'', ''Suffix'', ''ThinFunctionType'', ''TupleElement'',
     ''TypeMangling'', ''TypeMetadata'', ''TypeMetadataAccessFunction'',
     ''TypeMetadataCompletionFunction'', ''TypeMetadataInstantiationCache'',
     ''TypeMetadataInstantiationFunction'',
     ''TypeMetadataSingletonInitializationCache'', ''TypeMetadataDemanglingCache'',
     ''TypeMetadataLazyCache'', ''UncurriedFunctionType'']"

definition compound_kinds_after :: "Kind list" where
  "compound_kinds_after =
    [''UnknownIndex'', ''UnsafeAddressor'', ''UnsafeMutableAddressor'',
     ''ValueWitness'', ''ValueWitnessTable'', ''Variable'', ''VTableAttribute'',
     ''VTableThunk'', ''WillSet'', ''ReflectionMetadataBuiltinDescriptor'',
     ''ReflectionMetadataFieldDescriptor'', ''ReflectionMetadataAssocTypeDescriptor'',
     ''ReflectionMetadataSuperclassDescriptor'', ''ResilientProtocolWitnessTable'',
     ''GenericTypeParamDecl'', ''AsyncAnnotation'', ''ThrowsAnnotation'', ''EmptyList'',
     ''FirstElementMarker'', ''VariadicMarker'', ''OutlinedBridgedMethod'',
     ''OutlinedCopy'', ''OutlinedConsume'', ''OutlinedRetain'', ''OutlinedRelease'',
     ''OutlinedInitializeWithTake'', ''OutlinedInitializeWithCopy'',
     ''OutlinedAssignWithTake'', ''OutlinedAssignWithCopy'', ''OutlinedDestroy'',
     ''OutlinedVariable'', ''AssocTypePath'', ''ModuleDescriptor'',
     ''AnonymousDescriptor'', ''AssociatedTypeGenericParamRef'',
     ''ExtensionDescriptor'', ''AnonymousContext'', ''AnyProtocolConformanceList'',
     ''ConcreteProtocolConformance'', ''DependentAssociatedConformance'',
     ''DependentProtocolConformanceAssociated'',
     ''DependentProtocolConformanceInherited'', ''DependentProtocolConformanceRoot'',
     ''ProtocolConformanceRefInTypeModule'', ''ProtocolConformanceRefInProtocolModule'',
     ''ProtocolConformanceRefInOtherModule'', ''DynamicallyReplaceableFunctionKey'',
     ''DynamicallyReplaceableFunctionImpl'', ''DynamicallyReplaceableFunctionVar'',
     ''OpaqueType'', ''OpaqueTypeDescriptorSymbolicReference'', ''OpaqueReturnType'',
     ''OpaqueReturnTypeOf'', ''CanonicalSpecializedGenericMetaclass'',
     ''CanonicalSpecializedGenericTypeMetadataAccessFunction'',
     ''NoncanonicalSpecializedGenericTypeMetadata'',
     ''NoncanonicalSpecializedGenericTypeMetadataCache'',
     ''GlobalVariableOnceDeclList'', ''GlobalVariableOnceFunction'',
     ''GlobalVariableOnceToken'', ''CanonicalPrespecializedGenericTypeCachingOnceToken'']"

definition isSimpleType :: "Ext \<Rightarrow> Node \<Rightarrow> failure + bool" where
  "isSimpleType X Node =
     (if getKind Node \<in> set simple_kinds then Inr True
      else if getKind Node = ''ProtocolList''
        then andThen (getChild Node 0) (\<lambda>c. Inr (getNumChildren c \<le> 1))
      else if getKind Node = ''ProtocolListWithAnyObject''
        then andThen (getChild Node 0) (\<lambda>c.
             andThen (getChild c 0) (\<lambda>d. Inr (getNumChildren d = 0)))
      else if getKind Node \<in> set compound_kinds_before
            \<or> getKind Node \<in> fst ` set (REF_STORAGE X)
            \<or> getKind Node \<in> set compound_kinds_after
        then Inr False
      else Inl (Unreachable ''bad node kind''))"

section \<open>Options and the printer\<close>

text \<open>
  Modelled from the spec: the struct \<^verbatim>\<open>DemangleOptions\<close> of
  \<^verbatim>\<open>swift/Demangling/Demangle.h\<close>, with the fields that the printer reads.
\<close>

record DemangleOptions =
  SynthesizeSugarOnTypes :: bool
  QualifyEntities :: bool
  DisplayExtensionContexts :: bool
  DisplayUnmangledSuffix :: bool
  DisplayModuleNames :: bool
  DisplayGenericSpecializations :: bool
  DisplayProtocolConformances :: bool
  DisplayWhereClauses :: bool
  DisplayEntityTypes :: bool
  DisplayLocalNameContexts :: bool
  ShortenPartialApply :: bool
  ShortenThunk :: bool
  ShortenValueWitness :: bool
  ShowPrivateDiscriminators :: bool
  ShowFunctionArgumentTypes :: bool
  DisplayDebuggerGeneratedModule :: bool
  DisplayStdlibModule :: bool
  DisplayObjCModule :: bool
  PrintForTypeName :: bool
  HidingCurrentModule :: string
  GenericParameterName :: "64 word \<Rightarrow> 64 word \<Rightarrow> string"

text \<open>
  The data members of the class \<^verbatim>\<open>NodePrinter\<close>. \<open>Printer\<close> is the buffer of the
  \<^verbatim>\<open>DemanglerPrinter\<close>, the string that \<^verbatim>\<open><<\<close> appends to.
\<close>

record NodePrinter =
  Printer :: string
  Options :: DemangleOptions
  SpecializationPrefixPrinted :: bool
  isValid :: bool

text \<open>
  A member function of the printer takes the printer's state and ends with a failure, or
  with its result and the new state.
\<close>

type_synonym 'a act = "NodePrinter \<Rightarrow> failure + ('a \<times> NodePrinter)"

definition ret :: "'a \<Rightarrow> 'a act" where
  "ret x = (\<lambda>s. Inr (x, s))"

definition fail :: "failure \<Rightarrow> 'a act" where
  "fail e = (\<lambda>s. Inl e)"

definition bnd :: "'a act \<Rightarrow> ('a \<Rightarrow> 'b act) \<Rightarrow> 'b act" where
  "bnd m f = (\<lambda>s. case m s of Inl e \<Rightarrow> Inl e | Inr (x, s') \<Rightarrow> f x s')"

definition seq :: "'a act \<Rightarrow> 'b act \<Rightarrow> 'b act" where
  "seq m k = bnd m (\<lambda>_. k)"

definition skip :: "unit act" where
  "skip = ret ()"

text \<open>A sequence of statements.\<close>

fun block :: "unit act list \<Rightarrow> unit act" where
  "block [] = skip"
| "block (m # ms) = seq m (block ms)"

text \<open>A call whose result is dropped, and a statement followed by \<^verbatim>\<open>return nullptr\<close>.\<close>

definition ign :: "'a act \<Rightarrow> unit act" where
  "ign m = bnd m (\<lambda>_. skip)"

definition return_nullptr :: "unit act \<Rightarrow> Node option act" where
  "return_nullptr m = bnd m (\<lambda>_. ret None)"

text \<open>The result of an accessor of a node, inside a member function.\<close>

definition lift :: "failure + 'a \<Rightarrow> 'a act" where
  "lift x = (case x of Inl e \<Rightarrow> fail e | Inr v \<Rightarrow> ret v)"

text \<open>\<^verbatim>\<open>assert(c)\<close>: nothing in a build without assertions.\<close>

definition assert :: "Ext \<Rightarrow> bool \<Rightarrow> unit act" where
  "assert X c = (if assertions X \<and> \<not> c then fail AssertionFailure else skip)"

text \<open>\<^verbatim>\<open>Printer << text\<close>, for a text, the text of a node, an unsigned and a signed number.\<close>

definition out :: "string \<Rightarrow> unit act" where
  "out str = (\<lambda>s. Inr ((), s\<lparr>Printer := Printer s @ str\<rparr>))"

definition out_text :: "failure + string \<Rightarrow> unit act" where
  "out_text x = bnd (lift x) out"

definition out_unsigned :: "failure + 64 word \<Rightarrow> unit act" where
  "out_unsigned x = bnd (lift x) (\<lambda>n. out (decimal (unat n)))"

definition out_int :: "int \<Rightarrow> unit act" where
  "out_int n = out (signed_decimal n)"

definition writeHex :: "failure + 64 word \<Rightarrow> unit act" where
  "writeHex x = bnd (lift x) (\<lambda>n. out (hexadecimal (unat n)))"

text \<open>\<^verbatim>\<open>Printer.getStringRef().size()\<close>, and the value of an option.\<close>

definition size_of_Printer :: "nat act" where
  "size_of_Printer = (\<lambda>s. Inr (length (Printer s), s))"

definition opt :: "(DemangleOptions \<Rightarrow> 'a) \<Rightarrow> 'a act" where
  "opt f = (\<lambda>s. Inr (f (Options s), s))"

definition setInvalid :: "unit act" where
  "setInvalid = (\<lambda>s. Inr ((), s\<lparr>isValid := False\<rparr>))"

text \<open>
  \<open>print\<close> calls itself on the nodes below its argument; the member functions that it
  calls, and that call it, take it as their first argument \<open>pr\<close>.
\<close>

type_synonym printer = "Node \<Rightarrow> bool \<Rightarrow> Node option act"

text \<open>\<^verbatim>\<open>print(x)\<close> as a statement, for the result \<open>x\<close> of an accessor.\<close>

definition print_node :: "printer \<Rightarrow> failure + Node \<Rightarrow> unit act" where
  "print_node pr x = bnd (lift x) (\<lambda>c. ign (pr c False))"

section \<open>Children, contexts and sugar\<close>

lemma getChild_size: "getChild n i = Inr c \<Longrightarrow> size c < size n"
proof -
  assume "getChild n i = Inr c"
  then have "c \<in> set (Children n)"
    by (auto simp: getChild_def getNumChildren_def split: if_splits)
  then have "size c < Suc (size_list size (Children n))"
    by (simp add: less_Suc_eq_le size_list_estimation')
  then show ?thesis
    by (cases n) simp
qed

text \<open>\<^verbatim>\<open>printChildren(begin, end, sep)\<close> and \<^verbatim>\<open>printChildren(Node, sep)\<close>.\<close>

fun printChildren_range :: "printer \<Rightarrow> Node list \<Rightarrow> string option \<Rightarrow> unit act" where
  "printChildren_range pr [] sep = skip"
| "printChildren_range pr (c # rest) sep =
     block [ign (pr c False),
            (case sep of None \<Rightarrow> skip | Some s \<Rightarrow> if rest \<noteq> [] then out s else skip),
            printChildren_range pr rest sep]"

definition printChildren :: "printer \<Rightarrow> Node \<Rightarrow> string option \<Rightarrow> unit act" where
  "printChildren pr Node sep = printChildren_range pr (Children Node) sep"

definition printBoundGenericNoSugar :: "printer \<Rightarrow> Node \<Rightarrow> unit act" where
  "printBoundGenericNoSugar pr Node =
     (if getNumChildren Node < 2 then skip
      else bnd (lift (getChild Node 1)) (\<lambda>typelist.
        block [print_node pr (getChild Node 0),
               out ''<'',
               printChildren pr typelist (Some '', ''),
               out ''>'']))"

definition printOptionalIndex :: "Ext \<Rightarrow> Node \<Rightarrow> unit act" where
  "printOptionalIndex X node =
     block [assert X (getKind node = ''Index'' \<or> getKind node = ''UnknownIndex''),
            (if hasIndex node
             then block [out ''#'', out_unsigned (getIndex node), out '' '']
             else skip)]"

definition isSwiftModule :: "Ext \<Rightarrow> Node \<Rightarrow> failure + bool" where
  "isSwiftModule X node =
     (if getKind node = ''Module''
      then andThen (getText node) (\<lambda>text. Inr (text = STDLIB_NAME X))
      else Inr False)"

definition startswith :: "string \<Rightarrow> string \<Rightarrow> bool" where
  "startswith text pre = (take (length pre) text = pre)"

definition printContext :: "Ext \<Rightarrow> Node \<Rightarrow> bool act" where
  "printContext X Context =
     bnd (opt QualifyEntities) (\<lambda>qualify.
       if \<not> qualify then ret False
       else if getKind Context = ''Module'' then
         bnd (lift (getText Context)) (\<lambda>text.
           if text = STDLIB_NAME X then opt DisplayStdlibModule
           else if text = MANGLING_MODULE_OBJC X then opt DisplayObjCModule
           else bnd (opt HidingCurrentModule) (\<lambda>hiding.
             if text = hiding then ret False
             else if startswith text (LLDB_EXPRESSIONS_MODULE_NAME_PREFIX X)
               then opt DisplayDebuggerGeneratedModule
             else ret True))
       else ret True)"

definition isIdentifier :: "Node \<Rightarrow> string \<Rightarrow> failure + bool" where
  "isIdentifier node desired =
     (if getKind node = ''Identifier''
      then andThen (getText node) (\<lambda>text. Inr (text = desired))
      else Inr False)"

datatype SugarType =
  Sugar_None | Sugar_Optional | Sugar_ImplicitlyUnwrappedOptional | Sugar_Array
| Sugar_Dictionary

datatype TypePrinting = NoType | WithColon | FunctionStyle

definition printWithParens :: "Ext \<Rightarrow> printer \<Rightarrow> Node \<Rightarrow> unit act" where
  "printWithParens X pr type =
     bnd (lift (isSimpleType X type)) (\<lambda>simple.
       let needs_parens = \<not> simple
       in block [(if needs_parens then out ''('' else skip),
                 ign (pr type False),
                 (if needs_parens then out '')'' else skip)])"

text \<open>
  The condition of each of the four tests of \<^verbatim>\<open>findSugar\<close>, with the short circuit of
  \<^verbatim>\<open>&&\<close>: the identifier, then the number of type arguments, then the module.
\<close>

definition sugar_test :: "Ext \<Rightarrow> Node \<Rightarrow> Node \<Rightarrow> string \<Rightarrow> nat \<Rightarrow> failure + bool" where
  "sugar_test X unboundType typeArgs name n =
     andThen (getChild unboundType 1) (\<lambda>ident.
     andThen (isIdentifier ident name) (\<lambda>named.
       if \<not> named then Inr False
       else if getNumChildren typeArgs \<noteq> n then Inr False
       else andThen (getChild unboundType 0) (isSwiftModule X)))"

function findSugar :: "Ext \<Rightarrow> Node \<Rightarrow> failure + SugarType" where
  "findSugar X Node =
     (if getNumChildren Node = 1 \<and> getKind Node = ''Type'' then
        (case getChild Node 0 of Inl e \<Rightarrow> Inl e | Inr c \<Rightarrow> findSugar X c)
      else if getNumChildren Node \<noteq> 2 then Inr Sugar_None
      else if getKind Node \<noteq> ''BoundGenericEnum'' \<and> getKind Node \<noteq> ''BoundGenericStructure''
        then Inr Sugar_None
      else
        andThen (andThen (getChild Node 0) (\<lambda>c. getChild c 0)) (\<lambda>unboundType.
        andThen (getChild Node 1) (\<lambda>typeArgs.
          if getKind Node = ''BoundGenericEnum'' then
            andThen (sugar_test X unboundType typeArgs ''Optional'' 1) (\<lambda>optional.
              if optional then Inr Sugar_Optional
              else
                andThen (sugar_test X unboundType typeArgs ''ImplicitlyUnwrappedOptional'' 1)
                  (\<lambda>iuo.
                    if iuo then Inr Sugar_ImplicitlyUnwrappedOptional else Inr Sugar_None))
          else
            andThen (sugar_test X unboundType typeArgs ''Array'' 1) (\<lambda>array.
              if array then Inr Sugar_Array
              else
                andThen (sugar_test X unboundType typeArgs ''Dictionary'' 2) (\<lambda>dictionary.
                  if dictionary then Inr Sugar_Dictionary else Inr Sugar_None)))))"
  by pat_completeness auto
termination
  by (relation "measure (\<lambda>(X, Node). size Node)") (auto dest: getChild_size)

declare findSugar.simps [simp del]

definition printBoundGeneric :: "Ext \<Rightarrow> printer \<Rightarrow> Node \<Rightarrow> unit act" where
  "printBoundGeneric X pr Node =
     (if getNumChildren Node < 2 then skip
      else if getNumChildren Node \<noteq> 2 then printBoundGenericNoSugar pr Node
      else bnd (opt SynthesizeSugarOnTypes) (\<lambda>sugar.
        if \<not> sugar \<or> getKind Node = ''BoundGenericClass'' then printBoundGenericNoSugar pr Node
        else if getKind Node = ''BoundGenericProtocol'' then
          bnd (lift (getChild Node 1)) (\<lambda>conforming.
            block [printChildren pr conforming None,
                   out '' as '',
                   print_node pr (getChild Node 0)])
        else
          bnd (lift (findSugar X Node)) (\<lambda>sugarType.
            case sugarType of
              Sugar_None \<Rightarrow> printBoundGenericNoSugar pr Node
            | Sugar_Optional \<Rightarrow>
                bnd (lift (andThen (getChild Node 1) (\<lambda>c. getChild c 0))) (\<lambda>type.
                  block [printWithParens X pr type, out ''?''])
            | Sugar_ImplicitlyUnwrappedOptional \<Rightarrow>
                bnd (lift (andThen (getChild Node 1) (\<lambda>c. getChild c 0))) (\<lambda>type.
                  block [printWithParens X pr type, out ''!''])
            | Sugar_Array \<Rightarrow>
                bnd (lift (andThen (getChild Node 1) (\<lambda>c. getChild c 0))) (\<lambda>type.
                  block [out ''['', ign (pr type False), out '']''])
            | Sugar_Dictionary \<Rightarrow>
                bnd (lift (andThen (getChild Node 1) (\<lambda>c. getChild c 0))) (\<lambda>keyType.
                bnd (lift (andThen (getChild Node 1) (\<lambda>c. getChild c 1))) (\<lambda>valueType.
                  block [out ''['', ign (pr keyType False), out '' : '',
                         ign (pr valueType False), out '']''])))))"

definition getChildIf :: "Node \<Rightarrow> Kind \<Rightarrow> Node option" where
  "getChildIf Node Kind = find (\<lambda>child. getKind child = Kind) (Children Node)"

section \<open>Function types\<close>

definition getLabelFor :: "Ext \<Rightarrow> Node \<Rightarrow> nat \<Rightarrow> string act" where
  "getLabelFor X LabelList Index =
     bnd (lift (getChild LabelList Index)) (\<lambda>Label.
       seq (assert X (getKind Label = ''Identifier'' \<or> getKind Label = ''FirstElementMarker''))
           (if getKind Label = ''Identifier'' then lift (getText Label) else ret ''_''))"

text \<open>
  The call of \<^verbatim>\<open>llvm::interleave\<close> in \<^verbatim>\<open>printFunctionParameters\<close>: the first function
  on each parameter, the second between two parameters.
\<close>

fun printFunctionParameters_each ::
  "Ext \<Rightarrow> printer \<Rightarrow> Node option \<Rightarrow> bool \<Rightarrow> bool \<Rightarrow> nat \<Rightarrow> Node list \<Rightarrow> unit act"
where
  "printFunctionParameters_each X pr LabelList hasLabels showTypes ParamIndex [] = skip"
| "printFunctionParameters_each X pr LabelList hasLabels showTypes ParamIndex (Param # rest) =
     block [assert X (getKind Param = ''TupleElement''),
            (if hasLabels then
               (case LabelList of
                  None \<Rightarrow> skip
                | Some labels \<Rightarrow>
                    bnd (getLabelFor X labels ParamIndex) (\<lambda>label. block [out label, out '':'']))
             else if \<not> showTypes then
               (case getChildIf Param ''TupleElementName'' of
                  Some Label \<Rightarrow> block [out_text (getText Label), out '':'']
                | None \<Rightarrow> out ''_:'')
             else skip),
            (if hasLabels \<and> showTypes then out '' '' else skip),
            (if showTypes then ign (pr Param False) else skip),
            (if rest \<noteq> [] then out (if showTypes then '', '' else []) else skip),
            printFunctionParameters_each X pr LabelList hasLabels showTypes (ParamIndex + 1) rest]"

definition printFunctionParameters ::
  "Ext \<Rightarrow> printer \<Rightarrow> Node option \<Rightarrow> Node \<Rightarrow> bool \<Rightarrow> unit act"
where
  "printFunctionParameters X pr LabelList ParameterType showTypes =
     (if getKind ParameterType \<noteq> ''ArgumentTuple'' then setInvalid
      else
        bnd (lift (getFirstChild ParameterType)) (\<lambda>wrapped.
        seq (assert X (getKind wrapped = ''Type''))
        (bnd (lift (getFirstChild wrapped)) (\<lambda>Parameters.
          if getKind Parameters \<noteq> ''Tuple'' then
            (if showTypes
             then block [out ''('', ign (pr Parameters False), out '')'']
             else out ''(_:)'')
          else
            let hasLabels = (case LabelList of None \<Rightarrow> False | Some labels \<Rightarrow> getNumChildren labels > 0)
            in block [out ''('',
                      printFunctionParameters_each X pr LabelList hasLabels showTypes 0
                        (Children Parameters),
                      out '')'']))))"

definition printConventionWithMangledCType :: "printer \<Rightarrow> Node \<Rightarrow> string \<Rightarrow> unit act" where
  "printConventionWithMangledCType pr node convention =
     block [out ''@convention('', out convention,
            bnd (lift (getFirstChild node)) (\<lambda>first.
              if getKind first = ''ClangType''
              then block [out ('', mangledCType: '' @ [CHR 0x22]), ign (pr first False),
                          out [CHR 0x22]]
              else skip),
            out '') '']"

text \<open>
  The three tests of \<^verbatim>\<open>printFunctionType\<close> on the leading children: the index of the
  parameters, \<open>isAsync\<close> and \<open>isThrows\<close>.
\<close>

definition leading_markers :: "Node \<Rightarrow> failure + (nat \<times> bool \<times> bool)" where
  "leading_markers node =
     andThen (getChild node 0) (\<lambda>c0.
       let i1 = (if getKind c0 = ''ClangType'' then 1 else 0)
       in andThen (getChild node i1) (\<lambda>c1.
         let isThrows = (getKind c1 = ''ThrowsAnnotation'');
             i2 = (if isThrows then i1 + 1 else i1)
         in andThen (getChild node i2) (\<lambda>c2.
           let isAsync = (getKind c2 = ''AsyncAnnotation'');
               i3 = (if isAsync then i2 + 1 else i2)
           in Inr (i3, isAsync, isThrows))))"

definition printFunctionType :: "Ext \<Rightarrow> printer \<Rightarrow> Node option \<Rightarrow> Node \<Rightarrow> unit act" where
  "printFunctionType X pr LabelList node =
     (if getNumChildren node < 2 \<or> getNumChildren node > 5 then setInvalid
      else
        block
         [(if getKind node = ''FunctionType'' \<or> getKind node = ''UncurriedFunctionType''
              \<or> getKind node = ''NoEscapeFunctionType'' then skip
           else if getKind node = ''AutoClosureType'' \<or> getKind node = ''EscapingAutoClosureType''
             then out ''@autoclosure ''
           else if getKind node = ''ThinFunctionType'' then out ''@convention(thin) ''
           else if getKind node = ''CFunctionPointer''
             then printConventionWithMangledCType pr node ''c''
           else if getKind node = ''EscapingObjCBlock''
             then block [out ''@escaping '', printConventionWithMangledCType pr node ''block'']
           else if getKind node = ''ObjCBlock''
             then printConventionWithMangledCType pr node ''block''
           else if getKind node = ''DifferentiableFunctionType'' then out ''@differentiable ''
           else if getKind node = ''EscapingDifferentiableFunctionType''
             then out ''@escaping @differentiable ''
           else if getKind node = ''LinearFunctionType'' then out ''@differentiable(linear) ''
           else if getKind node = ''EscapingLinearFunctionType''
             then out ''@escaping @differentiable(linear) ''
           else assert X False),
          bnd (lift (leading_markers node)) (\<lambda>(startIndex, isAsync, isThrows).
          bnd (opt ShowFunctionArgumentTypes) (\<lambda>showTypes.
            block
             [bnd (lift (getChild node startIndex)) (\<lambda>parameters.
                printFunctionParameters X pr LabelList parameters showTypes),
              (if \<not> showTypes then skip
               else block [(if isAsync then out '' async'' else skip),
                           (if isThrows then out '' throws'' else skip),
                           print_node pr (getChild node (startIndex + 1))])]))])"

section \<open>Implementation function types\<close>

datatype State = Attrs | Inputs | Results

fun State_value :: "State \<Rightarrow> nat" where
  "State_value Attrs = 0"
| "State_value Inputs = 1"
| "State_value Results = 2"

text \<open>
  The loop of \<^verbatim>\<open>transitionTo\<close> runs from the current state to the new one, through at
  most three states: its iterations from \<open>Results\<close>, from \<open>Inputs\<close> and from \<open>Attrs\<close>.
\<close>

definition transition_from_Results :: "State \<Rightarrow> unit act" where
  "transition_from_Results newState =
     (if newState = Results then skip else fail (Unreachable ''no state after Results''))"

definition transition_from_Inputs :: "State \<Rightarrow> unit act" where
  "transition_from_Inputs newState =
     (if newState = Inputs then skip
      else seq (out '') -> ('') (transition_from_Results newState))"

definition transition_from_Attrs :: "printer \<Rightarrow> Node option \<Rightarrow> State \<Rightarrow> unit act" where
  "transition_from_Attrs pr patternSubs newState =
     (if newState = Attrs then skip
      else
        seq (block [(case patternSubs of
                       None \<Rightarrow> skip
                     | Some subs \<Rightarrow>
                         block [out ''@substituted '', print_node pr (getChild subs 0), out '' '']),
                    out ''(''])
            (transition_from_Inputs newState))"

definition transitionTo :: "Ext \<Rightarrow> printer \<Rightarrow> Node option \<Rightarrow> State \<Rightarrow> State \<Rightarrow> unit act" where
  "transitionTo X pr patternSubs curState newState =
     seq (assert X (State_value newState \<ge> State_value curState))
       (case curState of
          Attrs \<Rightarrow> transition_from_Attrs pr patternSubs newState
        | Inputs \<Rightarrow> transition_from_Inputs newState
        | Results \<Rightarrow> transition_from_Results newState)"

text \<open>
  The loop over the children of \<^verbatim>\<open>printImplFunctionType\<close>, with its three variables
  \<open>curState\<close>, \<open>patternSubs\<close> and \<open>invocationSubs\<close>.
\<close>

fun printImplFunctionType_loop ::
  "Ext \<Rightarrow> printer \<Rightarrow> Node list \<Rightarrow> State \<Rightarrow> Node option \<Rightarrow> Node option
     \<Rightarrow> (State \<times> Node option \<times> Node option) act"
where
  "printImplFunctionType_loop X pr [] curState patternSubs invocationSubs =
     ret (curState, patternSubs, invocationSubs)"
| "printImplFunctionType_loop X pr (child # rest) curState patternSubs invocationSubs =
     (if getKind child = ''ImplParameter'' then
        seq (block [(if curState = Inputs then out '', '' else skip),
                    transitionTo X pr patternSubs curState Inputs,
                    ign (pr child False)])
            (printImplFunctionType_loop X pr rest Inputs patternSubs invocationSubs)
      else if getKind child = ''ImplResult'' \<or> getKind child = ''ImplYield''
              \<or> getKind child = ''ImplErrorResult'' then
        seq (block [(if curState = Results then out '', '' else skip),
                    transitionTo X pr patternSubs curState Results,
                    ign (pr child False)])
            (printImplFunctionType_loop X pr rest Results patternSubs invocationSubs)
      else if getKind child = ''ImplPatternSubstitutions'' then
        printImplFunctionType_loop X pr rest curState (Some child) invocationSubs
      else if getKind child = ''ImplInvocationSubstitutions'' then
        printImplFunctionType_loop X pr rest curState patternSubs (Some child)
      else
        seq (block [assert X (curState = Attrs), ign (pr child False), out '' ''])
            (printImplFunctionType_loop X pr rest curState patternSubs invocationSubs))"

definition printImplFunctionType :: "Ext \<Rightarrow> printer \<Rightarrow> Node \<Rightarrow> unit act" where
  "printImplFunctionType X pr fn =
     bnd (printImplFunctionType_loop X pr (Children fn) Attrs None None)
       (\<lambda>(curState, patternSubs, invocationSubs).
         block [transitionTo X pr patternSubs curState Results,
                out '')'',
                (case patternSubs of
                   None \<Rightarrow> skip
                 | Some subs \<Rightarrow>
                     block [out '' for <'',
                            bnd (lift (getChild subs 1)) (\<lambda>c. printChildren pr c None),
                            out ''>'']),
                (case invocationSubs of
                   None \<Rightarrow> skip
                 | Some subs \<Rightarrow>
                     block [out '' for <'',
                            bnd (lift (getChild subs 0)) (\<lambda>c. printChildren pr c None),
                            out ''>''])])"

section \<open>Specializations\<close>

text \<open>
  The inner loop of the case \<open>ClosureProp\<close>, over the children from \<open>Idx\<close> on; it returns
  the new \<open>Idx\<close>.
\<close>

fun print_closure_types :: "printer \<Rightarrow> Node list \<Rightarrow> nat \<Rightarrow> nat act" where
  "print_closure_types pr [] Idx = ret Idx"
| "print_closure_types pr (child # rest) Idx =
     (if getKind child \<noteq> ''Type'' then ret Idx
      else
        seq (block [ign (pr child False),
                    (case rest of
                       [] \<Rightarrow> skip
                     | following # _ \<Rightarrow> if hasText following then out '', '' else skip)])
            (print_closure_types pr rest (Idx + 1)))"

text \<open>
  One iteration of the loop of \<^verbatim>\<open>printFunctionSigSpecializationParams\<close>, from the child
  at \<open>Idx\<close>; it returns the new \<open>Idx\<close>.
\<close>

definition printFunctionSigSpecializationParams_step ::
  "Ext \<Rightarrow> printer \<Rightarrow> Node \<Rightarrow> nat \<Rightarrow> nat act"
where
  "printFunctionSigSpecializationParams_step X pr Node Idx =
     bnd (lift (andThen (getChild Node Idx) getIndex)) (\<lambda>index.
       let V = (ucast index :: 32 word);
           K = (\<lambda>k. V = paramKindValue X k)
       in
       if K BoxToValue \<or> K BoxToStack then
         seq (print_node pr (getChild Node Idx)) (ret (Idx + 1))
       else if K ConstantPropFunction \<or> K ConstantPropGlobal then
         seq (block [out ''['',
                     print_node pr (getChild Node Idx),
                     out '' : '',
                     bnd (lift (andThen (getChild Node (Idx + 1)) getText)) (\<lambda>text.
                       let demangledName = demangleSymbolAsString X text
                       in if demangledName = [] then out text else out demangledName),
                     out '']''])
             (ret (Idx + 2))
       else if K ConstantPropInteger \<or> K ConstantPropFloat then
         seq (block [out ''['',
                     print_node pr (getChild Node Idx),
                     out '' : '',
                     print_node pr (getChild Node (Idx + 1)),
                     out '']''])
             (ret (Idx + 2))
       else if K ConstantPropString then
         seq (block [out ''['',
                     print_node pr (getChild Node Idx),
                     out '' : '',
                     print_node pr (getChild Node (Idx + 1)),
                     out [CHR 0x27],
                     print_node pr (getChild Node (Idx + 2)),
                     out [CHR 0x27],
                     out '']''])
             (ret (Idx + 3))
       else if K ClosureProp then
         seq (block [out ''['',
                     print_node pr (getChild Node Idx),
                     out '' : '',
                     print_node pr (getChild Node (Idx + 1)),
                     out '', Argument Types : [''])
             (bnd (print_closure_types pr (drop (Idx + 2) (Children Node)) (Idx + 2)) (\<lambda>Idx'.
                seq (out '']'') (ret Idx')))
       else
         seq (block [assert X
                       (V AND paramKindValue X OwnedToGuaranteed \<noteq> 0
                        \<or> V AND paramKindValue X GuaranteedToOwned \<noteq> 0
                        \<or> V AND paramKindValue X SROA \<noteq> 0
                        \<or> V AND paramKindValue X Dead \<noteq> 0
                        \<or> V AND paramKindValue X ExistentialToGeneric \<noteq> 0),
                     print_node pr (getChild Node Idx)])
             (ret (Idx + 1)))"

function printFunctionSigSpecializationParams_from ::
  "Ext \<Rightarrow> printer \<Rightarrow> Node \<Rightarrow> nat \<Rightarrow> unit act"
where
  "printFunctionSigSpecializationParams_from X pr Node Idx =
     (if Idx < getNumChildren Node then
        bnd (printFunctionSigSpecializationParams_step X pr Node Idx) (\<lambda>Idx'.
          if Idx < Idx' then printFunctionSigSpecializationParams_from X pr Node Idx'
          else fail NoProgress)
      else skip)"
  by pat_completeness auto
termination
  by (relation "measure (\<lambda>(X, pr, Node, Idx). getNumChildren Node - Idx)") auto

declare printFunctionSigSpecializationParams_from.simps [simp del]

definition printFunctionSigSpecializationParams :: "Ext \<Rightarrow> printer \<Rightarrow> Node \<Rightarrow> unit act" where
  "printFunctionSigSpecializationParams X pr Node =
     printFunctionSigSpecializationParams_from X pr Node 0"

definition getSpecializationPrefixPrinted :: "bool act" where
  "getSpecializationPrefixPrinted = (\<lambda>s. Inr (SpecializationPrefixPrinted s, s))"

definition setSpecializationPrefixPrinted :: "unit act" where
  "setSpecializationPrefixPrinted = (\<lambda>s. Inr ((), s\<lparr>SpecializationPrefixPrinted := True\<rparr>))"

text \<open>
  The loop over the children of \<^verbatim>\<open>printSpecializationPrefix\<close>, with its variables
  \<open>Separator\<close> and \<open>argNum\<close>.
\<close>

fun printSpecializationPrefix_loop ::
  "Ext \<Rightarrow> printer \<Rightarrow> string \<Rightarrow> Node list \<Rightarrow> string \<Rightarrow> nat \<Rightarrow> unit act"
where
  "printSpecializationPrefix_loop X pr ParamPrefix [] Separator argNum = skip"
| "printSpecializationPrefix_loop X pr ParamPrefix (child # rest) Separator argNum =
     (if getKind child = ''SpecializationPassID'' then
        printSpecializationPrefix_loop X pr ParamPrefix rest Separator argNum
      else if getKind child = ''IsSerialized'' then
        seq (block [out Separator, ign (pr child False)])
            (printSpecializationPrefix_loop X pr ParamPrefix rest '', '' argNum)
      else if hasChildren child then
        seq (block [out Separator, out ParamPrefix,
                    (if getKind child = ''FunctionSignatureSpecializationParam'' then
                       block [out ''Arg['', out_int (int argNum), out ''] = '',
                              printFunctionSigSpecializationParams X pr child]
                     else if getKind child = ''FunctionSignatureSpecializationReturn'' then
                       block [out ''Return = '',
                              printFunctionSigSpecializationParams X pr child]
                     else ign (pr child False))])
            (printSpecializationPrefix_loop X pr ParamPrefix rest '', '' (argNum + 1))
      else printSpecializationPrefix_loop X pr ParamPrefix rest Separator (argNum + 1))"

definition printSpecializationPrefix ::
  "Ext \<Rightarrow> printer \<Rightarrow> Node \<Rightarrow> string \<Rightarrow> string \<Rightarrow> unit act"
where
  "printSpecializationPrefix X pr node Description ParamPrefix =
     bnd (opt DisplayGenericSpecializations) (\<lambda>display.
       if \<not> display then
         bnd getSpecializationPrefixPrinted (\<lambda>printed.
           if \<not> printed then block [out ''specialized '', setSpecializationPrefixPrinted]
           else skip)
       else
         block [out Description, out '' <'',
                printSpecializationPrefix_loop X pr ParamPrefix (Children node) [] 0,
                out ''> of ''])"

section \<open>Entities\<close>

definition isExistentialType :: "Node \<Rightarrow> bool" where
  "isExistentialType node =
     (getKind node = ''ExistentialMetatype'' \<or> getKind node = ''ProtocolList''
      \<or> getKind node = ''ProtocolListWithClass''
      \<or> getKind node = ''ProtocolListWithAnyObject'')"

definition isClassType :: "Node \<Rightarrow> bool" where
  "isClassType Node = (getKind Node = ''Class'')"

function needSpaceBeforeType :: "Node \<Rightarrow> failure + bool" where
  "needSpaceBeforeType type =
     (if getKind type = ''Type'' then
        (case getFirstChild type of Inl e \<Rightarrow> Inl e | Inr c \<Rightarrow> needSpaceBeforeType c)
      else if getKind type = ''FunctionType'' \<or> getKind type = ''NoEscapeFunctionType''
              \<or> getKind type = ''UncurriedFunctionType''
              \<or> getKind type = ''DependentGenericType'' then Inr False
      else Inr True)"
  by pat_completeness auto
termination
  by (relation "measure size") (auto simp: getFirstChild_def dest: getChild_size)

declare needSpaceBeforeType.simps [simp del]

text \<open>
  The loop of \<^verbatim>\<open>printEntity\<close> that descends through \<open>DependentGenericType\<close> nodes:
  \<^verbatim>\<open>while (t->getKind() == Node::Kind::DependentGenericType) t = t->getChild(1)->getChild(0)\<close>.
\<close>

function underlying_type :: "Node \<Rightarrow> failure + Node" where
  "underlying_type t =
     (if getKind t = ''DependentGenericType'' then
        (case getChild t 1 of
           Inl e \<Rightarrow> Inl e
         | Inr c \<Rightarrow> (case getChild c 0 of Inl e \<Rightarrow> Inl e | Inr t' \<Rightarrow> underlying_type t'))
      else Inr t)"
  by pat_completeness auto
termination
proof (relation "measure size")
  show "wf (measure size)" by simp
next
  fix t c t' :: Node
  assume "getChild t 1 = Inr c" and "getChild c 0 = Inr t'"
  then have "size t' < size c" and "size c < size t"
    by (auto dest: getChild_size)
  then show "(t', t) \<in> measure size" by simp
qed

declare underlying_type.simps [simp del]

definition printEntityType :: "Ext \<Rightarrow> printer \<Rightarrow> Node \<Rightarrow> Node \<Rightarrow> Node option \<Rightarrow> unit act" where
  "printEntityType X pr Entity type genericFunctionTypeList =
     (let labelList = getChildIf Entity ''LabelList'' in
      if labelList \<noteq> None \<or> genericFunctionTypeList \<noteq> None then
        seq (case genericFunctionTypeList of
               None \<Rightarrow> skip
             | Some generics \<Rightarrow>
                 block [out ''<'', printChildren pr generics (Some '', ''), out ''>''])
          (if getKind type = ''DependentGenericType'' then
             seq (if genericFunctionTypeList = None then print_node pr (getChild type 0) else skip)
               (bnd (lift (getChild type 1)) (\<lambda>dependentType.
                bnd (lift (needSpaceBeforeType dependentType)) (\<lambda>space.
                  seq (if space then out '' '' else skip)
                    (bnd (lift (getFirstChild dependentType)) (\<lambda>type'.
                       printFunctionType X pr labelList type')))))
           else printFunctionType X pr labelList type)
      else ign (pr type False))"

text \<open>
  The part of \<^verbatim>\<open>printEntity\<close> that prints the name; it returns the extra name that is
  left to print.
\<close>

definition printEntity_name ::
  "Ext \<Rightarrow> printer \<Rightarrow> Node \<Rightarrow> bool \<Rightarrow> bool \<Rightarrow> string \<Rightarrow> int \<Rightarrow> string \<Rightarrow> string act"
where
  "printEntity_name X pr Entity hasName MultiWordName ExtraName ExtraIndex OverwriteName =
     (if hasName \<or> OverwriteName \<noteq> [] then
        seq (assert X (ExtraIndex < 0))
       (bnd (if ExtraName \<noteq> [] \<and> MultiWordName
             then seq (block [out ExtraName, out '' of '']) (ret [])
             else ret ExtraName) (\<lambda>ExtraName'.
        bnd size_of_Printer (\<lambda>CurrentPos.
        seq (if OverwriteName \<noteq> [] then out OverwriteName
             else
               bnd (lift (getChild Entity 1)) (\<lambda>Name.
                 block [(if getKind Name \<noteq> ''PrivateDeclName'' then ign (pr Name False) else skip),
                        (case getChildIf Entity ''PrivateDeclName'' of
                           None \<Rightarrow> skip
                         | Some PrivateName \<Rightarrow> ign (pr PrivateName False))]))
       (bnd size_of_Printer (\<lambda>pos.
        seq (if pos \<noteq> CurrentPos \<and> ExtraName' \<noteq> [] then out ''.'' else skip)
            (ret ExtraName'))))))
      else ret ExtraName)"

text \<open>
  The part of \<^verbatim>\<open>printEntity\<close> that prints the type; it returns false where the source
  returns from \<^verbatim>\<open>printEntity\<close>.
\<close>

definition printEntity_type ::
  "Ext \<Rightarrow> printer \<Rightarrow> Node \<Rightarrow> TypePrinting \<Rightarrow> bool \<Rightarrow> Node option \<Rightarrow> bool act"
where
  "printEntity_type X pr Entity TypePr MultiWordName genericFunctionTypeList =
     (if TypePr \<noteq> NoType then
        (case getChildIf Entity ''Type'' of
           None \<Rightarrow> seq (assert X False) (seq setInvalid (ret False))
         | Some wrapped \<Rightarrow>
             bnd (lift (getChild wrapped 0)) (\<lambda>type.
             bnd (lift (if TypePr = FunctionStyle then
                          andThen (underlying_type type) (\<lambda>t.
                            if getKind t \<noteq> ''FunctionType''
                               \<and> getKind t \<noteq> ''NoEscapeFunctionType''
                               \<and> getKind t \<noteq> ''UncurriedFunctionType''
                               \<and> getKind t \<noteq> ''CFunctionPointer''
                               \<and> getKind t \<noteq> ''ThinFunctionType''
                            then Inr WithColon else Inr TypePr)
                        else Inr TypePr)) (\<lambda>TypePr'.
               seq (if TypePr' = WithColon then
                      bnd (opt DisplayEntityTypes) (\<lambda>display.
                        if display
                        then block [out '' : '',
                                    printEntityType X pr Entity type genericFunctionTypeList]
                        else skip)
                    else
                      block [assert X (TypePr' = FunctionStyle),
                             (if MultiWordName then out '' ''
                              else bnd (lift (needSpaceBeforeType type)) (\<lambda>space.
                                     if space then out '' '' else skip)),
                             printEntityType X pr Entity type genericFunctionTypeList])
                   (ret True))))
      else ret True)"

definition printEntity ::
  "Ext \<Rightarrow> printer \<Rightarrow> Node \<Rightarrow> bool \<Rightarrow> TypePrinting \<Rightarrow> bool \<Rightarrow> string \<Rightarrow> int \<Rightarrow> string
     \<Rightarrow> Node option act"
where
  "printEntity X pr Entity0 asPrefixContext TypePr hasName ExtraName ExtraIndex OverwriteName =
     bnd (lift (if getKind Entity0 = ''BoundGenericFunction''
                then andThen (getChild Entity0 1) (\<lambda>generics.
                     andThen (getFirstChild Entity0) (\<lambda>inner. Inr (Some generics, inner)))
                else Inr (None, Entity0))) (\<lambda>(genericFunctionTypeList, Entity).
     bnd (lift (if hasName
                then andThen (getChild Entity 1) (\<lambda>name. Inr (getKind name = ''LocalDeclName''))
                else Inr False)) (\<lambda>LocalName.
     bnd (opt DisplayLocalNameContexts) (\<lambda>DisplayLocalNameContexts.
       let MultiWordName = (CHR '' '' \<in> set ExtraName \<or> (LocalName \<and> DisplayLocalNameContexts))
       in
       if asPrefixContext \<and> (TypePr \<noteq> NoType \<or> MultiWordName) then ret (Some Entity)
       else
         bnd (lift (getChild Entity 0)) (\<lambda>Context.
         bnd (printContext X Context) (\<lambda>shown.
         bnd (if shown then
                (if MultiWordName then ret (Some Context)
                 else
                   bnd size_of_Printer (\<lambda>CurrentPos.
                   bnd (pr Context True) (\<lambda>PostfixContext.
                   bnd size_of_Printer (\<lambda>pos.
                     seq (if pos \<noteq> CurrentPos then out ''.'' else skip)
                         (ret PostfixContext)))))
              else ret None) (\<lambda>PostfixContext.
         bnd (printEntity_name X pr Entity hasName MultiWordName ExtraName ExtraIndex
                OverwriteName) (\<lambda>ExtraName'.
         seq (if ExtraName' \<noteq> []
              then block [out ExtraName', (if ExtraIndex \<ge> 0 then out_int ExtraIndex else skip)]
              else skip)
        (bnd (printEntity_type X pr Entity TypePr MultiWordName genericFunctionTypeList)
           (\<lambda>continue.
             if \<not> continue then ret None
             else
               (case PostfixContext of
                  None \<Rightarrow> ret None
                | Some context \<Rightarrow>
                    if \<not> asPrefixContext \<and> (\<not> LocalName \<or> DisplayLocalNameContexts) then
                      seq (block [(if getKind Entity = ''DefaultArgumentInitializer''
                                      \<or> getKind Entity = ''Initializer''
                                      \<or> getKind Entity = ''PropertyWrapperBackingInitializer''
                                   then out '' of '' else out '' in ''),
                                  ign (pr context False)])
                          (ret None)
                    else ret (Some context)))))))))))"

definition printAbstractStorage ::
  "Ext \<Rightarrow> printer \<Rightarrow> failure + Node \<Rightarrow> bool \<Rightarrow> string \<Rightarrow> Node option act"
where
  "printAbstractStorage X pr storage asPrefixContent ExtraName =
     bnd (lift storage) (\<lambda>Node.
       if getKind Node = ''Variable'' then
         printEntity X pr Node asPrefixContent WithColon True ExtraName (- 1) []
       else if getKind Node = ''Subscript'' then
         printEntity X pr Node asPrefixContent WithColon False ExtraName (- 1) ''subscript''
       else fail (Unreachable ''Not an abstract storage node''))"

text \<open>
  The conversion \<^verbatim>\<open>(int)\<close> of an index: the low 32 bits as a signed number; and the
  addition of one to it, in 32 bits: at the largest \<^verbatim>\<open>int\<close> the addition wraps around.
\<close>

definition to_int :: "64 word \<Rightarrow> int" where
  "to_int w = sint (ucast w :: 32 word)"

definition to_int_plus_1 :: "64 word \<Rightarrow> failure + int" where
  "to_int_plus_1 w = Inr (sint ((ucast w :: 32 word) + 1))"

section \<open>Loops and tables of the dispatcher\<close>

fun Directness_toString :: "Directness \<Rightarrow> string" where
  "Directness_toString Direct = ''direct''"
| "Directness_toString Indirect = ''indirect''"

fun ValueWitnessKind_toString :: "ValueWitnessKind \<Rightarrow> string" where
  "ValueWitnessKind_toString AllocateBuffer = ''allocateBuffer''"
| "ValueWitnessKind_toString AssignWithCopy = ''assignWithCopy''"
| "ValueWitnessKind_toString AssignWithTake = ''assignWithTake''"
| "ValueWitnessKind_toString DeallocateBuffer = ''deallocateBuffer''"
| "ValueWitnessKind_toString Destroy = ''destroy''"
| "ValueWitnessKind_toString DestroyBuffer = ''destroyBuffer''"
| "ValueWitnessKind_toString InitializeBufferWithCopyOfBuffer = ''initializeBufferWithCopyOfBuffer''"
| "ValueWitnessKind_toString InitializeBufferWithCopy = ''initializeBufferWithCopy''"
| "ValueWitnessKind_toString InitializeWithCopy = ''initializeWithCopy''"
| "ValueWitnessKind_toString InitializeBufferWithTake = ''initializeBufferWithTake''"
| "ValueWitnessKind_toString InitializeWithTake = ''initializeWithTake''"
| "ValueWitnessKind_toString ProjectBuffer = ''projectBuffer''"
| "ValueWitnessKind_toString InitializeBufferWithTakeOfBuffer = ''initializeBufferWithTakeOfBuffer''"
| "ValueWitnessKind_toString DestroyArray = ''destroyArray''"
| "ValueWitnessKind_toString InitializeArrayWithCopy = ''initializeArrayWithCopy''"
| "ValueWitnessKind_toString InitializeArrayWithTakeFrontToBack = ''initializeArrayWithTakeFrontToBack''"
| "ValueWitnessKind_toString InitializeArrayWithTakeBackToFront = ''initializeArrayWithTakeBackToFront''"
| "ValueWitnessKind_toString StoreExtraInhabitant = ''storeExtraInhabitant''"
| "ValueWitnessKind_toString GetExtraInhabitantIndex = ''getExtraInhabitantIndex''"
| "ValueWitnessKind_toString GetEnumTag = ''getEnumTag''"
| "ValueWitnessKind_toString DestructiveProjectEnumData = ''destructiveProjectEnumData''"
| "ValueWitnessKind_toString DestructiveInjectEnumTag = ''destructiveInjectEnumTag''"
| "ValueWitnessKind_toString GetEnumTagSinglePayload = ''getEnumTagSinglePayload''"
| "ValueWitnessKind_toString StoreEnumTagSinglePayload = ''storeEnumTagSinglePayload''"

text \<open>
  \<^verbatim>\<open>toString(Directness(i))\<close> and \<^verbatim>\<open>toString(ValueWitnessKind(i))\<close>: a value that is no
  enumerator reaches \<^verbatim>\<open>printer_unreachable\<close>.
\<close>

definition toString_Directness :: "Ext \<Rightarrow> 64 word \<Rightarrow> failure + string" where
  "toString_Directness X i =
     (case toDirectness X i of
        Some d \<Rightarrow> Inr (Directness_toString d)
      | None \<Rightarrow> Inl (Unreachable ''bad directness''))"

definition toString_ValueWitnessKind :: "Ext \<Rightarrow> 64 word \<Rightarrow> failure + string" where
  "toString_ValueWitnessKind X i =
     (case toValueWitnessKind X i of
        Some k \<Rightarrow> Inr (ValueWitnessKind_toString k)
      | None \<Rightarrow> Inl (Unreachable ''bad value witness kind''))"

text \<open>\<^verbatim>\<open>Printer << QuotedString(text)\<close>.\<close>

definition out_QuotedString :: "failure + string \<Rightarrow> unit act" where
  "out_QuotedString x =
     bnd (lift x) (\<lambda>Value s. Inr ((), s\<lparr>Printer := print_QuotedString (Printer s) Value\<rparr>))"

text \<open>\<^verbatim>\<open>print(x, true)\<close> as a statement.\<close>

definition print_node_as_prefix :: "printer \<Rightarrow> failure + Node \<Rightarrow> unit act" where
  "print_node_as_prefix pr x = bnd (lift x) (\<lambda>c. ign (pr c True))"

text \<open>
  The loops of the form \<^verbatim>\<open>for (i ...) { if (i != first) Printer << sep; print(child i); }\<close>,
  over the children that the loop visits; \<open>first\<close> holds in the first iteration.
\<close>

fun print_separated :: "printer \<Rightarrow> string \<Rightarrow> bool \<Rightarrow> Node list \<Rightarrow> unit act" where
  "print_separated pr sep first [] = skip"
| "print_separated pr sep first (c # rest) =
     block [(if \<not> first then out sep else skip),
            ign (pr c False),
            print_separated pr sep False rest]"

text \<open>The loop of the case \<open>GenericSpecializationParam\<close>, from the child at \<open>i\<close>.\<close>

fun print_with_and :: "printer \<Rightarrow> nat \<Rightarrow> Node list \<Rightarrow> unit act" where
  "print_with_and pr i [] = skip"
| "print_with_and pr i (c # rest) =
     block [(if i = 1 then out '' with '' else out '' and ''),
            ign (pr c False),
            print_with_and pr (i + 1) rest]"

text \<open>The loop of the key path getter and setter, over the children from the second on.\<close>

fun print_key_path_rest :: "printer \<Rightarrow> Node list \<Rightarrow> unit act" where
  "print_key_path_rest pr [] = skip"
| "print_key_path_rest pr (Child # rest) =
     block [(if getKind Child = ''IsSerialized'' then out '', '' else skip),
            ign (pr Child False),
            print_key_path_rest pr rest]"

text \<open>The loop of the case \<open>SILBoxLayout\<close>; \<open>first\<close> holds in the first iteration.\<close>

fun print_box_fields :: "printer \<Rightarrow> bool \<Rightarrow> Node list \<Rightarrow> unit act" where
  "print_box_fields pr first [] = skip"
| "print_box_fields pr first (c # rest) =
     block [(if \<not> first then out '','' else skip),
            out '' '',
            ign (pr c False),
            print_box_fields pr False rest]"

text \<open>
  The two nested loops of the case \<open>DependentGenericSignature\<close>: the names of the
  parameters of one depth, of which at most 128 are printed, and the leading children
  of kind \<open>DependentGenericParamCount\<close>; the outer loop returns the depth it reaches.
\<close>

function print_generic_params ::
  "(64 word \<Rightarrow> 64 word \<Rightarrow> string) \<Rightarrow> nat \<Rightarrow> nat \<Rightarrow> nat \<Rightarrow> unit act"
where
  "print_generic_params namer depth count index =
     (if index < count then
        block [(if index \<noteq> 0 then out '', '' else skip),
               (if index \<ge> 128 then out ''...''
                else block [out (namer (of_nat depth) (of_nat index)),
                            print_generic_params namer depth count (index + 1)])]
      else skip)"
  by pat_completeness auto
termination
  by (relation "measure (\<lambda>(namer, depth, count, index). count - index)") auto

declare print_generic_params.simps [simp del]

fun print_param_counts ::
  "(64 word \<Rightarrow> 64 word \<Rightarrow> string) \<Rightarrow> Node list \<Rightarrow> nat \<Rightarrow> nat act"
where
  "print_param_counts namer [] depth = ret depth"
| "print_param_counts namer (c # rest) depth =
     (if getKind c = ''DependentGenericParamCount'' then
        seq (block [(if depth \<noteq> 0 then out ''><'' else skip),
                    bnd (lift (getIndex c)) (\<lambda>count.
                      print_generic_params namer depth (unat (ucast count :: 32 word)) 0)])
            (print_param_counts namer rest (depth + 1))
      else ret depth)"

definition print_DependentGenericSignature :: "printer \<Rightarrow> Node \<Rightarrow> unit act" where
  "print_DependentGenericSignature pr Node =
     bnd (opt GenericParameterName) (\<lambda>namer.
       block [out ''<'',
              bnd (print_param_counts namer (Children Node) 0) (\<lambda>depth.
                if depth \<noteq> getNumChildren Node then
                  bnd (opt DisplayWhereClauses) (\<lambda>display.
                    if display
                    then block [out '' where '',
                                print_separated pr '', '' True (drop depth (Children Node))]
                    else skip)
                else skip),
              out ''>''])"

text \<open>The case \<open>FunctionSignatureSpecializationParamKind\<close>: the flags, then the switch.\<close>

definition print_FunctionSignatureSpecializationParamKind :: "Ext \<Rightarrow> Node \<Rightarrow> unit act" where
  "print_FunctionSignatureSpecializationParamKind X Node =
     bnd (lift (getIndex Node)) (\<lambda>raw.
       let flag = (\<lambda>k. raw AND ucast (paramKindValue X k) \<noteq> 0);
           K = (\<lambda>k. (ucast raw :: 32 word) = paramKindValue X k);
           ex = flag ExistentialToGeneric;
           de = flag Dead;
           ow = flag OwnedToGuaranteed;
           gu = flag GuaranteedToOwned
       in
       block
        [(if ex then out ''Existential To Protocol Constrained Generic'' else skip),
         (if de then block [(if ex then out '' and '' else skip), out ''Dead''] else skip),
         (if ow then block [(if ex \<or> de then out '' and '' else skip), out ''Owned To Guaranteed'']
          else skip),
         (if gu then block [(if ex \<or> de \<or> ow then out '' and '' else skip),
                           out ''Guaranteed To Owned'']
          else skip),
         (if flag SROA
          then block [(if ex \<or> de \<or> ow \<or> gu then out '' and '' else skip), out ''Exploded'']
          else if ex \<or> de \<or> ow \<or> gu then skip
          else if K BoxToValue then out ''Value Promoted from Box''
          else if K BoxToStack then out ''Stack Promoted from Box''
          else if K ConstantPropFunction then out ''Constant Propagated Function''
          else if K ConstantPropGlobal then out ''Constant Propagated Global''
          else if K ConstantPropInteger then out ''Constant Propagated Integer''
          else if K ConstantPropFloat then out ''Constant Propagated Float''
          else if K ConstantPropString then out ''Constant Propagated String''
          else if K ClosureProp then out ''Closure Propagated''
          else if K ExistentialToGeneric \<or> K Dead \<or> K OwnedToGuaranteed
                  \<or> K GuaranteedToOwned \<or> K SROA
            then fail (Unreachable ''option sets should have been handled earlier'')
          else skip)])"

text \<open>The table of the case \<open>DependentGenericLayoutRequirement\<close>.\<close>

definition layout_name :: "char \<Rightarrow> string" where
  "layout_name c =
     (if c = CHR ''U'' then ''_UnknownLayout''
      else if c = CHR ''R'' then ''_RefCountedObject''
      else if c = CHR ''N'' then ''_NativeRefCountedObject''
      else if c = CHR ''C'' then ''AnyObject''
      else if c = CHR ''D'' then ''_NativeClass''
      else if c = CHR ''T'' then ''_Trivial''
      else if c = CHR ''E'' \<or> c = CHR ''e'' then ''_Trivial''
      else if c = CHR ''M'' \<or> c = CHR ''m'' then ''_TrivialAtMost''
      else [])"

section \<open>The dispatcher\<close>

text \<open>A sequence of statements that ends with \<^verbatim>\<open>return nullptr\<close>.\<close>

definition stmts :: "unit act list \<Rightarrow> Node option act" where
  "stmts ms = return_nullptr (block ms)"

text \<open>
  The switch of \<^verbatim>\<open>print\<close> on the kind of the node, in the order of the source and in
  8 parts: a part gives the action of the case that has the kind among its labels, if
  it has one.
\<close>

definition print_cases_1 :: "Ext \<Rightarrow> printer \<Rightarrow> Node \<Rightarrow> bool \<Rightarrow> Node option act option" where
  "print_cases_1 X pr Node asPrefixContext =
     (let kind = getKind Node in
      if kind = ''Static'' then
        Some (stmts [out ''static '',
                           print_node pr (getChild Node 0)])
      else if kind = ''CurryThunk'' then
        Some (stmts [out ''curry thunk of '',
                           print_node pr (getChild Node 0)])
      else if kind = ''DispatchThunk'' then
        Some (stmts [out ''dispatch thunk of '',
                           print_node pr (getChild Node 0)])
      else if kind = ''MethodDescriptor'' then
        Some (stmts [out ''method descriptor for '',
                           print_node pr (getChild Node 0)])
      else if kind = ''MethodLookupFunction'' then
        Some (stmts [out ''method lookup function for '',
                           print_node pr (getChild Node 0)])
      else if kind = ''ObjCMetadataUpdateFunction'' then
        Some (stmts [out ''ObjC metadata update function for '',
                           print_node pr (getChild Node 0)])
      else if kind = ''ObjCResilientClassStub'' then
        Some (stmts [out ''ObjC resilient class stub for '',
                           print_node pr (getChild Node 0)])
      else if kind = ''FullObjCResilientClassStub'' then
        Some (stmts [out ''full ObjC resilient class stub for '',
                           print_node pr (getChild Node 0)])
      else if kind = ''OutlinedBridgedMethod'' then
        Some (stmts [out ''outlined bridged method ('',
                           out_text (getText Node),
                           out '') of ''])
      else if kind = ''OutlinedCopy'' then
        Some (stmts [out ''outlined copy of '',
                  print_node pr (getChild Node 0),
                  (if getNumChildren Node > 1 then print_node pr (getChild Node 1) else skip)])
      else if kind = ''OutlinedConsume'' then
        Some (stmts [out ''outlined consume of '',
                  print_node pr (getChild Node 0),
                  (if getNumChildren Node > 1 then print_node pr (getChild Node 1) else skip)])
      else if kind = ''OutlinedRetain'' then
        Some (stmts [out ''outlined retain of '',
                           print_node pr (getChild Node 0)])
      else if kind = ''OutlinedRelease'' then
        Some (stmts [out ''outlined release of '',
                           print_node pr (getChild Node 0)])
      else if kind = ''OutlinedInitializeWithTake'' then
        Some (stmts [out ''outlined init with take of '',
                           print_node pr (getChild Node 0)])
      else if kind = ''OutlinedInitializeWithCopy'' then
        Some (stmts [out ''outlined init with copy of '',
                           print_node pr (getChild Node 0)])
      else if kind = ''OutlinedAssignWithTake'' then
        Some (stmts [out ''outlined assign with take of '',
                           print_node pr (getChild Node 0)])
      else if kind = ''OutlinedAssignWithCopy'' then
        Some (stmts [out ''outlined assign with copy of '',
                           print_node pr (getChild Node 0)])
      else if kind = ''OutlinedDestroy'' then
        Some (stmts [out ''outlined destroy of '',
                           print_node pr (getChild Node 0)])
      else if kind = ''OutlinedVariable'' then
        Some (stmts [out ''outlined variable #'',
                           out_unsigned (getIndex Node),
                           out '' of ''])
      else if kind = ''Directness'' then
        Some (stmts [out_text (andThen (getIndex Node) (toString_Directness X)), out '' ''])
      else if kind = ''AnonymousContext'' then
        Some (stmts [bnd (opt QualifyEntities) (\<lambda>qualify.
                  bnd (opt DisplayExtensionContexts) (\<lambda>display.
                    if qualify \<and> display then
                      block [print_node pr (getChild Node 1),
                             out ''.(unknown context at '',
                             print_node pr (getChild Node 0),
                             out '')'',
                             bnd (lift (if getNumChildren Node \<ge> 3
                                        then andThen (getChild Node 2) (\<lambda>c. Inr (getNumChildren c > 0))
                                        else Inr False)) (\<lambda>generic.
                               if generic
                               then block [out ''<'', print_node pr (getChild Node 2), out ''>'']
                               else skip)]
                    else skip))])
      else if kind = ''Extension'' then
        Some (stmts [assert X (getNumChildren Node = 2 \<or> getNumChildren Node = 3),
                  bnd (opt QualifyEntities) (\<lambda>qualify.
                  bnd (opt DisplayExtensionContexts) (\<lambda>display.
                    if qualify \<and> display
                    then block [out ''(extension in '',
                                print_node_as_prefix pr (getChild Node 0),
                                out ''):'']
                    else skip)),
                  print_node pr (getChild Node 1),
                  (if getNumChildren Node = 3 then
                     bnd (opt PrintForTypeName) (\<lambda>forTypeName.
                       if \<not> forTypeName then print_node pr (getChild Node 2) else skip)
                   else skip)])
      else if kind = ''Variable'' then
        Some (printEntity X pr Node asPrefixContext WithColon True [] (- 1) [])
      else if kind = ''Function'' \<or> kind = ''BoundGenericFunction'' then
        Some (printEntity X pr Node asPrefixContext FunctionStyle True [] (- 1) [])
      else if kind = ''Subscript'' then
        Some (printEntity X pr Node asPrefixContext FunctionStyle False [] (- 1) ''subscript'')
      else if kind = ''GenericTypeParamDecl'' then
        Some (printEntity X pr Node asPrefixContext NoType True [] (- 1) [])
      else if kind = ''ExplicitClosure'' then
        Some (bnd (opt ShowFunctionArgumentTypes) (\<lambda>showTypes.
                bnd (lift (andThen (andThen (getChild Node 1) getIndex) to_int_plus_1)) (\<lambda>ExtraIndex.
                  printEntity X pr Node asPrefixContext (if showTypes then FunctionStyle else NoType)
                    False ''closure #'' ExtraIndex [])))
      else if kind = ''ImplicitClosure'' then
        Some (bnd (opt ShowFunctionArgumentTypes) (\<lambda>showTypes.
                bnd (lift (andThen (andThen (getChild Node 1) getIndex) to_int_plus_1)) (\<lambda>ExtraIndex.
                  printEntity X pr Node asPrefixContext (if showTypes then FunctionStyle else NoType)
                    False ''implicit closure #'' ExtraIndex [])))
      else if kind = ''Global'' then
        Some (stmts [printChildren pr Node None])
      else if kind = ''Suffix'' then
        Some (stmts [bnd (opt DisplayUnmangledSuffix) (\<lambda>display.
                  if display
                  then block [out '' with unmangled suffix '', out_QuotedString (getText Node)]
                  else skip)])
      else if kind = ''Initializer'' then
        Some (printEntity X pr Node asPrefixContext NoType False ''variable initialization expression'' (- 1) [])
      else None)"

definition print_cases_2 :: "Ext \<Rightarrow> printer \<Rightarrow> Node \<Rightarrow> bool \<Rightarrow> Node option act option" where
  "print_cases_2 X pr Node asPrefixContext =
     (let kind = getKind Node in
      if kind = ''PropertyWrapperBackingInitializer'' then
        Some (printEntity X pr Node asPrefixContext NoType False ''property wrapper backing initializer'' (- 1) [])
      else if kind = ''DefaultArgumentInitializer'' then
        Some (bnd (lift (andThen (getChild Node 1) getIndex)) (\<lambda>index.
                printEntity X pr Node asPrefixContext NoType False ''default argument '' (to_int index) []))
      else if kind = ''DeclContext'' then
        Some (stmts [print_node pr (getChild Node 0)])
      else if kind = ''Type'' then
        Some (stmts [print_node pr (getChild Node 0)])
      else if kind = ''TypeMangling'' then
        Some (stmts [bnd (lift (getChild Node 0)) (\<lambda>first.
                  if getKind first = ''LabelList''
                  then bnd (lift (andThen (getChild Node 1) getFirstChild)) (\<lambda>type.
                         printFunctionType X pr (Some first) type)
                  else ign (pr first False))])
      else if kind = ''Class'' \<or> kind = ''Structure'' \<or> kind = ''Enum''
             \<or> kind = ''Protocol'' \<or> kind = ''TypeAlias''
             \<or> kind = ''OtherNominalType'' then
        Some (printEntity X pr Node asPrefixContext NoType True [] (- 1) [])
      else if kind = ''LocalDeclName'' then
        Some (stmts [print_node pr (getChild Node 1),
                  bnd (opt DisplayLocalNameContexts) (\<lambda>display.
                    if display
                    then block [out '' #'',
                                out_unsigned (andThen (andThen (getChild Node 0) getIndex)
                                                (\<lambda>i. Inr (i + 1)))]
                    else skip)])
      else if kind = ''PrivateDeclName'' then
        Some (stmts [bnd (opt ShowPrivateDiscriminators) (\<lambda>showDiscriminators.
                  if getNumChildren Node > 1 then
                    block [(if showDiscriminators then out ''('' else skip),
                           print_node pr (getChild Node 1),
                           (if showDiscriminators
                            then block [out '' in '',
                                        out_text (andThen (getChild Node 0) getText),
                                        out '')'']
                            else skip)]
                  else
                    (if showDiscriminators
                     then block [out ''(in '', out_text (andThen (getChild Node 0) getText), out '')'']
                     else skip))])
      else if kind = ''RelatedEntityDeclName'' then
        Some (stmts [out (''related decl '' @ [CHR 0x27]),
                           out_text (andThen (getFirstChild Node) getText),
                           out ([CHR 0x27] @ '' for ''),
                           print_node pr (getChild Node 1)])
      else if kind = ''Module'' then
        Some (stmts [bnd (opt DisplayModuleNames) (\<lambda>display.
                  if display then out_text (getText Node) else skip)])
      else if kind = ''Identifier'' then
        Some (stmts [out_text (getText Node)])
      else if kind = ''Index'' then
        Some (stmts [out_unsigned (getIndex Node)])
      else if kind = ''UnknownIndex'' then
        Some (stmts [out ''unknown index''])
      else if kind = ''FunctionType'' \<or> kind = ''UncurriedFunctionType''
             \<or> kind = ''NoEscapeFunctionType'' \<or> kind = ''AutoClosureType''
             \<or> kind = ''EscapingAutoClosureType'' \<or> kind = ''ThinFunctionType''
             \<or> kind = ''CFunctionPointer'' \<or> kind = ''ObjCBlock''
             \<or> kind = ''EscapingObjCBlock'' \<or> kind = ''DifferentiableFunctionType''
             \<or> kind = ''EscapingDifferentiableFunctionType''
             \<or> kind = ''LinearFunctionType''
             \<or> kind = ''EscapingLinearFunctionType'' then
        Some (stmts [printFunctionType X pr None Node])
      else if kind = ''ClangType'' then
        Some (stmts [out_text (getText Node)])
      else if kind = ''ArgumentTuple'' then
        Some (stmts [bnd (opt ShowFunctionArgumentTypes) (\<lambda>showTypes.
                  printFunctionParameters X pr None Node showTypes)])
      else if kind = ''Tuple'' then
        Some (stmts [out ''('', printChildren pr Node (Some '', ''), out '')''])
      else if kind = ''TupleElement'' then
        Some (stmts [(case getChildIf Node ''TupleElementName'' of
                    None \<Rightarrow> skip
                  | Some Label \<Rightarrow> block [out_text (getText Label), out '': '']),
                  (case getChildIf Node ''Type'' of
                    None \<Rightarrow> seq (assert X False) (fail NodeAccess)
                  | Some type \<Rightarrow> ign (pr type False)),
                  (if getChildIf Node ''VariadicMarker'' \<noteq> None then out ''...'' else skip)])
      else if kind = ''TupleElementName'' then
        Some (stmts [out_text (getText Node),
                           out '': ''])
      else if kind = ''ReturnType'' then
        Some (stmts [(if getNumChildren Node = 0
                   then block [out '' -> '', out_text (getText Node)]
                   else block [out '' -> '', printChildren pr Node None])])
      else if kind = ''RetroactiveConformance'' then
        Some ((if getNumChildren Node \<noteq> 2 then ret None
                else stmts [out ''retroactive @ '',
                            print_node pr (getChild Node 0),
                            print_node pr (getChild Node 1)]))
      else if kind \<in> fst ` set (REF_STORAGE X) then
        Some (stmts [out (the (map_of (REF_STORAGE X) kind)), out '' '',
                     print_node pr (getChild Node 0)])
      else if kind = ''InOut'' then
        Some (stmts [out ''inout '',
                           print_node pr (getChild Node 0)])
      else if kind = ''Shared'' then
        Some (stmts [out ''__shared '',
                           print_node pr (getChild Node 0)])
      else if kind = ''Owned'' then
        Some (stmts [out ''__owned '',
                           print_node pr (getChild Node 0)])
      else if kind = ''NonObjCAttribute'' then
        Some (stmts [out ''@nonobjc ''])
      else if kind = ''ObjCAttribute'' then
        Some (stmts [out ''@objc ''])
      else if kind = ''DirectMethodReferenceAttribute'' then
        Some (stmts [out ''super ''])
      else if kind = ''DynamicAttribute'' then
        Some (stmts [out ''dynamic ''])
      else if kind = ''VTableAttribute'' then
        Some (stmts [out ''override ''])
      else if kind = ''FunctionSignatureSpecialization'' then
        Some (stmts [printSpecializationPrefix X pr Node ''function signature specialization'' []])
      else None)"

definition print_cases_3 :: "Ext \<Rightarrow> printer \<Rightarrow> Node \<Rightarrow> bool \<Rightarrow> Node option act option" where
  "print_cases_3 X pr Node asPrefixContext =
     (let kind = getKind Node in
      if kind = ''GenericPartialSpecialization'' then
        Some (stmts [printSpecializationPrefix X pr Node ''generic partial specialization'' ''Signature = ''])
      else if kind = ''GenericPartialSpecializationNotReAbstracted'' then
        Some (stmts [printSpecializationPrefix X pr Node ''generic not-reabstracted partial specialization'' ''Signature = ''])
      else if kind = ''GenericSpecialization'' then
        Some (stmts [printSpecializationPrefix X pr Node ''generic specialization'' []])
      else if kind = ''GenericSpecializationPrespecialized'' then
        Some (stmts [printSpecializationPrefix X pr Node ''generic pre-specialization'' []])
      else if kind = ''GenericSpecializationNotReAbstracted'' then
        Some (stmts [printSpecializationPrefix X pr Node ''generic not re-abstracted specialization'' []])
      else if kind = ''InlinedGenericFunction'' then
        Some (stmts [printSpecializationPrefix X pr Node ''inlined generic function'' []])
      else if kind = ''IsSerialized'' then
        Some (stmts [out ''serialized''])
      else if kind = ''GenericSpecializationParam'' then
        Some (stmts [print_node pr (getChild Node 0),
                  print_with_and pr 1 (drop 1 (Children Node))])
      else if kind = ''FunctionSignatureSpecializationReturn''
             \<or> kind = ''FunctionSignatureSpecializationParam'' then
        Some (fail (Unreachable ''should be handled in printSpecializationPrefix''))
      else if kind = ''FunctionSignatureSpecializationParamPayload'' then
        Some (stmts [bnd (lift (getText Node)) (\<lambda>text.
                  let demangledName = demangleSymbolAsString X text
                  in if demangledName = [] then out text else out demangledName)])
      else if kind = ''FunctionSignatureSpecializationParamKind'' then
        Some (stmts [print_FunctionSignatureSpecializationParamKind X Node])
      else if kind = ''SpecializationPassID'' then
        Some (stmts [out_unsigned (getIndex Node)])
      else if kind = ''BuiltinTypeName'' then
        Some (stmts [out_text (getText Node)])
      else if kind = ''Number'' then
        Some (stmts [out_unsigned (getIndex Node)])
      else if kind = ''InfixOperator'' then
        Some (stmts [out_text (getText Node),
                           out '' infix''])
      else if kind = ''PrefixOperator'' then
        Some (stmts [out_text (getText Node),
                           out '' prefix''])
      else if kind = ''PostfixOperator'' then
        Some (stmts [out_text (getText Node),
                           out '' postfix''])
      else if kind = ''LazyProtocolWitnessTableAccessor'' then
        Some (stmts [out ''lazy protocol witness table accessor for type '',
                           print_node pr (getChild Node 0),
                           out '' and conformance '',
                           print_node pr (getChild Node 1)])
      else if kind = ''LazyProtocolWitnessTableCacheVariable'' then
        Some (stmts [out ''lazy protocol witness table cache variable for type '',
                           print_node pr (getChild Node 0),
                           out '' and conformance '',
                           print_node pr (getChild Node 1)])
      else if kind = ''ProtocolSelfConformanceWitnessTable'' then
        Some (stmts [out ''protocol self-conformance witness table for '',
                           print_node pr (getFirstChild Node)])
      else if kind = ''ProtocolWitnessTableAccessor'' then
        Some (stmts [out ''protocol witness table accessor for '',
                           print_node pr (getFirstChild Node)])
      else if kind = ''ProtocolWitnessTable'' then
        Some (stmts [out ''protocol witness table for '',
                           print_node pr (getFirstChild Node)])
      else if kind = ''ProtocolWitnessTablePattern'' then
        Some (stmts [out ''protocol witness table pattern for '',
                           print_node pr (getFirstChild Node)])
      else if kind = ''GenericProtocolWitnessTable'' then
        Some (stmts [out ''generic protocol witness table for '',
                           print_node pr (getFirstChild Node)])
      else if kind = ''GenericProtocolWitnessTableInstantiationFunction'' then
        Some (stmts [out ''instantiation function for generic protocol witness table for '',
                           print_node pr (getFirstChild Node)])
      else if kind = ''ResilientProtocolWitnessTable'' then
        Some (stmts [out ''resilient protocol witness table for '',
                           print_node pr (getFirstChild Node)])
      else if kind = ''VTableThunk'' then
        Some (stmts [out ''vtable thunk for '',
                           print_node pr (getChild Node 1),
                           out '' dispatching to '',
                           print_node pr (getChild Node 0)])
      else if kind = ''ProtocolSelfConformanceWitness'' then
        Some (stmts [out ''protocol self-conformance witness for '',
                           print_node pr (getChild Node 0)])
      else if kind = ''ProtocolWitness'' then
        Some (stmts [out ''protocol witness for '',
                           print_node pr (getChild Node 1),
                           out '' in conformance '',
                           print_node pr (getChild Node 0)])
      else if kind = ''PartialApplyForwarder'' then
        Some (stmts [bnd (opt ShortenPartialApply) (\<lambda>shorten.
                    if shorten then out ''partial apply'' else out ''partial apply forwarder''),
                  (if hasChildren Node then block [out '' for '', printChildren pr Node None]
                   else skip)])
      else if kind = ''PartialApplyObjCForwarder'' then
        Some (stmts [bnd (opt ShortenPartialApply) (\<lambda>shorten.
                    if shorten then out ''partial apply'' else out ''partial apply ObjC forwarder''),
                  (if hasChildren Node then block [out '' for '', printChildren pr Node None]
                   else skip)])
      else None)"

definition print_cases_4 :: "Ext \<Rightarrow> printer \<Rightarrow> Node \<Rightarrow> bool \<Rightarrow> Node option act option" where
  "print_cases_4 X pr Node asPrefixContext =
     (let kind = getKind Node in
      if kind = ''KeyPathGetterThunkHelper'' \<or> kind = ''KeyPathSetterThunkHelper'' then
        Some (stmts [(if getKind Node = ''KeyPathGetterThunkHelper''
                   then out ''key path getter for '' else out ''key path setter for ''),
                  print_node pr (getChild Node 0),
                  out '' : '',
                  print_key_path_rest pr (drop 1 (Children Node))])
      else if kind = ''KeyPathEqualsThunkHelper'' \<or> kind = ''KeyPathHashThunkHelper'' then
        Some (stmts [out ''key path index '',
                  out (if getKind Node = ''KeyPathEqualsThunkHelper'' then ''equality'' else ''hash''),
                  out '' operator for '',
                  bnd (lift (getLastChild Node)) (\<lambda>lastChild.
                  bnd (lift (if getKind lastChild = ''IsSerialized''
                             then (if getNumChildren Node - 1 = 0 then Inl NodeAccess
                                   else andThen (getChild Node (getNumChildren Node - 2))
                                          (\<lambda>c. Inr (getNumChildren Node - 1, c)))
                             else Inr (getNumChildren Node, lastChild))) (\<lambda>(lastChildIndex, lastChild').
                  bnd (if getKind lastChild' = ''DependentGenericSignature''
                       then seq (ign (pr lastChild' False)) (ret (lastChildIndex - 1))
                       else ret lastChildIndex) (\<lambda>lastChildIndex'.
                    block [out ''('',
                           print_separated pr '', '' True (take lastChildIndex' (Children Node)),
                           out '')''])))])
      else if kind = ''FieldOffset'' then
        Some (stmts [print_node pr (getChild Node 0),
                  out ''field offset for '',
                  print_node pr (getChild Node 1)])
      else if kind = ''EnumCase'' then
        Some (stmts [out ''enum case for '', print_node pr (getChild Node 0)])
      else if kind = ''ReabstractionThunk'' \<or> kind = ''ReabstractionThunkHelper'' then
        Some (stmts [bnd (opt ShortenThunk) (\<lambda>shorten.
                  if shorten then block [out ''thunk for '', print_node pr (getLastChild Node)]
                  else
                    block [out ''reabstraction thunk '',
                           (if getKind Node = ''ReabstractionThunkHelper'' then out ''helper '' else skip),
                           (if getNumChildren Node = 3
                            then block [print_node pr (getChild Node 0), out '' '']
                            else skip),
                           out ''from '',
                           print_node pr (getChild Node ((if getNumChildren Node = 3 then 1 else 0) + 1)),
                           out '' to '',
                           print_node pr (getChild Node (if getNumChildren Node = 3 then 1 else 0))])])
      else if kind = ''ReabstractionThunkHelperWithSelf'' then
        Some (stmts [out ''reabstraction thunk '',
                  (if getNumChildren Node = 4
                   then block [print_node pr (getChild Node 0), out '' '']
                   else skip),
                  out ''from '',
                  print_node pr (getChild Node ((if getNumChildren Node = 4 then 1 else 0) + 2)),
                  out '' to '',
                  print_node pr (getChild Node ((if getNumChildren Node = 4 then 1 else 0) + 1)),
                  out '' self '',
                  print_node pr (getChild Node (if getNumChildren Node = 4 then 1 else 0))])
      else if kind = ''MergedFunction'' then
        Some (stmts [bnd (opt ShortenThunk) (\<lambda>shorten. if \<not> shorten then out ''merged '' else skip)])
      else if kind = ''TypeSymbolicReference'' then
        Some (stmts [out ''type symbolic reference 0x'',
                           writeHex (getIndex Node)])
      else if kind = ''OpaqueTypeDescriptorSymbolicReference'' then
        Some (stmts [out ''opaque type symbolic reference 0x'',
                           writeHex (getIndex Node)])
      else if kind = ''DynamicallyReplaceableFunctionKey'' then
        Some (stmts [bnd (opt ShortenThunk) (\<lambda>shorten. if \<not> shorten then out ''dynamically replaceable key for '' else skip)])
      else if kind = ''DynamicallyReplaceableFunctionImpl'' then
        Some (stmts [bnd (opt ShortenThunk) (\<lambda>shorten. if \<not> shorten then out ''dynamically replaceable thunk for '' else skip)])
      else if kind = ''DynamicallyReplaceableFunctionVar'' then
        Some (stmts [bnd (opt ShortenThunk) (\<lambda>shorten. if \<not> shorten then out ''dynamically replaceable variable for '' else skip)])
      else if kind = ''ProtocolSymbolicReference'' then
        Some (stmts [out ''protocol symbolic reference 0x'',
                           writeHex (getIndex Node)])
      else if kind = ''GenericTypeMetadataPattern'' then
        Some (stmts [out ''generic type metadata pattern for '',
                           print_node pr (getChild Node 0)])
      else if kind = ''Metaclass'' then
        Some (stmts [out ''metaclass for '',
                           print_node pr (getFirstChild Node)])
      else if kind = ''ProtocolSelfConformanceDescriptor'' then
        Some (stmts [out ''protocol self-conformance descriptor for '',
                           print_node pr (getChild Node 0)])
      else if kind = ''ProtocolConformanceDescriptor'' then
        Some (stmts [out ''protocol conformance descriptor for '',
                           print_node pr (getChild Node 0)])
      else if kind = ''ProtocolDescriptor'' then
        Some (stmts [out ''protocol descriptor for '',
                           print_node pr (getChild Node 0)])
      else if kind = ''ProtocolRequirementsBaseDescriptor'' then
        Some (stmts [out ''protocol requirements base descriptor for '',
                           print_node pr (getChild Node 0)])
      else if kind = ''FullTypeMetadata'' then
        Some (stmts [out ''full type metadata for '',
                           print_node pr (getChild Node 0)])
      else if kind = ''TypeMetadata'' then
        Some (stmts [out ''type metadata for '',
                           print_node pr (getChild Node 0)])
      else if kind = ''TypeMetadataAccessFunction'' then
        Some (stmts [out ''type metadata accessor for '',
                           print_node pr (getChild Node 0)])
      else if kind = ''TypeMetadataInstantiationCache'' then
        Some (stmts [out ''type metadata instantiation cache for '',
                           print_node pr (getChild Node 0)])
      else if kind = ''TypeMetadataInstantiationFunction'' then
        Some (stmts [out ''type metadata instantiation function for '',
                           print_node pr (getChild Node 0)])
      else if kind = ''TypeMetadataSingletonInitializationCache'' then
        Some (stmts [out ''type metadata singleton initialization cache for '',
                           print_node pr (getChild Node 0)])
      else if kind = ''TypeMetadataCompletionFunction'' then
        Some (stmts [out ''type metadata completion function for '',
                           print_node pr (getChild Node 0)])
      else if kind = ''TypeMetadataDemanglingCache'' then
        Some (stmts [out ''demangling cache variable for type metadata for '',
                           print_node pr (getChild Node 0)])
      else if kind = ''TypeMetadataLazyCache'' then
        Some (stmts [out ''lazy cache variable for type metadata for '',
                           print_node pr (getChild Node 0)])
      else if kind = ''AssociatedConformanceDescriptor'' then
        Some (stmts [out ''associated conformance descriptor for '',
                           print_node pr (getChild Node 0),
                           out ''.'',
                           print_node pr (getChild Node 1),
                           out '': '',
                           print_node pr (getChild Node 2)])
      else if kind = ''DefaultAssociatedConformanceAccessor'' then
        Some (stmts [out ''default associated conformance accessor for '',
                           print_node pr (getChild Node 0),
                           out ''.'',
                           print_node pr (getChild Node 1),
                           out '': '',
                           print_node pr (getChild Node 2)])
      else if kind = ''AssociatedTypeDescriptor'' then
        Some (stmts [out ''associated type descriptor for '',
                           print_node pr (getChild Node 0)])
      else None)"

definition print_cases_5 :: "Ext \<Rightarrow> printer \<Rightarrow> Node \<Rightarrow> bool \<Rightarrow> Node option act option" where
  "print_cases_5 X pr Node asPrefixContext =
     (let kind = getKind Node in
      if kind = ''AssociatedTypeMetadataAccessor'' then
        Some (stmts [out ''associated type metadata accessor for '',
                           print_node pr (getChild Node 1),
                           out '' in '',
                           print_node pr (getChild Node 0)])
      else if kind = ''BaseConformanceDescriptor'' then
        Some (stmts [out ''base conformance descriptor for '',
                           print_node pr (getChild Node 0),
                           out '': '',
                           print_node pr (getChild Node 1)])
      else if kind = ''DefaultAssociatedTypeMetadataAccessor'' then
        Some (stmts [out ''default associated type metadata accessor for '',
                           print_node pr (getChild Node 0)])
      else if kind = ''AssociatedTypeWitnessTableAccessor'' then
        Some (stmts [out ''associated type witness table accessor for '',
                           print_node pr (getChild Node 1),
                           out '' : '',
                           print_node pr (getChild Node 2),
                           out '' in '',
                           print_node pr (getChild Node 0)])
      else if kind = ''BaseWitnessTableAccessor'' then
        Some (stmts [out ''base witness table accessor for '',
                           print_node pr (getChild Node 1),
                           out '' in '',
                           print_node pr (getChild Node 0)])
      else if kind = ''ClassMetadataBaseOffset'' then
        Some (stmts [out ''class metadata base offset for '',
                           print_node pr (getChild Node 0)])
      else if kind = ''PropertyDescriptor'' then
        Some (stmts [out ''property descriptor for '',
                           print_node pr (getChild Node 0)])
      else if kind = ''NominalTypeDescriptor'' then
        Some (stmts [out ''nominal type descriptor for '',
                           print_node pr (getChild Node 0)])
      else if kind = ''OpaqueTypeDescriptor'' then
        Some (stmts [out ''opaque type descriptor for '',
                           print_node pr (getChild Node 0)])
      else if kind = ''OpaqueTypeDescriptorAccessor'' then
        Some (stmts [out ''opaque type descriptor accessor for '',
                           print_node pr (getChild Node 0)])
      else if kind = ''OpaqueTypeDescriptorAccessorImpl'' then
        Some (stmts [out ''opaque type descriptor accessor impl for '',
                           print_node pr (getChild Node 0)])
      else if kind = ''OpaqueTypeDescriptorAccessorKey'' then
        Some (stmts [out ''opaque type descriptor accessor key for '',
                           print_node pr (getChild Node 0)])
      else if kind = ''OpaqueTypeDescriptorAccessorVar'' then
        Some (stmts [out ''opaque type descriptor accessor var for '',
                           print_node pr (getChild Node 0)])
      else if kind = ''CoroutineContinuationPrototype'' then
        Some (stmts [out ''coroutine continuation prototype for '',
                           print_node pr (getChild Node 0)])
      else if kind = ''ValueWitness'' then
        Some (stmts [out_text (andThen (andThen (getFirstChild Node) getIndex)
                              (toString_ValueWitnessKind X)),
                  bnd (opt ShortenValueWitness) (\<lambda>shorten.
                    if shorten then out '' for '' else out '' value witness for ''),
                  print_node pr (getChild Node 1)])
      else if kind = ''ValueWitnessTable'' then
        Some (stmts [out ''value witness table for '',
                           print_node pr (getFirstChild Node)])
      else if kind = ''BoundGenericClass'' \<or> kind = ''BoundGenericStructure''
             \<or> kind = ''BoundGenericEnum'' \<or> kind = ''BoundGenericProtocol''
             \<or> kind = ''BoundGenericOtherNominalType''
             \<or> kind = ''BoundGenericTypeAlias'' then
        Some (stmts [printBoundGeneric X pr Node])
      else if kind = ''DynamicSelf'' then
        Some (stmts [out ''Self''])
      else if kind = ''SILBoxType'' then
        Some (stmts [out ''@box '', print_node pr (getChild Node 0)])
      else if kind = ''Metatype'' then
        Some (stmts [(if getNumChildren Node = 2
                   then block [print_node pr (getChild Node 0), out '' '']
                   else skip),
                  bnd (lift (andThen (getChild Node (if getNumChildren Node = 2 then 1 else 0))
                               (\<lambda>c. getChild c 0))) (\<lambda>type.
                    block [printWithParens X pr type,
                           (if isExistentialType type then out ''.Protocol'' else out ''.Type'')])])
      else if kind = ''ExistentialMetatype'' then
        Some (stmts [(if getNumChildren Node = 2
                   then block [print_node pr (getChild Node 0), out '' '']
                   else skip),
                  print_node pr (getChild Node (if getNumChildren Node = 2 then 1 else 0)),
                  out ''.Type''])
      else if kind = ''MetatypeRepresentation'' then
        Some (stmts [out_text (getText Node)])
      else if kind = ''AssociatedTypeRef'' then
        Some (stmts [print_node pr (getChild Node 0),
                           out ''.'',
                           out_text (andThen (getChild Node 1) getText)])
      else if kind = ''ProtocolList'' then
        Some (stmts [bnd (lift (getChild Node 0)) (\<lambda>type_list.
                  if getNumChildren type_list = 0 then out ''Any''
                  else printChildren pr type_list (Some '' & ''))])
      else if kind = ''ProtocolListWithClass'' then
        Some ((if getNumChildren Node < 2 then ret None
                else
                  bnd (lift (getChild Node 0)) (\<lambda>protocols.
                  bnd (lift (getChild Node 1)) (\<lambda>superclass.
                    stmts [ign (pr superclass False),
                           out '' & '',
                           (if getNumChildren protocols < 1 then skip
                            else bnd (lift (getChild protocols 0)) (\<lambda>type_list.
                                   printChildren pr type_list (Some '' & '')))]))))
      else if kind = ''ProtocolListWithAnyObject'' then
        Some ((if getNumChildren Node < 1 then ret None
                else
                  bnd (lift (getChild Node 0)) (\<lambda>protocols.
                    if getNumChildren protocols < 1 then ret None
                    else
                      bnd (lift (getChild protocols 0)) (\<lambda>type_list.
                        stmts [(if getNumChildren type_list > 0
                                then block [printChildren pr type_list (Some '' & ''), out '' & '']
                                else skip),
                               bnd (opt QualifyEntities) (\<lambda>qualify.
                               bnd (opt DisplayStdlibModule) (\<lambda>display.
                                 if qualify \<and> display
                                 then block [out (STDLIB_NAME X), out ''.'']
                                 else skip)),
                               out ''AnyObject'']))))
      else if kind = ''AssociatedType'' then
        Some (ret None)
      else if kind = ''OwningAddressor'' then
        Some (printAbstractStorage X pr (getFirstChild Node) asPrefixContext ''owningAddressor'')
      else if kind = ''OwningMutableAddressor'' then
        Some (printAbstractStorage X pr (getFirstChild Node) asPrefixContext ''owningMutableAddressor'')
      else if kind = ''NativeOwningAddressor'' then
        Some (printAbstractStorage X pr (getFirstChild Node) asPrefixContext ''nativeOwningAddressor'')
      else if kind = ''NativeOwningMutableAddressor'' then
        Some (printAbstractStorage X pr (getFirstChild Node) asPrefixContext ''nativeOwningMutableAddressor'')
      else None)"

definition print_cases_6 :: "Ext \<Rightarrow> printer \<Rightarrow> Node \<Rightarrow> bool \<Rightarrow> Node option act option" where
  "print_cases_6 X pr Node asPrefixContext =
     (let kind = getKind Node in
      if kind = ''NativePinningAddressor'' then
        Some (printAbstractStorage X pr (getFirstChild Node) asPrefixContext ''nativePinningAddressor'')
      else if kind = ''NativePinningMutableAddressor'' then
        Some (printAbstractStorage X pr (getFirstChild Node) asPrefixContext ''nativePinningMutableAddressor'')
      else if kind = ''UnsafeAddressor'' then
        Some (printAbstractStorage X pr (getFirstChild Node) asPrefixContext ''unsafeAddressor'')
      else if kind = ''UnsafeMutableAddressor'' then
        Some (printAbstractStorage X pr (getFirstChild Node) asPrefixContext ''unsafeMutableAddressor'')
      else if kind = ''GlobalGetter'' then
        Some (printAbstractStorage X pr (getFirstChild Node) asPrefixContext ''getter'')
      else if kind = ''Getter'' then
        Some (printAbstractStorage X pr (getFirstChild Node) asPrefixContext ''getter'')
      else if kind = ''Setter'' then
        Some (printAbstractStorage X pr (getFirstChild Node) asPrefixContext ''setter'')
      else if kind = ''MaterializeForSet'' then
        Some (printAbstractStorage X pr (getFirstChild Node) asPrefixContext ''materializeForSet'')
      else if kind = ''WillSet'' then
        Some (printAbstractStorage X pr (getFirstChild Node) asPrefixContext ''willset'')
      else if kind = ''DidSet'' then
        Some (printAbstractStorage X pr (getFirstChild Node) asPrefixContext ''didset'')
      else if kind = ''ReadAccessor'' then
        Some (printAbstractStorage X pr (getFirstChild Node) asPrefixContext ''read'')
      else if kind = ''ModifyAccessor'' then
        Some (printAbstractStorage X pr (getFirstChild Node) asPrefixContext ''modify'')
      else if kind = ''Allocator'' then
        Some (bnd (lift (getChild Node 0)) (\<lambda>first.
                printEntity X pr Node asPrefixContext FunctionStyle False
                  (if isClassType first then ''__allocating_init'' else ''init'') (- 1) []))
      else if kind = ''Constructor'' then
        Some (printEntity X pr Node asPrefixContext FunctionStyle (getNumChildren Node > 2) ''init'' (- 1) [])
      else if kind = ''Destructor'' then
        Some (printEntity X pr Node asPrefixContext NoType False ''deinit'' (- 1) [])
      else if kind = ''Deallocator'' then
        Some (bnd (lift (getChild Node 0)) (\<lambda>first.
                printEntity X pr Node asPrefixContext NoType False
                  (if isClassType first then ''__deallocating_deinit'' else ''deinit'') (- 1) []))
      else if kind = ''IVarInitializer'' then
        Some (printEntity X pr Node asPrefixContext NoType False ''__ivar_initializer'' (- 1) [])
      else if kind = ''IVarDestroyer'' then
        Some (printEntity X pr Node asPrefixContext NoType False ''__ivar_destroyer'' (- 1) [])
      else if kind = ''ProtocolConformance'' then
        Some (bnd (lift (getChild Node 0)) (\<lambda>child0.
                bnd (lift (getChild Node 1)) (\<lambda>child1.
                bnd (lift (getChild Node 2)) (\<lambda>child2.
                  if getNumChildren Node = 4 then
                    stmts [out ''property behavior storage of '',
                           ign (pr child2 False),
                           out '' in '',
                           ign (pr child0 False),
                           out '' : '',
                           ign (pr child1 False)]
                  else
                    stmts [ign (pr child0 False),
                           bnd (opt DisplayProtocolConformances) (\<lambda>display.
                             if display
                             then block [out '' : '', ign (pr child1 False), out '' in '',
                                         ign (pr child2 False)]
                             else skip)]))))
      else if kind = ''TypeList'' then
        Some (stmts [printChildren pr Node None])
      else if kind = ''LabelList'' then
        Some (ret None)
      else if kind = ''ImplDifferentiable'' then
        Some (stmts [out ''@differentiable''])
      else if kind = ''ImplLinear'' then
        Some (stmts [out ''@differentiable(linear)''])
      else if kind = ''ImplEscaping'' then
        Some (stmts [out ''@escaping''])
      else if kind = ''ImplConvention'' then
        Some (stmts [out_text (getText Node)])
      else if kind = ''ImplDifferentiability'' then
        Some (bnd (lift (getText Node)) (\<lambda>text.
                if text = [] then ret None else stmts [out text, out '' '']))
      else if kind = ''ImplFunctionAttribute'' then
        Some (stmts [out_text (getText Node)])
      else if kind = ''ImplFunctionConvention'' then
        Some (stmts [out ''@convention('',
                  (if getNumChildren Node = 1 then out_text (andThen (getChild Node 0) getText)
                   else if getNumChildren Node = 2 then
                     block [out_text (andThen (getChild Node 0) getText),
                            out ('', mangledCType: '' @ [CHR 0x22]),
                            print_node pr (getChild Node 1),
                            out [CHR 0x22]]
                   else assert X False),
                  out '')''])
      else if kind = ''ImplFunctionConventionName'' then
        Some (stmts [assert X False, out ''@error '', printChildren pr Node (Some '' '')])
      else if kind = ''ImplErrorResult'' then
        Some (stmts [out ''@error '', printChildren pr Node (Some '' '')])
      else if kind = ''ImplYield'' then
        Some (stmts [out ''@yields '', printChildren pr Node (Some '' '')])
      else None)"

definition print_cases_7 :: "Ext \<Rightarrow> printer \<Rightarrow> Node \<Rightarrow> bool \<Rightarrow> Node option act option" where
  "print_cases_7 X pr Node asPrefixContext =
     (let kind = getKind Node in
      if kind = ''ImplParameter'' \<or> kind = ''ImplResult'' then
        Some (stmts [print_node pr (getChild Node 0),
                  out '' '',
                  (if getNumChildren Node = 3 then print_node pr (getChild Node 1) else skip),
                  print_node pr (getLastChild Node)])
      else if kind = ''ImplFunctionType'' then
        Some (stmts [printImplFunctionType X pr Node])
      else if kind = ''ImplInvocationSubstitutions'' then
        Some (stmts [out ''for <'',
                  bnd (lift (getChild Node 0)) (\<lambda>c. printChildren pr c (Some '', '')),
                  out ''>''])
      else if kind = ''ImplPatternSubstitutions'' then
        Some (stmts [out ''@substituted '',
                  print_node pr (getChild Node 0),
                  out '' for <'',
                  bnd (lift (getChild Node 1)) (\<lambda>c. printChildren pr c (Some '', '')),
                  out ''>''])
      else if kind = ''ErrorType'' then
        Some (stmts [out ''<ERROR TYPE>''])
      else if kind = ''DependentPseudogenericSignature''
             \<or> kind = ''DependentGenericSignature'' then
        Some (stmts [print_DependentGenericSignature pr Node])
      else if kind = ''DependentGenericParamCount'' then
        Some (fail (Unreachable ''should be printed as a child of a DependentGenericSignature''))
      else if kind = ''DependentGenericConformanceRequirement'' then
        Some (bnd (lift (getChild Node 0)) (\<lambda>type.
                bnd (lift (getChild Node 1)) (\<lambda>reqt.
                  stmts [ign (pr type False), out '': '', ign (pr reqt False)])))
      else if kind = ''DependentGenericLayoutRequirement'' then
        Some (bnd (lift (getChild Node 0)) (\<lambda>type.
                bnd (lift (getChild Node 1)) (\<lambda>layout.
                  stmts [ign (pr type False),
                         out '': '',
                         assert X (getKind layout = ''Identifier''),
                         bnd (lift (getText layout)) (\<lambda>text.
                           block [assert X (length text = 1),
                                  (case text of
                                     [] \<Rightarrow> fail NodeAccess
                                   | c # _ \<Rightarrow> out (layout_name c))]),
                         (if getNumChildren Node > 2 then
                            block [out ''('',
                                   print_node pr (getChild Node 2),
                                   (if getNumChildren Node > 3
                                    then block [out '', '', print_node pr (getChild Node 3)]
                                    else skip),
                                   out '')'']
                          else skip)])))
      else if kind = ''DependentGenericSameTypeRequirement'' then
        Some (bnd (lift (getChild Node 0)) (\<lambda>fst_type.
                bnd (lift (getChild Node 1)) (\<lambda>snd_type.
                  stmts [ign (pr fst_type False), out '' == '', ign (pr snd_type False)])))
      else if kind = ''DependentGenericParamType'' then
        Some (bnd (lift (andThen (getChild Node 1) getIndex)) (\<lambda>index.
                bnd (lift (andThen (getChild Node 0) getIndex)) (\<lambda>depth.
                bnd (opt GenericParameterName) (\<lambda>namer.
                  stmts [out (namer (ucast (ucast depth :: 32 word)) (ucast (ucast index :: 32 word)))]))))
      else if kind = ''DependentGenericType'' then
        Some (bnd (lift (getChild Node 0)) (\<lambda>sig.
                bnd (lift (getChild Node 1)) (\<lambda>depTy.
                  stmts [ign (pr sig False),
                         bnd (lift (needSpaceBeforeType depTy)) (\<lambda>space.
                           if space then out '' '' else skip),
                         ign (pr depTy False)])))
      else if kind = ''DependentMemberType'' then
        Some (stmts [print_node pr (getChild Node 0),
                  out ''.'',
                  print_node pr (getChild Node 1)])
      else if kind = ''DependentAssociatedTypeRef'' then
        Some (stmts [(if getNumChildren Node > 1
                   then block [print_node pr (getChild Node 1), out ''.'']
                   else skip),
                  print_node pr (getChild Node 0)])
      else if kind = ''ReflectionMetadataBuiltinDescriptor'' then
        Some (stmts [out ''reflection metadata builtin descriptor '',
                           print_node pr (getChild Node 0)])
      else if kind = ''ReflectionMetadataFieldDescriptor'' then
        Some (stmts [out ''reflection metadata field descriptor '',
                           print_node pr (getChild Node 0)])
      else if kind = ''ReflectionMetadataAssocTypeDescriptor'' then
        Some (stmts [out ''reflection metadata associated type descriptor '',
                           print_node pr (getChild Node 0)])
      else if kind = ''ReflectionMetadataSuperclassDescriptor'' then
        Some (stmts [out ''reflection metadata superclass descriptor '',
                           print_node pr (getChild Node 0)])
      else if kind = ''AsyncAnnotation'' then
        Some (stmts [out '' async ''])
      else if kind = ''ThrowsAnnotation'' then
        Some (stmts [out '' throws ''])
      else if kind = ''EmptyList'' then
        Some (stmts [out '' empty-list ''])
      else if kind = ''FirstElementMarker'' then
        Some (stmts [out '' first-element-marker ''])
      else if kind = ''VariadicMarker'' then
        Some (stmts [out '' variadic-marker ''])
      else if kind = ''SILBoxTypeWithLayout'' then
        Some (stmts [assert X (getNumChildren Node = 1 \<or> getNumChildren Node = 3),
                  bnd (lift (getChild Node 0)) (\<lambda>layout.
                    block [assert X (getKind layout = ''SILBoxLayout''),
                           bnd (if getNumChildren Node = 3 then
                                  bnd (lift (getChild Node 1)) (\<lambda>signature.
                                  seq (assert X (getKind signature = ''DependentGenericSignature''))
                                 (bnd (lift (getChild Node 2)) (\<lambda>genericArgs.
                                  seq (block [assert X (getKind genericArgs = ''TypeList''),
                                              ign (pr signature False),
                                              out '' ''])
                                      (ret (Some genericArgs)))))
                                else ret None) (\<lambda>genericArgs.
                             block [ign (pr layout False),
                                    (case genericArgs of
                                       None \<Rightarrow> skip
                                     | Some args \<Rightarrow>
                                         block [out '' <'',
                                                print_separated pr '', '' True (Children args),
                                                out ''>''])])])])
      else if kind = ''SILBoxLayout'' then
        Some (stmts [out ''{'', print_box_fields pr True (Children Node), out '' }''])
      else if kind = ''SILBoxImmutableField'' \<or> kind = ''SILBoxMutableField'' then
        Some (stmts [out (if getKind Node = ''SILBoxImmutableField'' then ''let '' else ''var ''),
                  assert X (getNumChildren Node = 1
                            \<and> (case getChild Node 0 of Inl e \<Rightarrow> False | Inr c \<Rightarrow> getKind c = ''Type'')),
                  print_node pr (getChild Node 0)])
      else if kind = ''AssocTypePath'' then
        Some (stmts [printChildren_range pr (Children Node) (Some ''.'')])
      else if kind = ''ModuleDescriptor'' then
        Some (stmts [out ''module descriptor '',
                           print_node pr (getChild Node 0)])
      else if kind = ''AnonymousDescriptor'' then
        Some (stmts [out ''anonymous descriptor '',
                           print_node pr (getChild Node 0)])
      else if kind = ''ExtensionDescriptor'' then
        Some (stmts [out ''extension descriptor '',
                           print_node pr (getChild Node 0)])
      else if kind = ''AssociatedTypeGenericParamRef'' then
        Some (stmts [out ''generic parameter reference for associated type '',
                           printChildren pr Node None])
      else None)"

definition print_cases_8 :: "Ext \<Rightarrow> printer \<Rightarrow> Node \<Rightarrow> bool \<Rightarrow> Node option act option" where
  "print_cases_8 X pr Node asPrefixContext =
     (let kind = getKind Node in
      if kind = ''AnyProtocolConformanceList'' then
        Some (stmts [printChildren pr Node None])
      else if kind = ''ConcreteProtocolConformance'' then
        Some (stmts [out ''concrete protocol conformance '',
                  (if hasIndex Node
                   then block [out ''#'', out_unsigned (getIndex Node), out '' '']
                   else skip),
                  printChildren pr Node None])
      else if kind = ''DependentAssociatedConformance'' then
        Some (stmts [out ''dependent associated conformance '',
                           printChildren pr Node None])
      else if kind = ''DependentProtocolConformanceAssociated'' then
        Some (stmts [out ''dependent associated protocol conformance '',
                  bnd (lift (getChild Node 2)) (printOptionalIndex X),
                  print_node pr (getChild Node 0),
                  print_node pr (getChild Node 1)])
      else if kind = ''DependentProtocolConformanceInherited'' then
        Some (stmts [out ''dependent inherited protocol conformance '',
                  bnd (lift (getChild Node 2)) (printOptionalIndex X),
                  print_node pr (getChild Node 0),
                  print_node pr (getChild Node 1)])
      else if kind = ''DependentProtocolConformanceRoot'' then
        Some (stmts [out ''dependent root protocol conformance '',
                  bnd (lift (getChild Node 2)) (printOptionalIndex X),
                  print_node pr (getChild Node 0),
                  print_node pr (getChild Node 1)])
      else if kind = ''ProtocolConformanceRefInTypeModule'' then
        Some (stmts [out (''protocol conformance ref (type'' @ [CHR 0x27] @ ''s module) ''),
                           printChildren pr Node None])
      else if kind = ''ProtocolConformanceRefInProtocolModule'' then
        Some (stmts [out (''protocol conformance ref (protocol'' @ [CHR 0x27] @ ''s module) ''),
                           printChildren pr Node None])
      else if kind = ''ProtocolConformanceRefInOtherModule'' then
        Some (stmts [out ''protocol conformance ref (retroactive) '',
                           printChildren pr Node None])
      else if kind = ''SugaredOptional'' then
        Some (stmts [bnd (lift (getChild Node 0)) (printWithParens X pr), out ''?''])
      else if kind = ''SugaredArray'' then
        Some (stmts [out ''['',
                           print_node pr (getChild Node 0),
                           out '']''])
      else if kind = ''SugaredDictionary'' then
        Some (stmts [out ''['',
                           print_node pr (getChild Node 0),
                           out '' : '',
                           print_node pr (getChild Node 1),
                           out '']''])
      else if kind = ''SugaredParen'' then
        Some (stmts [out ''('',
                           print_node pr (getChild Node 0),
                           out '')''])
      else if kind = ''OpaqueReturnType'' then
        Some (stmts [out ''some''])
      else if kind = ''OpaqueReturnTypeOf'' then
        Some (stmts [out ''<<opaque return type of '',
                           printChildren pr Node None,
                           out ''>>''])
      else if kind = ''OpaqueType'' then
        Some (stmts [print_node pr (getChild Node 0),
                           out ''.'',
                           print_node pr (getChild Node 1)])
      else if kind = ''AccessorFunctionReference'' then
        Some (stmts [out ''accessor function at '',
                           out_unsigned (getIndex Node)])
      else if kind = ''CanonicalSpecializedGenericMetaclass'' then
        Some (stmts [out ''specialized generic metaclass for '',
                           print_node pr (getFirstChild Node)])
      else if kind = ''CanonicalSpecializedGenericTypeMetadataAccessFunction'' then
        Some (stmts [out ''canonical specialized generic type metadata accessor for '',
                           print_node pr (getChild Node 0)])
      else if kind = ''MetadataInstantiationCache'' then
        Some (stmts [out ''metadata instantiation cache for '',
                           print_node pr (getChild Node 0)])
      else if kind = ''NoncanonicalSpecializedGenericTypeMetadata'' then
        Some (stmts [out ''noncanonical specialized generic type metadata for '',
                           print_node pr (getChild Node 0)])
      else if kind = ''NoncanonicalSpecializedGenericTypeMetadataCache'' then
        Some (stmts [out ''cache variable for noncanonical specialized generic type metadata for '',
                           print_node pr (getChild Node 0)])
      else if kind = ''GlobalVariableOnceToken'' \<or> kind = ''GlobalVariableOnceFunction'' then
        Some (stmts [out (if getKind Node = ''GlobalVariableOnceToken''
                       then ''one-time initialization token for ''
                       else ''one-time initialization function for ''),
                  bnd (lift (getChild Node 0)) (\<lambda>context. ign (printContext X context)),
                  print_node pr (getChild Node 1)])
      else if kind = ''GlobalVariableOnceDeclList'' then
        Some (stmts [(if getNumChildren Node = 1 then print_node pr (getChild Node 0)
                   else block [out ''('',
                               print_separated pr '', '' True (Children Node),
                               out '')''])])
      else if kind = ''ObjCAsyncCompletionHandlerImpl'' then
        Some (stmts [out ''@objc completion handler block implementation for '',
                           print_node pr (getChild Node 0)])
      else if kind = ''CanonicalPrespecializedGenericTypeCachingOnceToken'' then
        Some (stmts [out ''flag for loading of canonical specialized generic type metadata for '',
                  print_node pr (getChild Node 0)])
      else None)"

text \<open>
  The body of \<^verbatim>\<open>print\<close>; a kind outside the enumeration reaches the call of
  \<^verbatim>\<open>printer_unreachable\<close> after the switch.
\<close>

definition print_body :: "Ext \<Rightarrow> printer \<Rightarrow> Node \<Rightarrow> bool \<Rightarrow> Node option act" where
  "print_body X pr Node asPrefixContext =
     (case print_cases_1 X pr Node asPrefixContext of Some action \<Rightarrow> action | None \<Rightarrow>
      (case print_cases_2 X pr Node asPrefixContext of Some action \<Rightarrow> action | None \<Rightarrow>
       (case print_cases_3 X pr Node asPrefixContext of Some action \<Rightarrow> action | None \<Rightarrow>
        (case print_cases_4 X pr Node asPrefixContext of Some action \<Rightarrow> action | None \<Rightarrow>
         (case print_cases_5 X pr Node asPrefixContext of Some action \<Rightarrow> action | None \<Rightarrow>
          (case print_cases_6 X pr Node asPrefixContext of Some action \<Rightarrow> action | None \<Rightarrow>
           (case print_cases_7 X pr Node asPrefixContext of Some action \<Rightarrow> action | None \<Rightarrow>
            (case print_cases_8 X pr Node asPrefixContext of Some action \<Rightarrow> action | None \<Rightarrow>
             fail (Unreachable ''bad node kind!'')))))))))"

section \<open>The printer\<close>

text \<open>
  \<^verbatim>\<open>print\<close>. Every call that the body makes is on a node below \<open>Node\<close>, which is
  what makes the recursion end; the guard says so, and \<open>NotSubnode\<close> is the result of a
  call that is not.
\<close>

function print :: "Ext \<Rightarrow> Node \<Rightarrow> bool \<Rightarrow> Node option act" where
  "print X Node asPrefixContext =
     print_body X
       (\<lambda>child asPrefix. if size child < size Node then print X child asPrefix else fail NotSubnode)
       Node asPrefixContext"
  by pat_completeness auto
termination
  by (relation "measure (\<lambda>(X, Node, asPrefixContext). size Node)") auto

declare print.simps [simp del]

text \<open>The constructor \<^verbatim>\<open>NodePrinter(DemangleOptions options)\<close>.\<close>

definition NodePrinter_new :: "DemangleOptions \<Rightarrow> NodePrinter" where
  "NodePrinter_new options =
     \<lparr>Printer = [], Options = options, SpecializationPrefixPrinted = False, isValid = True\<rparr>"

text \<open>
  \<^verbatim>\<open>printRoot\<close>, with the printer that it is called on and the printer that it leaves:
  \<^verbatim>\<open>std::move(Printer).str()\<close> moves the buffer out of the printer, which leaves the
  buffer empty.
\<close>

definition printRoot :: "Ext \<Rightarrow> Node \<Rightarrow> NodePrinter \<Rightarrow> failure + (string \<times> NodePrinter)" where
  "printRoot X root p =
     (case print X root False (p\<lparr>isValid := True\<rparr>) of
        Inl e \<Rightarrow> Inl e
      | Inr (r, p') \<Rightarrow>
          if isValid p' then Inr (Printer p', p'\<lparr>Printer := []\<rparr>) else Inr ([], p'))"

text \<open>\<^verbatim>\<open>Demangle::nodeToString\<close>; the root may be the null pointer.\<close>

definition nodeToString :: "Ext \<Rightarrow> Node option \<Rightarrow> DemangleOptions \<Rightarrow> failure + string" where
  "nodeToString X root options =
     (case root of
        None \<Rightarrow> Inr []
      | Some node \<Rightarrow>
          (case printRoot X node (NodePrinter_new options) of
             Inl e \<Rightarrow> Inl e
           | Inr (text, p) \<Rightarrow> Inr text))"

text \<open>
  The same call with the storage in which its printer is constructed. The printer is a
  temporary object: it is constructed in storage that holds whatever an earlier call left
  there, and the call leaves it there when it returns. The default member initializers and
  the constructor set every member: \<^verbatim>\<open>Printer\<close> is default-constructed, \<^verbatim>\<open>Options\<close> is
  \<^verbatim>\<open>options\<close>, \<^verbatim>\<open>SpecializationPrefixPrinted = false\<close> and \<^verbatim>\<open>isValid = true\<close>. The source
  has no variable of static storage duration, so the storage of the printer is all that
  one call can hand to the next. A call that ends with a failure ends the process.
\<close>

definition NodePrinter_construct :: "DemangleOptions \<Rightarrow> NodePrinter \<Rightarrow> NodePrinter" where
  "NodePrinter_construct options storage =
     storage\<lparr>Printer := [], Options := options, SpecializationPrefixPrinted := False,
             isValid := True\<rparr>"

definition nodeToString_in ::
  "Ext \<Rightarrow> Node option \<Rightarrow> DemangleOptions \<Rightarrow> NodePrinter \<Rightarrow> failure + (string \<times> NodePrinter)"
where
  "nodeToString_in X root options storage =
     (case root of
        None \<Rightarrow> Inr ([], storage)
      | Some node \<Rightarrow> printRoot X node (NodePrinter_construct options storage))"

section \<open>Invariants of the printer's state\<close>

text \<open>
  An action preserves a property of the state when every state it ends in has the
  property if the state it starts from has it. A property is stable under assignment
  when the assignments that the member functions make keep it: appending to the buffer,
  false to \<open>isValid\<close>, and true to \<open>SpecializationPrefixPrinted\<close>, which is assigned in
  one place, after the marker is appended.
\<close>

definition preserves :: "(NodePrinter \<Rightarrow> bool) \<Rightarrow> 'a act \<Rightarrow> bool" where
  "preserves P m = (\<forall>s x s'. P s \<longrightarrow> m s = Inr (x, s') \<longrightarrow> P s')"

definition assign_stable :: "(NodePrinter \<Rightarrow> bool) \<Rightarrow> bool" where
  "assign_stable P =
     (\<forall>s. P s \<longrightarrow>
        (\<forall>str. P (s\<lparr>Printer := Printer s @ str\<rparr>)) \<and> P (s\<lparr>isValid := False\<rparr>)
        \<and> P (s\<lparr>Printer := Printer s @ ''specialized '',
                 SpecializationPrefixPrinted := True\<rparr>))"

text \<open>The same for a part of the switch, which may have no action for the kind.\<close>

definition preserves_case :: "(NodePrinter \<Rightarrow> bool) \<Rightarrow> 'a act option \<Rightarrow> bool" where
  "preserves_case P c = (case c of None \<Rightarrow> True | Some m \<Rightarrow> preserves P m)"

section \<open>Sessions and examples\<close>

text \<open>
  A sequence of calls of \<^verbatim>\<open>nodeToString\<close> in one process, each with its root and its
  options, and the strings that they return in order. The storage of the printer is
  handed from each call to the next; the sequence ends with the first call that fails.
\<close>

fun session ::
  "Ext \<Rightarrow> (Node option \<times> DemangleOptions) list \<Rightarrow> NodePrinter \<Rightarrow> (failure + string) list"
where
  "session X [] storage = []"
| "session X ((root, options) # calls) storage =
     (case nodeToString_in X root options storage of
        Inl e \<Rightarrow> [Inl e]
      | Inr (result, storage') \<Rightarrow> Inr result # session X calls storage')"

text \<open>
  The kinds whose case of the switch of \<^verbatim>\<open>print\<close> calls
  \<^verbatim>\<open>printSpecializationPrefix\<close>.
\<close>

definition specialization_kinds :: "Kind list" where
  "specialization_kinds =
     [''FunctionSignatureSpecialization'', ''GenericPartialSpecialization'',
      ''GenericPartialSpecializationNotReAbstracted'', ''GenericSpecialization'',
      ''GenericSpecializationPrespecialized'', ''GenericSpecializationNotReAbstracted'',
      ''InlinedGenericFunction'']"

text \<open>
  One value of the options, used where a theorem is applied to a concrete input: every
  display option on, no shortening, the default namer.
\<close>

definition example_options :: DemangleOptions where
  "example_options =
     \<lparr> SynthesizeSugarOnTypes = True, QualifyEntities = True, DisplayExtensionContexts = True,
       DisplayUnmangledSuffix = True, DisplayModuleNames = True,
       DisplayGenericSpecializations = True, DisplayProtocolConformances = True,
       DisplayWhereClauses = True, DisplayEntityTypes = True, DisplayLocalNameContexts = True,
       ShortenPartialApply = False, ShortenThunk = False, ShortenValueWitness = False,
       ShowPrivateDiscriminators = True, ShowFunctionArgumentTypes = True,
       DisplayDebuggerGeneratedModule = True, DisplayStdlibModule = True,
       DisplayObjCModule = True, PrintForTypeName = False, HidingCurrentModule = [],
       GenericParameterName = genericParameterName \<rparr>"

text \<open>
  Example trees: a nominal type of the standard library behind its \<open>Type\<close> node, and a
  leaf.
\<close>

definition swift_type :: "Kind \<Rightarrow> string \<Rightarrow> Node" where
  "swift_type kind name =
     MkNode ''Type'' None None
       [MkNode kind None None
          [MkNode ''Module'' (Some ''Swift'') None [], MkNode ''Identifier'' (Some name) None []]]"

definition leaf :: "Kind \<Rightarrow> Node" where
  "leaf kind = MkNode kind None None []"

text \<open>
  The kinds whose case of the switch of \<^verbatim>\<open>print\<close> calls \<^verbatim>\<open>printFunctionType\<close> on
  the node.
\<close>

definition function_type_kinds :: "Kind list" where
  "function_type_kinds =
     [''FunctionType'', ''UncurriedFunctionType'', ''NoEscapeFunctionType'',
      ''AutoClosureType'', ''EscapingAutoClosureType'', ''ThinFunctionType'',
      ''CFunctionPointer'', ''ObjCBlock'', ''EscapingObjCBlock'',
      ''DifferentiableFunctionType'', ''EscapingDifferentiableFunctionType'',
      ''LinearFunctionType'', ''EscapingLinearFunctionType'']"

text \<open>
  Two calls of \<^verbatim>\<open>printRoot\<close> on one printer, the second on the printer as the first
  left it, and the two strings they return. The source has no such caller:
  \<^verbatim>\<open>nodeToString\<close> is the one caller of \<^verbatim>\<open>printRoot\<close>, on a printer of its own.
\<close>

definition printRoot_twice ::
  "Ext \<Rightarrow> Node \<Rightarrow> Node \<Rightarrow> NodePrinter \<Rightarrow> failure + (string \<times> string)" where
  "printRoot_twice X root1 root2 p =
     (case printRoot X root1 p of
        Inl e \<Rightarrow> Inl e
      | Inr (text1, p1) \<Rightarrow>
          (case printRoot X root2 p1 of
             Inl e \<Rightarrow> Inl e
           | Inr (text2, p2) \<Rightarrow> Inr (text1, text2)))"

section \<open>The generic parameter namer\<close>

lemma unat_letter_code:
  "unat ((65 :: 64 word) + index mod 26) = 65 + unat index mod 26"
proof -
  have "unat (index mod 26) < 26"
    by (simp add: unat_mod)
  then have "unat (65 :: 64 word) + unat (index mod 26) < 2 ^ LENGTH(64)"
    by simp
  then have "unat ((65 :: 64 word) + index mod 26) = unat (65 :: 64 word) + unat (index mod 26)"
    by (simp only: unat_add_lem [THEN iffD1])
  then show ?thesis
    by (simp add: unat_mod)
qed

lemma div26_eq_0_iff: "(index div 26 = 0) = (unat index < 26)" for index :: "64 word"
proof -
  have "(index div 26 = 0) = (unat (index div 26) = 0)"
    by (simp add: unsigned_eq_0_iff)
  also have "\<dots> = (unat index div 26 = 0)"
    by (simp add: unat_div)
  also have "\<dots> = (unat index < 26)"
    by auto
  finally show ?thesis .
qed

lemma genericParameterName_loop_eq:
  "genericParameterName_loop name index = name @ map letter (base26 (unat index))"
proof (induction name index rule: genericParameterName_loop.induct)
  case (1 name index)
  show ?case
  proof (cases "unat index < 26")
    case True
    then show ?thesis
      using div26_eq_0_iff [of index]
      by (subst genericParameterName_loop.simps, subst base26.simps)
         (simp add: letter_def unat_letter_code)
  next
    case False
    then have nz: "index div 26 \<noteq> 0"
      by (simp add: div26_eq_0_iff)
    have "genericParameterName_loop name index
        = genericParameterName_loop (name @ [letter (unat index mod 26)]) (index div 26)"
      using nz by (subst genericParameterName_loop.simps) (simp add: letter_def unat_letter_code)
    also have "\<dots> = (name @ [letter (unat index mod 26)]) @ map letter (base26 (unat (index div 26)))"
      using nz by (intro "1.IH") (simp_all add: letter_def unat_letter_code)
    also have "\<dots> = name @ map letter (base26 (unat index))"
      using False by (subst (2) base26.simps) (simp add: unat_div)
    finally show ?thesis .
  qed
qed

lemma base26_value: "(\<Sum>k < length (base26 n). base26 n ! k * 26 ^ k) = n"
proof (induction n rule: base26.induct)
  case (1 n)
  show ?case
  proof (cases "n < 26")
    case True
    then show ?thesis by (subst (1 2) base26.simps) simp
  next
    case False
    have "(\<Sum>k < length (base26 n). base26 n ! k * 26 ^ k)
        = (\<Sum>k < Suc (length (base26 (n div 26))). ((n mod 26) # base26 (n div 26)) ! k * 26 ^ k)"
      using False by (subst (1 2) base26.simps) simp
    also have "\<dots> = n mod 26 + (\<Sum>k < length (base26 (n div 26)). base26 (n div 26) ! k * 26 ^ Suc k)"
      by (subst sum.lessThan_Suc_shift) simp
    also have "\<dots> = n mod 26 + 26 * (\<Sum>k < length (base26 (n div 26)). base26 (n div 26) ! k * 26 ^ k)"
      by (simp add: sum_distrib_left mult.assoc mult.left_commute)
    also have "\<dots> = n mod 26 + 26 * (n div 26)"
      using False by (simp add: "1.IH")
    also have "\<dots> = n" by simp
    finally show ?thesis .
  qed
qed

lemma base26_digits: "d \<in> set (base26 n) \<Longrightarrow> d < 26"
proof (induction n rule: base26.induct)
  case (1 n)
  then show ?case
    by (subst (asm) (2) base26.simps) (auto split: if_splits)
qed

text \<open>
  C5: for every depth and index the name is the spelling of the index in base 26 with
  the letters A to Z, least significant letter first, followed by the decimal depth
  exactly when the depth is not zero. The digits of the spelling are below 26 and have
  the index as their value; an index below 26 gives one letter, and index 26 gives the
  two letters \<open>AB\<close>, the first of which is \<open>A\<close>.
\<close>

theorem genericParameterName_spelling:
  "genericParameterName depth index
     = map letter (base26 (unat index)) @ (if depth = 0 then [] else decimal (unat depth))
   \<and> (\<Sum>k < length (base26 (unat index)). base26 (unat index) ! k * 26 ^ k) = unat index
   \<and> (\<forall>d \<in> set (base26 (unat index)). d < 26)
   \<and> (unat index < 26 \<longrightarrow> genericParameterName 0 index = [letter (unat index)])
   \<and> genericParameterName 0 26 = ''AB''"
proof -
  have "genericParameterName 0 26 = ''AB''"
    by code_simp
  moreover have "genericParameterName 0 index = [letter (unat index)]" if "unat index < 26"
    using that by (simp add: genericParameterName_def genericParameterName_loop_eq base26.simps)
  ultimately show ?thesis
    by (simp add: genericParameterName_def genericParameterName_loop_eq base26_value
        base26_digits)
qed

theorem genericParameterName_spelling_witness:
  "genericParameterName 2 27 = ''BB2'' \<and> genericParameterName 0 3 = ''D''"
proof -
  have b: "base26 27 = [1, 1]" "base26 3 = [3]"
    by (simp_all add: base26.simps)
  have l: "letter (Suc 0) = CHR ''B''" "letter 3 = CHR ''D''" "decimal 2 = ''2''"
    by code_simp+
  show ?thesis
    using genericParameterName_spelling [of 2 27] genericParameterName_spelling [of 0 3]
    by (simp add: b l)
qed

section \<open>Quoting\<close>

lemma Hexdigit_upper: "d < 16 \<Longrightarrow> Hexdigit ! d = upper_hex_digit d"
proof -
  have "\<forall>d \<in> set [0..<16]. Hexdigit ! d = upper_hex_digit d"
    by code_simp
  then show "d < 16 \<Longrightarrow> Hexdigit ! d = upper_hex_digit d"
    by simp
qed

lemma unat_of_char8: "unat (of_char C :: 8 word) = of_char C"
proof -
  have "unat (of_nat (of_char C) :: 8 word) = of_char C mod 2 ^ LENGTH(8)"
    by (rule unat_of_nat)
  then show ?thesis
    using nat_of_char_less_256 [of C] by (simp add: of_nat_of_char)
qed

lemma of_char_eq_code: "((of_char C :: nat) = 0x5C) = (C = CHR 0x5C)" "((of_char C :: nat) = 0x09) = (C = CHR 0x09)"
    "((of_char C :: nat) = 0x0A) = (C = CHR 0x0A)" "((of_char C :: nat) = 0x0D) = (C = CHR 0x0D)"
    "((of_char C :: nat) = 0x22) = (C = CHR 0x22)" "((of_char C :: nat) = 0) = (C = CHR 0x00)"
  using of_char_eq_iff [of C "CHR 0x5C", where ?'a = nat] of_char_eq_iff [of C "CHR 0x09", where ?'a = nat]
   of_char_eq_iff [of C "CHR 0x0A", where ?'a = nat] of_char_eq_iff [of C "CHR 0x0D", where ?'a = nat]
   of_char_eq_iff [of C "CHR 0x22", where ?'a = nat] of_char_eq_iff [of C "CHR 0x00", where ?'a = nat]
  by simp_all

lemma quote_step_eq: "quote_step printer C = printer @ escape_spec C"
proof -
  have hi: "unat (drop_bit 4 (of_char C :: 8 word)) = of_char C div 16"
    by (simp add: unat_drop_bit_eq drop_bit_eq_div unat_of_char8 unat_div)
  have lo: "unat ((of_char C :: 8 word) AND 0xF) = of_char C mod 16"
  proof -
    have "(of_char C :: 8 word) AND 0xF = take_bit 4 (of_char C)"
      by (simp add: take_bit_eq_mask mask_numeral)
    then show ?thesis
      by (simp add: unsigned_take_bit_eq take_bit_eq_mod unat_of_char8 unat_mod)
  qed
  have lt: "((of_char C :: 8 word) < 0x20) = ((of_char C :: nat) < 0x20)"
    by (simp add: word_less_nat_alt unat_of_char8)
  have ge: "((0x7F :: 8 word) \<le> of_char C) = ((0x7F :: nat) \<le> of_char C)"
    by (simp add: word_le_nat_alt unat_of_char8)
  have d16: "(of_char C :: nat) div 16 < 16" "(of_char C :: nat) mod 16 < 16"
    using nat_of_char_less_256 [of C] by presburger+
  have pass: "char_of (of_char C :: nat) = C"
    by simp
  show ?thesis
    unfolding quote_step_def escape_spec_def Let_def
    apply (simp only: hi lo lt ge of_char_eq_code Hexdigit_upper d16 unat_of_char8 pass)
    apply (simp only: append.simps append_Nil2 if_distrib [of "\<lambda>x. printer @ x"] cong: if_cong)
    done
qed

lemma foldl_quote_step: "foldl quote_step printer Value = printer @ concat (map escape_spec Value)"
  by (induction Value arbitrary: printer) (simp_all add: quote_step_eq)

text \<open>
  C4: quoting is a total function of the bytes of the value. Its output is the buffer
  followed by a double quote, the escape of each byte in order, and a double quote, where
  the escape of a byte is the one the specification describes; the bytes tab, double
  quote, \<open>0x01\<close> are quoted as the ten characters \<^verbatim>\<open>"\t\"\x01"\<close>.
\<close>

theorem print_QuotedString_escapes:
  "print_QuotedString printer Value
     = printer @ [CHR 0x22] @ concat (map escape_spec Value) @ [CHR 0x22]
   \<and> print_QuotedString [] [CHR 0x09, CHR 0x22, CHR 0x01]
     = [CHR 0x22, CHR 0x5C, CHR ''t'', CHR 0x5C, CHR 0x22, CHR 0x5C, CHR ''x'', CHR ''0'', CHR ''1'',
        CHR 0x22]"
proof -
  have "print_QuotedString [] [CHR 0x09, CHR 0x22, CHR 0x01]
     = [CHR 0x22, CHR 0x5C, CHR ''t'', CHR 0x5C, CHR 0x22, CHR 0x5C, CHR ''x'', CHR ''0'', CHR ''1'',
        CHR 0x22]"
    by code_simp
  then show ?thesis
    by (simp add: print_QuotedString_def foldl_quote_step)
qed

section \<open>The type-simplicity classifier\<close>

text \<open>
  C6: the classification is a function of the node alone (and of the members of
  \<^verbatim>\<open>ReferenceStorage.def\<close>). A \<open>ProtocolList\<close> node is simple exactly when its first child
  has at most one child, a \<open>ProtocolListWithAnyObject\<close> node exactly when the first child
  of its first child has none, and a \<open>ProtocolListWithClass\<close> node is never simple.
\<close>

theorem isSimpleType_protocol_lists:
  "(getKind n = ''ProtocolList'' \<longrightarrow> getChild n 0 = Inr c \<longrightarrow>
      isSimpleType X n = Inr (getNumChildren c \<le> 1))
   \<and> (getKind n = ''ProtocolListWithAnyObject'' \<longrightarrow> getChild n 0 = Inr c \<longrightarrow>
      getChild c 0 = Inr d \<longrightarrow> isSimpleType X n = Inr (getNumChildren d = 0))
   \<and> (getKind n = ''ProtocolListWithClass'' \<longrightarrow> isSimpleType X n = Inr False)"
  by (simp add: isSimpleType_def simple_kinds_def compound_kinds_before_def andThen_def)


theorem isSimpleType_protocol_lists_witness:
  "isSimpleType Swift_headers
     (MkNode ''ProtocolList'' None None [MkNode ''TypeList'' None None []]) = Inr True
   \<and> isSimpleType Swift_headers
     (MkNode ''ProtocolList'' None None
        [MkNode ''TypeList'' None None
           [MkNode ''Type'' None None [], MkNode ''Type'' None None []]]) = Inr False
   \<and> isSimpleType Swift_headers
     (MkNode ''ProtocolListWithAnyObject'' None None
        [MkNode ''ProtocolList'' None None [MkNode ''TypeList'' None None []]]) = Inr True
   \<and> isSimpleType Swift_headers (MkNode ''ProtocolListWithClass'' None None []) = Inr False"
  using
    isSimpleType_protocol_lists [of "MkNode ''ProtocolList'' None None [MkNode ''TypeList'' None None []]"
      "MkNode ''TypeList'' None None []" Swift_headers]
    isSimpleType_protocol_lists [of "MkNode ''ProtocolList'' None None
        [MkNode ''TypeList'' None None [MkNode ''Type'' None None [], MkNode ''Type'' None None []]]"
      "MkNode ''TypeList'' None None [MkNode ''Type'' None None [], MkNode ''Type'' None None []]"
      Swift_headers]
    isSimpleType_protocol_lists [of "MkNode ''ProtocolListWithAnyObject'' None None
        [MkNode ''ProtocolList'' None None [MkNode ''TypeList'' None None []]]"
      "MkNode ''ProtocolList'' None None [MkNode ''TypeList'' None None []]" Swift_headers
      "MkNode ''TypeList'' None None []"]
    isSimpleType_protocol_lists [of "MkNode ''ProtocolListWithClass'' None None []" _ Swift_headers]
  by (simp add: getChild_def getNumChildren_def)
section \<open>Every member function preserves a stable property\<close>

text \<open>
  The rules that follow the structure of an action; those of the member functions take
  the same fact about the calls of \<open>print\<close> as a premise.
\<close>

named_theorems pres

lemma preservesD: "preserves P m \<Longrightarrow> P s \<Longrightarrow> m s = Inr (x, s') \<Longrightarrow> P s'"
  unfolding preserves_def by blast

lemma preserves_ret [pres]: "preserves P (ret x)"
  by (simp add: preserves_def ret_def)

lemma preserves_fail [pres]: "preserves P (fail e)"
  by (simp add: preserves_def fail_def)

lemma preserves_bnd [pres]:
  assumes m: "preserves P m" and f: "\<And>x. preserves P (f x)"
  shows "preserves P (bnd m f)"
  unfolding preserves_def
proof (intro allI impI)
  fix s y s''
  assume "P s" and run: "bnd m f s = Inr (y, s'')"
  from run obtain x s' where 1: "m s = Inr (x, s')" and 2: "f x s' = Inr (y, s'')"
    by (cases "m s") (auto simp: bnd_def)
  from m \<open>P s\<close> 1 have "P s'"
    unfolding preserves_def by blast
  with f [of x] 2 show "P s''"
    unfolding preserves_def by blast
qed

lemma preserves_seq [pres]: "preserves P m \<Longrightarrow> preserves P k \<Longrightarrow> preserves P (seq m k)"
  by (simp add: seq_def preserves_bnd)

lemma preserves_skip [pres]: "preserves P skip"
  by (simp add: skip_def preserves_ret)

lemma preserves_block_Nil [pres]: "preserves P (block [])"
  by (simp add: preserves_skip)

lemma preserves_block_Cons [pres]:
  "preserves P m \<Longrightarrow> preserves P (block ms) \<Longrightarrow> preserves P (block (m # ms))"
  by (simp add: preserves_seq)

lemma preserves_ign [pres]: "preserves P m \<Longrightarrow> preserves P (ign m)"
  by (simp add: ign_def preserves_bnd preserves_skip)

lemma preserves_return_nullptr [pres]: "preserves P m \<Longrightarrow> preserves P (return_nullptr m)"
  by (simp add: return_nullptr_def preserves_bnd preserves_ret)

lemma preserves_stmts [pres]: "preserves P (block ms) \<Longrightarrow> preserves P (stmts ms)"
  by (simp add: stmts_def preserves_return_nullptr)

lemma preserves_lift [pres]: "preserves P (lift x)"
  by (cases x) (simp_all add: lift_def preserves_ret preserves_fail)

lemma preserves_assert [pres]: "preserves P (assert X c)"
  by (simp add: assert_def preserves_fail preserves_skip)

lemma preserves_out [pres]: "assign_stable P \<Longrightarrow> preserves P (out str)"
  by (simp add: preserves_def out_def assign_stable_def)

lemma preserves_out_text [pres]: "assign_stable P \<Longrightarrow> preserves P (out_text x)"
  by (simp add: out_text_def preserves_bnd preserves_lift preserves_out)

lemma preserves_out_unsigned [pres]: "assign_stable P \<Longrightarrow> preserves P (out_unsigned x)"
  by (simp add: out_unsigned_def preserves_bnd preserves_lift preserves_out)

lemma preserves_out_int [pres]: "assign_stable P \<Longrightarrow> preserves P (out_int n)"
  by (simp add: out_int_def preserves_out)

lemma preserves_writeHex [pres]: "assign_stable P \<Longrightarrow> preserves P (writeHex x)"
  by (simp add: writeHex_def preserves_bnd preserves_lift preserves_out)

lemma preserves_out_QuotedString [pres]: "assign_stable P \<Longrightarrow> preserves P (out_QuotedString x)"
proof -
  assume "assign_stable P"
  then have "preserves P (\<lambda>s. Inr ((), s\<lparr>Printer := print_QuotedString (Printer s) v\<rparr>))" for v
    by (simp add: preserves_def assign_stable_def print_QuotedString_def foldl_quote_step)
  then show ?thesis
    by (simp add: out_QuotedString_def preserves_bnd preserves_lift)
qed

lemma preserves_size_of_Printer [pres]: "preserves P size_of_Printer"
  by (simp add: preserves_def size_of_Printer_def)

lemma preserves_opt [pres]: "preserves P (opt f)"
  by (simp add: preserves_def opt_def)

lemma preserves_setInvalid [pres]: "assign_stable P \<Longrightarrow> preserves P setInvalid"
  by (simp add: preserves_def setInvalid_def assign_stable_def)

lemma preserves_getSpecializationPrefixPrinted [pres]:
  "preserves P getSpecializationPrefixPrinted"
  by (simp add: preserves_def getSpecializationPrefixPrinted_def)

lemma preserves_marker:
  "assign_stable P \<Longrightarrow> preserves P (block [out ''specialized '', setSpecializationPrefixPrinted])"
  by (simp add: preserves_def setSpecializationPrefixPrinted_def out_def seq_def bnd_def
        skip_def ret_def assign_stable_def)

lemma preserves_if [pres]:
  "preserves P a \<Longrightarrow> preserves P b \<Longrightarrow> preserves P (if c then a else b)"
  by simp

lemma preserves_case_option [pres]:
  "preserves P a \<Longrightarrow> (\<And>v. preserves P (f v)) \<Longrightarrow> preserves P (case_option a f x)"
  by (cases x) simp_all

lemma preserves_case_list [pres]:
  "preserves P a \<Longrightarrow> (\<And>v vs. preserves P (f v vs)) \<Longrightarrow> preserves P (case_list a f x)"
  by (cases x) simp_all

lemma preserves_case_prod [pres]:
  "(\<And>a b. preserves P (f a b)) \<Longrightarrow> preserves P (case_prod f x)"
  by (cases x) simp

lemma preserves_case_SugarType [pres]:
  "preserves P a \<Longrightarrow> preserves P b \<Longrightarrow> preserves P c \<Longrightarrow> preserves P d \<Longrightarrow> preserves P e
   \<Longrightarrow> preserves P (case_SugarType a b c d e x)"
  by (cases x) simp_all

lemma preserves_case_State [pres]:
  "preserves P a \<Longrightarrow> preserves P b \<Longrightarrow> preserves P c \<Longrightarrow> preserves P (case_State a b c x)"
  by (cases x) simp_all

lemma preserves_Let [pres]: "preserves P (f x) \<Longrightarrow> preserves P (Let x f)"
  by simp

lemma preserves_print_node [pres]:
  "(\<And>c a. preserves P (pr c a)) \<Longrightarrow> preserves P (print_node pr x)"
  by (simp add: print_node_def preserves_bnd preserves_lift preserves_ign)

lemma preserves_print_node_as_prefix [pres]:
  "(\<And>c a. preserves P (pr c a)) \<Longrightarrow> preserves P (print_node_as_prefix pr x)"
  by (simp add: print_node_as_prefix_def preserves_bnd preserves_lift preserves_ign)


lemma preserves_printChildren_range [pres]:
  assumes "assign_stable P" and "\<And>c a. preserves P (pr c a)"
  shows "preserves P (printChildren_range pr cs sep)"
  by (induction cs) (auto intro!: pres assms)

lemma preserves_printChildren [pres]:
  assumes "assign_stable P" and "\<And>c a. preserves P (pr c a)"
  shows "preserves P (printChildren pr Node sep)"
  unfolding printChildren_def by (intro pres assms)

lemma preserves_printBoundGenericNoSugar [pres]:
  assumes "assign_stable P" and "\<And>c a. preserves P (pr c a)"
  shows "preserves P (printBoundGenericNoSugar pr Node)"
  unfolding printBoundGenericNoSugar_def by (intro pres assms)

lemma preserves_printOptionalIndex [pres]:
  assumes "assign_stable P"
  shows "preserves P (printOptionalIndex X node)"
  unfolding printOptionalIndex_def by (intro pres assms)

lemma preserves_printContext [pres]: "preserves P (printContext X Context)"
  unfolding printContext_def by (intro pres)

lemma preserves_printWithParens [pres]:
  assumes "assign_stable P" and "\<And>c a. preserves P (pr c a)"
  shows "preserves P (printWithParens X pr type)"
  unfolding printWithParens_def by (intro pres assms)

lemma preserves_printBoundGeneric [pres]:
  assumes "assign_stable P" and "\<And>c a. preserves P (pr c a)"
  shows "preserves P (printBoundGeneric X pr Node)"
  unfolding printBoundGeneric_def by (intro pres assms)


lemma preserves_getLabelFor [pres]: "preserves P (getLabelFor X LabelList Index)"
  unfolding getLabelFor_def by (intro pres)

lemma preserves_printFunctionParameters_each [pres]:
  assumes "assign_stable P" and "\<And>c a. preserves P (pr c a)"
  shows "preserves P (printFunctionParameters_each X pr LabelList hasLabels showTypes i ps)"
proof (induction ps arbitrary: i)
  case Nil
  show ?case by (simp add: preserves_skip)
next
  case (Cons p ps)
  show ?case
    unfolding printFunctionParameters_each.simps by (intro pres assms Cons)
qed

lemma preserves_printFunctionParameters [pres]:
  assumes "assign_stable P" and "\<And>c a. preserves P (pr c a)"
  shows "preserves P (printFunctionParameters X pr LabelList ParameterType showTypes)"
  unfolding printFunctionParameters_def by (intro pres assms)

lemma preserves_printConventionWithMangledCType [pres]:
  assumes "assign_stable P" and "\<And>c a. preserves P (pr c a)"
  shows "preserves P (printConventionWithMangledCType pr node convention)"
  unfolding printConventionWithMangledCType_def by (intro pres assms)

lemma preserves_printFunctionType [pres]:
  assumes "assign_stable P" and "\<And>c a. preserves P (pr c a)"
  shows "preserves P (printFunctionType X pr LabelList node)"
  unfolding printFunctionType_def by (intro pres assms)

lemma preserves_transitionTo [pres]:
  assumes "assign_stable P" and "\<And>c a. preserves P (pr c a)"
  shows "preserves P (transitionTo X pr patternSubs curState newState)"
  unfolding transitionTo_def transition_from_Attrs_def transition_from_Inputs_def
    transition_from_Results_def
  by (intro pres assms)

lemma preserves_printImplFunctionType_loop [pres]:
  assumes "assign_stable P" and "\<And>c a. preserves P (pr c a)"
  shows "preserves P (printImplFunctionType_loop X pr cs curState patternSubs invocationSubs)"
proof (induction cs arbitrary: curState patternSubs invocationSubs)
  case Nil
  show ?case by (simp add: preserves_ret)
next
  case (Cons c cs)
  show ?case
    unfolding printImplFunctionType_loop.simps by (intro pres assms Cons)
qed

lemma preserves_printImplFunctionType [pres]:
  assumes "assign_stable P" and "\<And>c a. preserves P (pr c a)"
  shows "preserves P (printImplFunctionType X pr fn)"
  unfolding printImplFunctionType_def by (intro pres assms)

lemma preserves_print_closure_types [pres]:
  assumes "assign_stable P" and "\<And>c a. preserves P (pr c a)"
  shows "preserves P (print_closure_types pr cs Idx)"
proof (induction cs arbitrary: Idx)
  case Nil
  show ?case by (simp add: preserves_ret)
next
  case (Cons c cs)
  show ?case
    unfolding print_closure_types.simps by (intro pres assms Cons)
qed

lemma preserves_printFunctionSigSpecializationParams_step [pres]:
  assumes "assign_stable P" and "\<And>c a. preserves P (pr c a)"
  shows "preserves P (printFunctionSigSpecializationParams_step X pr Node Idx)"
  unfolding printFunctionSigSpecializationParams_step_def by (intro pres assms)

lemma preserves_printFunctionSigSpecializationParams_from [pres]:
  assumes "assign_stable P" and "\<And>c a. preserves P (pr c a)"
  shows "preserves P (printFunctionSigSpecializationParams_from X pr Node Idx)"
proof (induction "getNumChildren Node - Idx" arbitrary: Idx rule: less_induct)
  case less
  have step: "preserves P (printFunctionSigSpecializationParams_step X pr Node Idx)"
    by (intro pres assms)
  show ?case
  proof (cases "Idx < getNumChildren Node")
    case True
    have "preserves P (if Idx < Idx' then printFunctionSigSpecializationParams_from X pr Node Idx'
                       else fail NoProgress)" for Idx'
    proof (cases "Idx < Idx'")
      case True
      with \<open>Idx < getNumChildren Node\<close> have "getNumChildren Node - Idx' < getNumChildren Node - Idx"
        by arith
      then show ?thesis
        using True by (simp add: less)
    next
      case False
      then show ?thesis by (simp add: preserves_fail)
    qed
    with step True show ?thesis
      by (subst printFunctionSigSpecializationParams_from.simps) (simp add: preserves_bnd)
  next
    case False
    then show ?thesis
      by (subst printFunctionSigSpecializationParams_from.simps) (simp add: preserves_skip)
  qed
qed

lemma preserves_printFunctionSigSpecializationParams [pres]:
  assumes "assign_stable P" and "\<And>c a. preserves P (pr c a)"
  shows "preserves P (printFunctionSigSpecializationParams X pr Node)"
  unfolding printFunctionSigSpecializationParams_def by (intro pres assms)

lemma preserves_printSpecializationPrefix_loop [pres]:
  assumes "assign_stable P" and "\<And>c a. preserves P (pr c a)"
  shows "preserves P (printSpecializationPrefix_loop X pr ParamPrefix cs Separator argNum)"
proof (induction cs arbitrary: Separator argNum)
  case Nil
  show ?case by (simp add: preserves_skip)
next
  case (Cons c cs)
  show ?case
    unfolding printSpecializationPrefix_loop.simps by (intro pres assms Cons)
qed

lemma preserves_printSpecializationPrefix [pres]:
  assumes "assign_stable P" and "\<And>c a. preserves P (pr c a)"
  shows "preserves P (printSpecializationPrefix X pr node Description ParamPrefix)"
proof -
  have terse: "preserves P
      (bnd getSpecializationPrefixPrinted (\<lambda>printed.
         if \<not> printed then block [out ''specialized '', setSpecializationPrefixPrinted]
         else skip))"
    by (intro preserves_bnd preserves_getSpecializationPrefixPrinted preserves_if
          preserves_marker preserves_skip assms)
  have verbose: "preserves P
      (block [out Description, out '' <'',
              printSpecializationPrefix_loop X pr ParamPrefix (Children node) [] 0,
              out ''> of ''])"
    by (intro pres assms)
  show ?thesis
    unfolding printSpecializationPrefix_def
    by (intro preserves_bnd preserves_opt preserves_if terse verbose)
qed

lemma preserves_printEntityType [pres]:
  assumes "assign_stable P" and "\<And>c a. preserves P (pr c a)"
  shows "preserves P (printEntityType X pr Entity type genericFunctionTypeList)"
  unfolding printEntityType_def by (intro pres assms)

lemma preserves_printEntity_name [pres]:
  assumes "assign_stable P" and "\<And>c a. preserves P (pr c a)"
  shows "preserves P (printEntity_name X pr Entity hasName MultiWordName ExtraName ExtraIndex
           OverwriteName)"
  unfolding printEntity_name_def by (intro pres assms)

lemma preserves_printEntity_type [pres]:
  assumes "assign_stable P" and "\<And>c a. preserves P (pr c a)"
  shows "preserves P (printEntity_type X pr Entity TypePr MultiWordName genericFunctionTypeList)"
  unfolding printEntity_type_def by (intro pres assms)

lemma preserves_printEntity [pres]:
  assumes "assign_stable P" and "\<And>c a. preserves P (pr c a)"
  shows "preserves P (printEntity X pr Entity asPrefixContext TypePr hasName ExtraName ExtraIndex
           OverwriteName)"
  unfolding printEntity_def by (intro pres assms)

lemma preserves_printAbstractStorage [pres]:
  assumes "assign_stable P" and "\<And>c a. preserves P (pr c a)"
  shows "preserves P (printAbstractStorage X pr storage asPrefixContent ExtraName)"
  unfolding printAbstractStorage_def by (intro pres assms)

lemma preserves_print_separated [pres]:
  assumes "assign_stable P" and "\<And>c a. preserves P (pr c a)"
  shows "preserves P (print_separated pr sep first cs)"
proof (induction cs arbitrary: first)
  case Nil
  show ?case by (simp add: preserves_skip)
next
  case (Cons c cs)
  show ?case
    unfolding print_separated.simps by (intro pres assms Cons)
qed

lemma preserves_print_with_and [pres]:
  assumes "assign_stable P" and "\<And>c a. preserves P (pr c a)"
  shows "preserves P (print_with_and pr i cs)"
proof (induction cs arbitrary: i)
  case Nil
  show ?case by (simp add: preserves_skip)
next
  case (Cons c cs)
  show ?case
    unfolding print_with_and.simps by (intro pres assms Cons)
qed

lemma preserves_print_key_path_rest [pres]:
  assumes "assign_stable P" and "\<And>c a. preserves P (pr c a)"
  shows "preserves P (print_key_path_rest pr cs)"
proof (induction cs)
  case Nil
  show ?case by (simp add: preserves_skip)
next
  case (Cons c cs)
  show ?case
    unfolding print_key_path_rest.simps by (intro pres assms Cons)
qed

lemma preserves_print_box_fields [pres]:
  assumes "assign_stable P" and "\<And>c a. preserves P (pr c a)"
  shows "preserves P (print_box_fields pr first cs)"
proof (induction cs arbitrary: first)
  case Nil
  show ?case by (simp add: preserves_skip)
next
  case (Cons c cs)
  show ?case
    unfolding print_box_fields.simps by (intro pres assms Cons)
qed

lemma preserves_print_generic_params [pres]:
  assumes "assign_stable P"
  shows "preserves P (print_generic_params namer depth count index)"
proof (induction "count - index" arbitrary: index rule: less_induct)
  case less
  show ?case
  proof (cases "index < count \<and> \<not> 128 \<le> index")
    case True
    then have "count - (index + 1) < count - index"
      by arith
    then have "preserves P (print_generic_params namer depth count (index + 1))"
      by (rule less)
    then show ?thesis
      by (subst print_generic_params.simps) (intro pres assms)
  next
    case False
    then show ?thesis
      by (subst print_generic_params.simps) (auto intro!: pres assms)
  qed
qed

lemma preserves_print_param_counts [pres]:
  assumes "assign_stable P"
  shows "preserves P (print_param_counts namer cs depth)"
proof (induction cs arbitrary: depth)
  case Nil
  show ?case by (simp add: preserves_ret)
next
  case (Cons c cs)
  show ?case
    unfolding print_param_counts.simps by (intro pres assms Cons)
qed

lemma preserves_print_DependentGenericSignature [pres]:
  assumes "assign_stable P" and "\<And>c a. preserves P (pr c a)"
  shows "preserves P (print_DependentGenericSignature pr Node)"
  unfolding print_DependentGenericSignature_def by (intro pres assms)

lemma preserves_print_FunctionSignatureSpecializationParamKind [pres]:
  assumes "assign_stable P"
  shows "preserves P (print_FunctionSignatureSpecializationParamKind X Node)"
  unfolding print_FunctionSignatureSpecializationParamKind_def by (intro pres assms)


lemma preserves_case_None: "preserves_case P None"
  by (simp add: preserves_case_def)

lemma preserves_case_Some: "preserves P m \<Longrightarrow> preserves_case P (Some m)"
  by (simp add: preserves_case_def)

lemma preserves_case_if:
  "preserves_case P a \<Longrightarrow> preserves_case P b \<Longrightarrow> preserves_case P (if c then a else b)"
  by simp

lemma preserves_case_Let: "preserves_case P (f x) \<Longrightarrow> preserves_case P (Let x f)"
  by simp

lemmas preserves_cases = preserves_case_None preserves_case_Some preserves_case_if preserves_case_Let

lemma preserves_print_cases_1:
  assumes "assign_stable P" and "\<And>c a. preserves P (pr c a)"
  shows "preserves_case P (print_cases_1 X pr Node asPrefixContext)"
  unfolding print_cases_1_def by (intro preserves_cases pres assms)

lemma preserves_print_cases_2:
  assumes "assign_stable P" and "\<And>c a. preserves P (pr c a)"
  shows "preserves_case P (print_cases_2 X pr Node asPrefixContext)"
  unfolding print_cases_2_def by (intro preserves_cases pres assms)

lemma preserves_print_cases_3:
  assumes "assign_stable P" and "\<And>c a. preserves P (pr c a)"
  shows "preserves_case P (print_cases_3 X pr Node asPrefixContext)"
  unfolding print_cases_3_def by (intro preserves_cases pres assms)

lemma preserves_print_cases_4:
  assumes "assign_stable P" and "\<And>c a. preserves P (pr c a)"
  shows "preserves_case P (print_cases_4 X pr Node asPrefixContext)"
  unfolding print_cases_4_def by (intro preserves_cases pres assms)

lemma preserves_print_cases_5:
  assumes "assign_stable P" and "\<And>c a. preserves P (pr c a)"
  shows "preserves_case P (print_cases_5 X pr Node asPrefixContext)"
  unfolding print_cases_5_def by (intro preserves_cases pres assms)

lemma preserves_print_cases_6:
  assumes "assign_stable P" and "\<And>c a. preserves P (pr c a)"
  shows "preserves_case P (print_cases_6 X pr Node asPrefixContext)"
  unfolding print_cases_6_def by (intro preserves_cases pres assms)

lemma preserves_print_cases_7:
  assumes "assign_stable P" and "\<And>c a. preserves P (pr c a)"
  shows "preserves_case P (print_cases_7 X pr Node asPrefixContext)"
  unfolding print_cases_7_def by (intro preserves_cases pres assms)

lemma preserves_print_cases_8:
  assumes "assign_stable P" and "\<And>c a. preserves P (pr c a)"
  shows "preserves_case P (print_cases_8 X pr Node asPrefixContext)"
  unfolding print_cases_8_def by (intro preserves_cases pres assms)

lemma preserves_dispatch:
  "preserves_case P c \<Longrightarrow> preserves P rest
   \<Longrightarrow> preserves P (case c of Some action \<Rightarrow> action | None \<Rightarrow> rest)"
  by (cases c) (simp_all add: preserves_case_def)

lemma preserves_print_body:
  assumes "assign_stable P" and "\<And>c a. preserves P (pr c a)"
  shows "preserves P (print_body X pr Node asPrefixContext)"
  unfolding print_body_def
  by (intro preserves_dispatch preserves_fail
      preserves_print_cases_1 preserves_print_cases_2 preserves_print_cases_3
      preserves_print_cases_4 preserves_print_cases_5 preserves_print_cases_6
      preserves_print_cases_7 preserves_print_cases_8 assms)

lemma preserves_print:
  assumes "assign_stable P"
  shows "preserves P (print X Node asPrefixContext)"
proof (induction Node arbitrary: asPrefixContext rule: measure_induct_rule [of size])
  case (less Node)
  have "preserves P (if size child < size Node then print X child asPrefix else fail NotSubnode)"
    for child asPrefix
    by (simp add: less preserves_fail)
  then show ?case
    by (subst print.simps) (intro preserves_print_body assms)
qed

section \<open>The top-level calls\<close>

text \<open>
  C10: for the null root \<^verbatim>\<open>nodeToString\<close> returns the empty string, whatever the
  options; and it returns the empty string as well for a root that is a function type
  without children, where the rendering fails softly. The empty result does not tell
  the two apart.
\<close>

theorem nodeToString_null_root:
  "nodeToString X None options = Inr []
   \<and> nodeToString Swift_headers (Some (leaf ''FunctionType'')) example_options = Inr []"
proof -
  have "nodeToString Swift_headers (Some (leaf ''FunctionType'')) example_options = Inr []"
    by code_simp
  then show ?thesis
    by (simp add: nodeToString_def)
qed

theorem nodeToString_null_root_witness:
  "nodeToString Swift_headers None example_options = Inr []"
  using nodeToString_null_root [of Swift_headers example_options] by simp

lemma NodePrinter_construct_new: "NodePrinter_construct options storage = NodePrinter_new options"
  by (simp add: NodePrinter_construct_def NodePrinter_new_def)

lemma nodeToString_in_text:
  "map_sum id fst (nodeToString_in X root options storage) = nodeToString X root options"
  by (cases root)
    (auto simp: nodeToString_in_def nodeToString_def NodePrinter_construct_new
       split: sum.splits)

lemma session_nth:
  "i < length (session X calls storage) \<Longrightarrow>
     i < length calls
     \<and> session X calls storage ! i = nodeToString X (fst (calls ! i)) (snd (calls ! i))"
proof (induction calls arbitrary: i storage)
  case Nil
  then show ?case by simp
next
  case (Cons c calls)
  obtain root options where c: "c = (root, options)"
    by (cases c)
  show ?case
  proof (cases "nodeToString_in X root options storage")
    case (Inl e)
    then show ?thesis
      using Cons.prems nodeToString_in_text [of X root options storage] c by simp
  next
    case (Inr a)
    obtain result storage' where a: "a = (result, storage')"
      by (cases a)
    show ?thesis
    proof (cases i)
      case 0
      then show ?thesis
        using Inr a c nodeToString_in_text [of X root options storage] by simp
    next
      case (Suc k)
      then show ?thesis
        using Inr a c Cons.prems Cons.IH [of k storage'] by simp
    qed
  qed
qed

lemma list_of_three:
  assumes "length xs = 3" and "xs ! 0 = a" and "xs ! 1 = b" and "xs ! 2 = c"
  shows "xs = [a, b, c]"
proof -
  from assms(1) obtain x y z where "xs = [x, y, z]"
    by (auto simp: length_Suc_conv numeral_3_eq_3)
  with assms(2-4) show ?thesis
    by simp
qed

text \<open>
  C9: two calls of \<^verbatim>\<open>nodeToString\<close> with the same root and the same options return the
  same string, whatever each of them finds in the storage of its printer; and in a
  sequence of calls in one process, started on any storage, every call returns what it
  returns on its own, so two calls of the sequence with the same root and the same
  options return the same.
\<close>

theorem nodeToString_independent:
  "map_sum id fst (nodeToString_in X root options storage1)
   = map_sum id fst (nodeToString_in X root options storage2)
   \<and> (i < length (session X calls storage) \<longrightarrow>
        session X calls storage ! i = nodeToString X (fst (calls ! i)) (snd (calls ! i)))
   \<and> (i < length (session X calls storage) \<and> j < length (session X calls storage)
        \<and> calls ! i = calls ! j \<longrightarrow>
        session X calls storage ! i = session X calls storage ! j)"
  by (simp add: nodeToString_in_text session_nth)

theorem nodeToString_independent_witness:
  "session Swift_headers
     [(Some (swift_type ''Structure'' ''Int''), example_options),
      (Some (MkNode ''Global'' None None
               [leaf ''GenericSpecialization'', leaf ''FunctionType'']),
       example_options\<lparr>DisplayGenericSpecializations := False\<rparr>),
      (Some (swift_type ''Structure'' ''Int''), example_options)]
     \<lparr>Printer = ''abc'', Options = example_options, SpecializationPrefixPrinted = True,
       isValid = False\<rparr>
   = [Inr ''Swift.Int'', Inr [], Inr ''Swift.Int'']"
proof -
  let ?calls = "[(Some (swift_type ''Structure'' ''Int''), example_options),
      (Some (MkNode ''Global'' None None
               [leaf ''GenericSpecialization'', leaf ''FunctionType'']),
       example_options\<lparr>DisplayGenericSpecializations := False\<rparr>),
      (Some (swift_type ''Structure'' ''Int''), example_options)]"
  let ?storage = "\<lparr>Printer = ''abc'', Options = example_options,
      SpecializationPrefixPrinted = True, isValid = False\<rparr>"
  have len: "length (session Swift_headers ?calls ?storage) = 3"
    by code_simp
  have alone: "nodeToString Swift_headers (Some (swift_type ''Structure'' ''Int''))
                 example_options = Inr ''Swift.Int''"
      "nodeToString Swift_headers
         (Some (MkNode ''Global'' None None
                  [leaf ''GenericSpecialization'', leaf ''FunctionType'']))
         (example_options\<lparr>DisplayGenericSpecializations := False\<rparr>) = Inr []"
    by code_simp+
  have "session Swift_headers ?calls ?storage ! 0 = Inr ''Swift.Int''"
      "session Swift_headers ?calls ?storage ! 1 = Inr []"
      "session Swift_headers ?calls ?storage ! 2 = Inr ''Swift.Int''"
    using nodeToString_independent [of Swift_headers _ _ _ _ 0 ?calls ?storage 0]
      nodeToString_independent [of Swift_headers _ _ _ _ 1 ?calls ?storage 1]
      nodeToString_independent [of Swift_headers _ _ _ _ 2 ?calls ?storage 0]
      len alone
    by (simp_all del: session.simps)
  then show ?thesis
    using len by (rule_tac list_of_three) (simp_all del: session.simps)
qed

text \<open>
  C8, as it stands, fails: a second call of \<^verbatim>\<open>printRoot\<close> on the same printer starts
  from what the first call left. After a call that failed softly the buffer still holds
  the text of that call, so \<open>x\<close> is printed as \<open>abcx\<close>, where a new printer gives \<open>x\<close>.
  And after a specialization was printed in terse mode the marker is not printed again
  (here the buffer that was moved out of the printer is taken to be empty).
\<close>

theorem printRoot_reuse_counterexample:
  "printRoot_twice Swift_headers
     (MkNode ''Global'' None None
        [MkNode ''Identifier'' (Some ''abc'') None [], leaf ''FunctionType''])
     (MkNode ''Identifier'' (Some ''x'') None [])
     (NodePrinter_new example_options)
   = Inr ([], ''abcx'')
   \<and> map_sum id fst
       (printRoot Swift_headers (MkNode ''Identifier'' (Some ''x'') None [])
          (NodePrinter_new example_options))
     = Inr ''x''
   \<and> printRoot_twice Swift_headers (leaf ''GenericSpecialization'')
       (leaf ''GenericSpecialization'')
       (NodePrinter_new (example_options\<lparr>DisplayGenericSpecializations := False\<rparr>))
     = Inr (''specialized '', [])"
  by code_simp

text \<open>
  C8, amended: \<^verbatim>\<open>printRoot\<close> resets the validity flag and nothing else. Its result does
  not depend on the flag that it finds, and it is the result of the print that starts
  from the buffer and the specialization flag as they are found: the buffer at the end
  when the flag is still set, the empty string when it is not. The buffer is empty and
  the specialization flag is false in the printer that the constructor makes, and
  \<^verbatim>\<open>nodeToString\<close> calls \<^verbatim>\<open>printRoot\<close> on a printer that it has just constructed.
\<close>

theorem printRoot_resets_isValid:
  "printRoot X root (p\<lparr>isValid := v\<rparr>) = printRoot X root p
   \<and> map_sum id fst (printRoot X root p)
     = map_sum id (\<lambda>(r, q). if isValid q then Printer q else [])
         (print X root False (p\<lparr>isValid := True\<rparr>))
   \<and> Printer (NodePrinter_new options) = []
   \<and> SpecializationPrefixPrinted (NodePrinter_new options) = False
   \<and> isValid (NodePrinter_new options) = True
   \<and> nodeToString X (Some root) options
     = map_sum id fst (printRoot X root (NodePrinter_new options))"
  by (auto simp: printRoot_def NodePrinter_new_def nodeToString_def split: sum.splits)

section \<open>Soft failure\<close>

lemma assign_stable_invalid: "assign_stable (\<lambda>s. \<not> isValid s)"
  by (simp add: assign_stable_def)

lemma print_function_type:
  assumes "getKind Node \<in> set function_type_kinds"
  shows "print X Node asPrefixContext
         = stmts [printFunctionType X
             (\<lambda>child asPrefix. if size child < size Node then print X child asPrefix
                                else fail NotSubnode) None Node]"
  using assms
  by (auto simp: function_type_kinds_def print.simps [of X Node asPrefixContext]
        print_body_def print_cases_1_def print_cases_2_def)

lemma stmts_setInvalid: "stmts [setInvalid] s = Inr (None, s\<lparr>isValid := False\<rparr>)"
  by (simp add: stmts_def return_nullptr_def seq_def bnd_def setInvalid_def ret_def skip_def)

text \<open>
  C3, as it stands, fails: the print goes on after the validity flag is cleared, and a
  later step of the same print can end the call without a result. In the function type
  with the children \<open>ThrowsAnnotation\<close> and \<open>Tuple\<close> the parameter child is not an
  \<open>ArgumentTuple\<close>, the flag is cleared, and the print goes on to the child after the
  parameters, which the node does not have. In the second tree the function type
  without children clears the flag and the next child reaches \<^verbatim>\<open>printer_unreachable\<close>.
  Neither call returns the empty string.
\<close>

theorem soft_failure_abort_counterexample:
  "map_sum id (isValid \<circ> snd)
     (printFunctionParameters Swift_headers (print Swift_headers) None (leaf ''Tuple'') True
        (NodePrinter_new example_options)) = Inr False
   \<and> nodeToString Swift_headers
       (Some (MkNode ''FunctionType'' None None [leaf ''ThrowsAnnotation'', leaf ''Tuple'']))
       example_options = Inl NodeAccess
   \<and> map_sum id (isValid \<circ> snd)
       (print Swift_headers (leaf ''FunctionType'') False (NodePrinter_new example_options))
     = Inr False
   \<and> nodeToString Swift_headers
       (Some (MkNode ''Global'' None None
                [leaf ''FunctionType'', leaf ''FunctionSignatureSpecializationParam'']))
       example_options
     = Inl (Unreachable ''should be handled in printSpecializationPrefix'')"
  by code_simp

text \<open>
  C3, amended: once the validity flag is cleared it stays cleared to the end of a print
  that returns; when \<^verbatim>\<open>print\<close> returns, \<^verbatim>\<open>printRoot\<close> returns the buffer if the flag is
  still set and the empty string if it is not, whatever the buffer holds; when \<^verbatim>\<open>print\<close>
  ends with a failure, so does \<^verbatim>\<open>printRoot\<close>; and the flag is cleared by the print of a
  function type with fewer than 2 or more than 5 children, and by
  \<^verbatim>\<open>printFunctionParameters\<close> on a node that is not an \<open>ArgumentTuple\<close>.
\<close>

theorem printRoot_soft_failure:
  "preserves (\<lambda>s. \<not> isValid s) (print X Node asPrefixContext)
   \<and> (print X root False (p\<lparr>isValid := True\<rparr>) = Inr (r, q) \<longrightarrow>
        printRoot X root p
        = Inr (if isValid q then Printer q else [], if isValid q then q\<lparr>Printer := []\<rparr> else q))
   \<and> (print X root False (p\<lparr>isValid := True\<rparr>) = Inl e \<longrightarrow> printRoot X root p = Inl e)
   \<and> (getKind Node \<in> set function_type_kinds
        \<and> (getNumChildren Node < 2 \<or> 5 < getNumChildren Node) \<longrightarrow>
        print X Node asPrefixContext s = Inr (None, s\<lparr>isValid := False\<rparr>))
   \<and> (getKind ParameterType \<noteq> ''ArgumentTuple'' \<longrightarrow>
        printFunctionParameters X pr LabelList ParameterType showTypes s
        = Inr ((), s\<lparr>isValid := False\<rparr>))"
proof (intro conjI impI)
  show "preserves (\<lambda>s. \<not> isValid s) (print X Node asPrefixContext)"
    by (rule preserves_print [OF assign_stable_invalid])
next
  assume "print X root False (p\<lparr>isValid := True\<rparr>) = Inr (r, q)"
  then show "printRoot X root p
        = Inr (if isValid q then Printer q else [], if isValid q then q\<lparr>Printer := []\<rparr> else q)"
    by (simp add: printRoot_def)
next
  assume "print X root False (p\<lparr>isValid := True\<rparr>) = Inl e"
  then show "printRoot X root p = Inl e"
    by (simp add: printRoot_def)
next
  assume "getKind Node \<in> set function_type_kinds
          \<and> (getNumChildren Node < 2 \<or> 5 < getNumChildren Node)"
  then show "print X Node asPrefixContext s = Inr (None, s\<lparr>isValid := False\<rparr>)"
    by (auto simp: print_function_type printFunctionType_def stmts_setInvalid)
next
  assume "getKind ParameterType \<noteq> ''ArgumentTuple''"
  then show "printFunctionParameters X pr LabelList ParameterType showTypes s
             = Inr ((), s\<lparr>isValid := False\<rparr>)"
    by (simp add: printFunctionParameters_def setInvalid_def)
qed

theorem printRoot_soft_failure_witness:
  "map_sum id (\<lambda>(r, q). (Printer q, isValid q))
     (print Swift_headers
        (MkNode ''Global'' None None
           [MkNode ''Identifier'' (Some ''abc'') None [], leaf ''FunctionType''])
        False (NodePrinter_new example_options)) = Inr (''abc'', False)
   \<and> map_sum id fst
       (printRoot Swift_headers
          (MkNode ''Global'' None None
             [MkNode ''Identifier'' (Some ''abc'') None [], leaf ''FunctionType''])
          (NodePrinter_new example_options)) = Inr []
   \<and> printRoot Swift_headers
       (MkNode ''FunctionType'' None None [leaf ''ThrowsAnnotation'', leaf ''Tuple''])
       (NodePrinter_new example_options) = Inl NodeAccess
   \<and> getKind (leaf ''FunctionType'') \<in> set function_type_kinds
   \<and> getNumChildren (leaf ''FunctionType'') < 2
   \<and> map_sum id (isValid \<circ> snd)
       (print Swift_headers (leaf ''FunctionType'') False (NodePrinter_new example_options))
     = Inr False
   \<and> getKind (leaf ''Tuple'') \<noteq> ''ArgumentTuple''
   \<and> map_sum id (isValid \<circ> snd)
       (printFunctionParameters Swift_headers (print Swift_headers) None (leaf ''Tuple'') True
          (NodePrinter_new example_options))
     = Inr False"
proof -
  let ?bad = "MkNode ''Global'' None None
                [MkNode ''Identifier'' (Some ''abc'') None [], leaf ''FunctionType'']"
  let ?abort = "MkNode ''FunctionType'' None None [leaf ''ThrowsAnnotation'', leaf ''Tuple'']"
  let ?p = "NodePrinter_new example_options"
  have run: "map_sum id (\<lambda>(r, q). (Printer q, isValid q)) (print Swift_headers ?bad False ?p)
             = Inr (''abc'', False)"
    by code_simp
  then obtain r q where q: "print Swift_headers ?bad False ?p = Inr (r, q)"
      "Printer q = ''abc''" "\<not> isValid q"
    by (cases "print Swift_headers ?bad False ?p") auto
  have abort: "print Swift_headers ?abort False ?p = Inl NodeAccess"
    by code_simp
  have p: "?p\<lparr>isValid := True\<rparr> = ?p"
    by (simp add: NodePrinter_new_def)
  have kinds: "getKind (leaf ''FunctionType'') \<in> set function_type_kinds"
      "getNumChildren (leaf ''FunctionType'') < 2"
      "getKind (leaf ''Tuple'') \<noteq> ''ArgumentTuple''"
    by (simp_all add: leaf_def function_type_kinds_def getNumChildren_def)
  show ?thesis
    using printRoot_soft_failure [of Swift_headers "leaf ''FunctionType''" False ?bad ?p r q
        NodeAccess ?p "leaf ''Tuple''" "print Swift_headers" None True]
      printRoot_soft_failure [of Swift_headers "leaf ''FunctionType''" False ?abort ?p r q
        NodeAccess ?p "leaf ''Tuple''" "print Swift_headers" None True]
      run q abort p kinds
    by simp
qed

section \<open>The specialization marker\<close>

lemma assign_stable_SpecializationPrefixPrinted: "assign_stable SpecializationPrefixPrinted"
  by (simp add: assign_stable_def)

lemma assign_stable_Options: "assign_stable (\<lambda>s. Options s = options)"
  by (simp add: assign_stable_def)

lemma printSpecializationPrefix_terse:
  assumes "\<not> DisplayGenericSpecializations (Options s)"
  shows "printSpecializationPrefix X pr node Description ParamPrefix s
         = Inr ((), if SpecializationPrefixPrinted s then s
                    else s\<lparr>Printer := Printer s @ ''specialized '',
                           SpecializationPrefixPrinted := True\<rparr>)"
  using assms
  by (simp add: printSpecializationPrefix_def bnd_def opt_def getSpecializationPrefixPrinted_def
        setSpecializationPrefixPrinted_def out_def seq_def skip_def ret_def)

lemma stmts_single: "stmts [m] s = (case m s of Inl e \<Rightarrow> Inl e | Inr (x, s') \<Rightarrow> Inr (None, s'))"
  by (simp add: stmts_def return_nullptr_def seq_def bnd_def skip_def ret_def
        split: sum.splits)

lemma print_specialization_terse:
  assumes "getKind Node \<in> set specialization_kinds"
    and "getKind Node \<notin> fst ` set (REF_STORAGE X)"
    and "\<not> DisplayGenericSpecializations (Options s)"
  shows "print X Node asPrefixContext s
         = Inr (None, if SpecializationPrefixPrinted s then s
                      else s\<lparr>Printer := Printer s @ ''specialized '',
                             SpecializationPrefixPrinted := True\<rparr>)"
proof -
  let ?pr = "\<lambda>child asPrefix. if size child < size Node then print X child asPrefix
                              else fail NotSubnode"
  from assms(1,2) obtain Description ParamPrefix where
    "print X Node asPrefixContext
     = stmts [printSpecializationPrefix X ?pr Node Description ParamPrefix]"
    by (auto simp: specialization_kinds_def print.simps [of X Node asPrefixContext]
          print_body_def print_cases_1_def print_cases_2_def print_cases_3_def)
  then show ?thesis
    using assms(3) by (simp add: stmts_single printSpecializationPrefix_terse)
qed

lemma print_Global:
  assumes "getKind Node = ''Global''"
  shows "print X Node asPrefixContext
         = stmts [printChildren
             (\<lambda>child asPrefix. if size child < size Node then print X child asPrefix
                                else fail NotSubnode) Node None]"
  using assms
  by (simp add: print.simps [of X Node asPrefixContext] print_body_def print_cases_1_def)

lemma unit_result_eta:
  "(case m of Inl e \<Rightarrow> Inl e | Inr (x, s') \<Rightarrow> Inr ((), s')) = (m :: failure + unit \<times> 'a)"
  by (cases m) auto

lemma printChildren_range_specializations:
  assumes "set specialization_kinds \<inter> fst ` set (REF_STORAGE X) = {}"
    and "\<forall>n \<in> set specs. getKind n \<in> set specialization_kinds \<and> size n < N"
    and "\<not> DisplayGenericSpecializations (Options s)"
  shows "printChildren_range
           (\<lambda>child asPrefix. if size child < N then print X child asPrefix else fail NotSubnode)
           (specs @ rest) None s
         = printChildren_range
             (\<lambda>child asPrefix. if size child < N then print X child asPrefix
                                else fail NotSubnode)
             rest None
             (if specs = [] \<or> SpecializationPrefixPrinted s then s
              else s\<lparr>Printer := Printer s @ ''specialized '',
                     SpecializationPrefixPrinted := True\<rparr>)"
  using assms(2,3)
proof (induction specs arbitrary: s)
  case Nil
  show ?case
    by simp
next
  case (Cons c specs)
  let ?pr = "\<lambda>child asPrefix. if size child < N then print X child asPrefix else fail NotSubnode"
  let ?s1 = "if SpecializationPrefixPrinted s then s
             else s\<lparr>Printer := Printer s @ ''specialized '', SpecializationPrefixPrinted := True\<rparr>"
  from Cons.prems assms(1) have c: "getKind c \<in> set specialization_kinds" "size c < N"
      "getKind c \<notin> fst ` set (REF_STORAGE X)"
    by auto
  have first: "print X c False s = Inr (None, ?s1)"
    using c Cons.prems(2) by (rule_tac print_specialization_terse) auto
  have terse: "\<not> DisplayGenericSpecializations (Options ?s1)"
    using Cons.prems(2) by simp
  have specs: "\<forall>n \<in> set specs. getKind n \<in> set specialization_kinds \<and> size n < N"
    using Cons.prems(1) by simp
  have "printChildren_range ?pr (specs @ rest) None ?s1 = printChildren_range ?pr rest None ?s1"
    using Cons.IH [OF specs terse] by simp
  moreover have "printChildren_range ?pr ((c # specs) @ rest) None s
                 = printChildren_range ?pr (specs @ rest) None ?s1"
    using first c(2) by (simp add: seq_def bnd_def ign_def skip_def ret_def unit_result_eta)
  ultimately show ?case
    by simp
qed

lemma printChildren_range_guard:
  assumes "\<forall>n \<in> set xs. size n < N"
  shows "printChildren_range
           (\<lambda>child asPrefix. if size child < N then print X child asPrefix else fail NotSubnode)
           xs sep
         = printChildren_range (print X) xs sep"
  using assms by (induction xs) simp_all

lemma size_child:
  assumes "n \<in> set (Children Node)"
  shows "size n < size Node"
proof (cases Node)
  case (MkNode k t i cs)
  then show ?thesis
    using assms size_list_estimation' [of n cs "size n" size] by simp
qed

lemma flag_set_by_marker:
  assumes run: "print X Node asPrefixContext s = Inr (r, q)"
    and clear: "\<not> SpecializationPrefixPrinted s"
    and set: "SpecializationPrefixPrinted q"
  shows "\<exists>pre post. Printer q = Printer s @ pre @ ''specialized '' @ post"
proof -
  let ?P = "\<lambda>s'. (\<exists>rest. Printer s' = Printer s @ rest)
              \<and> (SpecializationPrefixPrinted s' \<longrightarrow>
                   (\<exists>pre post. Printer s' = Printer s @ pre @ ''specialized '' @ post))"
  have stable: "assign_stable ?P"
    unfolding assign_stable_def
  proof (intro allI impI conjI)
    fix s' :: NodePrinter and str
    assume P: "?P s'"
    then obtain rest where rest: "Printer s' = Printer s @ rest"
      by blast
    show "\<exists>rest. Printer (s'\<lparr>Printer := Printer s' @ str\<rparr>) = Printer s @ rest"
      using rest by simp
    show "\<exists>pre post. Printer (s'\<lparr>Printer := Printer s' @ str\<rparr>)
                       = Printer s @ pre @ ''specialized '' @ post"
      if "SpecializationPrefixPrinted (s'\<lparr>Printer := Printer s' @ str\<rparr>)"
    proof -
      from that P obtain pre post where "Printer s' = Printer s @ pre @ ''specialized '' @ post"
        by auto
      then have "Printer (s'\<lparr>Printer := Printer s' @ str\<rparr>)
                 = Printer s @ pre @ ''specialized '' @ (post @ str)"
        by simp
      then show ?thesis
        by blast
    qed
  next
    fix s' :: NodePrinter
    assume P: "?P s'"
    then show "\<exists>rest. Printer (s'\<lparr>isValid := False\<rparr>) = Printer s @ rest"
      by simp
    show "\<exists>pre post. Printer (s'\<lparr>isValid := False\<rparr>) = Printer s @ pre @ ''specialized '' @ post"
      if "SpecializationPrefixPrinted (s'\<lparr>isValid := False\<rparr>)"
      using that P by simp
  next
    fix s' :: NodePrinter
    assume P: "?P s'"
    then obtain rest where rest: "Printer s' = Printer s @ rest"
      by blast
    show "\<exists>rest. Printer (s'\<lparr>Printer := Printer s' @ ''specialized '',
                               SpecializationPrefixPrinted := True\<rparr>) = Printer s @ rest"
      using rest by simp
    have "Printer (s'\<lparr>Printer := Printer s' @ ''specialized '',
                      SpecializationPrefixPrinted := True\<rparr>)
          = Printer s @ rest @ ''specialized '' @ []"
      using rest by simp
    then show "\<exists>pre post. Printer (s'\<lparr>Printer := Printer s' @ ''specialized '',
                                      SpecializationPrefixPrinted := True\<rparr>)
                          = Printer s @ pre @ ''specialized '' @ post"
      by blast
  qed
  have "?P s"
    using clear by simp
  with preserves_print [OF stable] have "?P q"
    using run by (rule preservesD)
  then show ?thesis
    using set by simp
qed

text \<open>
  C2, as it stands, fails: a tree with two nested specialization nodes of which none is
  rendered prints no marker; a tree whose rendering fails softly after the marker gives
  the empty string; and the text of another case holds the same characters, so that
  the string returned holds them twice.
\<close>

theorem specialized_marker_counterexample:
  "nodeToString Swift_headers
     (Some (MkNode ''EmptyList'' None None
              [MkNode ''GenericSpecialization'' None None [leaf ''GenericSpecialization'']]))
     (example_options\<lparr>DisplayGenericSpecializations := False\<rparr>)
   = Inr '' empty-list ''
   \<and> nodeToString Swift_headers
       (Some (MkNode ''Global'' None None
                [leaf ''GenericSpecialization'', leaf ''GenericSpecialization'',
                 leaf ''FunctionType'']))
       (example_options\<lparr>DisplayGenericSpecializations := False\<rparr>)
     = Inr []
   \<and> nodeToString Swift_headers
       (Some (MkNode ''Global'' None None
                [leaf ''GenericSpecialization'', leaf ''GenericSpecialization'',
                 MkNode ''CanonicalSpecializedGenericMetaclass'' None None
                   [swift_type ''Class'' ''C'']]))
       (example_options\<lparr>DisplayGenericSpecializations := False\<rparr>)
     = Inr ''specialized specialized generic metaclass for Swift.C''"
  by code_simp

text \<open>
  C2, amended: in terse mode the print of a node of a specialization kind appends the
  marker \<open>specialized \<close> and sets the one-shot flag when the flag is not set, and does
  nothing when it is; no print that returns clears the flag or changes the options, and
  when it sets the flag the buffer has gained text that holds the marker; so a tree
  whose root is \<open>Global\<close> and whose first children, one or more, are of specialization
  kinds is rendered as the marker, once, and then the other children, printed with the
  flag set. The kinds of the reference storage types, which come from
  a header, are taken to be other kinds than those of the specializations.
\<close>

theorem specialized_marker_once:
  "(getKind Node \<in> set specialization_kinds \<and> getKind Node \<notin> fst ` set (REF_STORAGE X)
      \<and> \<not> DisplayGenericSpecializations (Options s) \<longrightarrow>
      print X Node asPrefixContext s
      = Inr (None, if SpecializationPrefixPrinted s then s
                   else s\<lparr>Printer := Printer s @ ''specialized '',
                          SpecializationPrefixPrinted := True\<rparr>))
   \<and> preserves SpecializationPrefixPrinted (print X Node asPrefixContext)
   \<and> preserves (\<lambda>s. Options s = options) (print X Node asPrefixContext)
   \<and> (print X Node asPrefixContext s = Inr (r, q) \<and> \<not> SpecializationPrefixPrinted s
      \<and> SpecializationPrefixPrinted q \<longrightarrow>
      (\<exists>pre post. Printer q = Printer s @ pre @ ''specialized '' @ post))
   \<and> (getKind root = ''Global'' \<and> Children root = specs @ rest \<and> specs \<noteq> []
      \<and> (\<forall>n \<in> set specs. getKind n \<in> set specialization_kinds)
      \<and> set specialization_kinds \<inter> fst ` set (REF_STORAGE X) = {}
      \<and> \<not> DisplayGenericSpecializations options \<longrightarrow>
      nodeToString X (Some root) options
      = map_sum id (\<lambda>(u, q). if isValid q then Printer q else [])
          (printChildren_range (print X) rest None
             \<lparr>Printer = ''specialized '', Options = options,
               SpecializationPrefixPrinted = True, isValid = True\<rparr>))"
proof (intro conjI impI)
  assume "getKind Node \<in> set specialization_kinds \<and> getKind Node \<notin> fst ` set (REF_STORAGE X)
      \<and> \<not> DisplayGenericSpecializations (Options s)"
  then show "print X Node asPrefixContext s
      = Inr (None, if SpecializationPrefixPrinted s then s
                   else s\<lparr>Printer := Printer s @ ''specialized '',
                          SpecializationPrefixPrinted := True\<rparr>)"
    by (simp add: print_specialization_terse)
next
  show "preserves SpecializationPrefixPrinted (print X Node asPrefixContext)"
    by (rule preserves_print [OF assign_stable_SpecializationPrefixPrinted])
next
  show "preserves (\<lambda>s. Options s = options) (print X Node asPrefixContext)"
    by (rule preserves_print [OF assign_stable_Options])
next
  assume "print X Node asPrefixContext s = Inr (r, q) \<and> \<not> SpecializationPrefixPrinted s
      \<and> SpecializationPrefixPrinted q"
  then show "\<exists>pre post. Printer q = Printer s @ pre @ ''specialized '' @ post"
    using flag_set_by_marker [of X Node asPrefixContext s r q] by blast
next
  assume a: "getKind root = ''Global'' \<and> Children root = specs @ rest \<and> specs \<noteq> []
      \<and> (\<forall>n \<in> set specs. getKind n \<in> set specialization_kinds)
      \<and> set specialization_kinds \<inter> fst ` set (REF_STORAGE X) = {}
      \<and> \<not> DisplayGenericSpecializations options"
  let ?p = "NodePrinter_new options"
  let ?p1 = "\<lparr>Printer = ''specialized '', Options = options,
               SpecializationPrefixPrinted = True, isValid = True\<rparr>"
  have p: "?p\<lparr>isValid := True\<rparr> = ?p"
      "\<not> DisplayGenericSpecializations (Options ?p)"
      "(if specs = [] \<or> SpecializationPrefixPrinted ?p then ?p
        else ?p\<lparr>Printer := Printer ?p @ ''specialized '',
                SpecializationPrefixPrinted := True\<rparr>) = ?p1"
    using a by (simp_all add: NodePrinter_new_def)
  have specs: "\<forall>n \<in> set specs.
                 getKind n \<in> set specialization_kinds \<and> size n < size root"
    using a by (simp add: size_child)
  have rest: "\<forall>n \<in> set rest. size n < size root"
    using a by (simp add: size_child)
  have disjoint: "set specialization_kinds \<inter> fst ` set (REF_STORAGE X) = {}"
    using a by simp
  have "printChildren_range
          (\<lambda>child asPrefix. if size child < size root then print X child asPrefix
                             else fail NotSubnode)
          (specs @ rest) None ?p
        = printChildren_range (print X) rest None ?p1"
    using printChildren_range_specializations [OF disjoint specs p(2), of rest]
    by (simp only: p(3) printChildren_range_guard [OF rest])
  then have "print X root False ?p
        = (case printChildren_range (print X) rest None ?p1 of
             Inl e \<Rightarrow> Inl e
           | Inr (u, q) \<Rightarrow> Inr (None, q))"
    using a by (simp add: print_Global stmts_single printChildren_def)
  then show "nodeToString X (Some root) options
      = map_sum id (\<lambda>(u, q). if isValid q then Printer q else [])
          (printChildren_range (print X) rest None ?p1)"
    using p(1)
    by (cases "printChildren_range (print X) rest None ?p1")
      (auto simp: nodeToString_def printRoot_def)
qed

theorem specialized_marker_once_witness:
  "getKind (leaf ''GenericSpecialization'') \<in> set specialization_kinds
   \<and> getKind (leaf ''GenericSpecialization'') \<notin> fst ` set (REF_STORAGE Swift_headers)
   \<and> map_sum id (Printer \<circ> snd)
       (print Swift_headers (leaf ''GenericSpecialization'') False
          (NodePrinter_new (example_options\<lparr>DisplayGenericSpecializations := False\<rparr>)))
     = Inr ''specialized ''
   \<and> map_sum id (Printer \<circ> snd)
       (print Swift_headers (leaf ''GenericSpecialization'') False
          (NodePrinter_new (example_options\<lparr>DisplayGenericSpecializations := False\<rparr>)
             \<lparr>SpecializationPrefixPrinted := True\<rparr>))
     = Inr []
   \<and> nodeToString Swift_headers
       (Some (MkNode ''Global'' None None
                [leaf ''GenericSpecialization'', leaf ''FunctionSignatureSpecialization'',
                 MkNode ''Identifier'' (Some ''f'') None [], leaf ''GenericSpecialization'']))
       (example_options\<lparr>DisplayGenericSpecializations := False\<rparr>)
     = Inr ''specialized f''"
proof -
  let ?terse = "example_options\<lparr>DisplayGenericSpecializations := False\<rparr>"
  let ?root = "MkNode ''Global'' None None
                [leaf ''GenericSpecialization'', leaf ''FunctionSignatureSpecialization'',
                 MkNode ''Identifier'' (Some ''f'') None [], leaf ''GenericSpecialization'']"
  have rest: "map_sum id (\<lambda>(u, q). if isValid q then Printer q else [])
      (printChildren_range (print Swift_headers)
         [MkNode ''Identifier'' (Some ''f'') None [], leaf ''GenericSpecialization''] None
         \<lparr>Printer = ''specialized '', Options = ?terse,
           SpecializationPrefixPrinted = True, isValid = True\<rparr>)
      = Inr ''specialized f''"
    by code_simp
  have run: "print Swift_headers (leaf ''GenericSpecialization'') False (NodePrinter_new ?terse)
             = Inr (None, NodePrinter_new ?terse\<lparr>Printer := ''specialized '',
                                                 SpecializationPrefixPrinted := True\<rparr>)"
    using specialized_marker_once [where Node = "leaf ''GenericSpecialization''"
        and X = Swift_headers and s = "NodePrinter_new ?terse"]
    by (simp add: leaf_def specialization_kinds_def Swift_headers_def NodePrinter_new_def)
  show ?thesis
    using specialized_marker_once [where Node = "leaf ''GenericSpecialization''"
        and X = Swift_headers and s = "NodePrinter_new ?terse" and asPrefixContext = False
        and options = ?terse and root = ?root and r = None
        and q = "NodePrinter_new ?terse\<lparr>Printer := ''specialized '',
                                         SpecializationPrefixPrinted := True\<rparr>"
        and specs = "[leaf ''GenericSpecialization'', leaf ''FunctionSignatureSpecialization'']"
        and rest = "[MkNode ''Identifier'' (Some ''f'') None [], leaf ''GenericSpecialization'']"]
      specialized_marker_once [where Node = "leaf ''GenericSpecialization''"
        and X = Swift_headers
        and s = "NodePrinter_new ?terse\<lparr>SpecializationPrefixPrinted := True\<rparr>"]
      rest run
    by (simp add: leaf_def specialization_kinds_def Swift_headers_def NodePrinter_new_def)
qed

section \<open>Sugar on bound generic types\<close>

lemma isSwiftModule_eq:
  assumes "getKind owner = ''Module'' \<longrightarrow> getText owner = Inr owner_name"
  shows "isSwiftModule X owner
         = Inr (getKind owner = ''Module'' \<and> owner_name = STDLIB_NAME X)"
  using assms by (simp add: isSwiftModule_def andThen_def)

lemma sugar_test_eq:
  assumes "getChild unbound 0 = Inr owner" and "getChild unbound 1 = Inr ident"
    and "getKind ident = ''Identifier'' \<longrightarrow> getText ident = Inr name"
    and "isSwiftModule X owner = Inr stdlib"
  shows "sugar_test X unbound typeArgs desired n
         = Inr (getKind ident = ''Identifier'' \<and> name = desired
                \<and> getNumChildren typeArgs = n \<and> stdlib)"
  using assms by (auto simp: sugar_test_def isIdentifier_def andThen_def)

lemma findSugar_bound_generic:
  assumes "Children Node = [base, typeArgs]"
    and "getChild base 0 = Inr unbound"
    and "getChild unbound 0 = Inr owner" and "getChild unbound 1 = Inr ident"
    and "getKind ident = ''Identifier'' \<longrightarrow> getText ident = Inr name"
    and "isSwiftModule X owner = Inr stdlib"
  shows "findSugar X Node
         = Inr (if getKind Node = ''BoundGenericEnum'' then
                  if getKind ident = ''Identifier'' \<and> name = ''Optional''
                     \<and> getNumChildren typeArgs = 1 \<and> stdlib
                    then Sugar_Optional
                  else if getKind ident = ''Identifier'' \<and> name = ''ImplicitlyUnwrappedOptional''
                          \<and> getNumChildren typeArgs = 1 \<and> stdlib
                    then Sugar_ImplicitlyUnwrappedOptional
                  else Sugar_None
                else if getKind Node = ''BoundGenericStructure'' then
                  if getKind ident = ''Identifier'' \<and> name = ''Array''
                     \<and> getNumChildren typeArgs = 1 \<and> stdlib
                    then Sugar_Array
                  else if getKind ident = ''Identifier'' \<and> name = ''Dictionary''
                          \<and> getNumChildren typeArgs = 2 \<and> stdlib
                    then Sugar_Dictionary
                  else Sugar_None
                else Sugar_None)"
  using assms(1,2)
  by (simp add: findSugar.simps [of X Node] sugar_test_eq [OF assms(3-6)] getNumChildren_def
        getChild_def andThen_def)

lemma printWithParens_eq:
  assumes "isSimpleType X type = Inr simple"
  shows "printWithParens X pr type
         = block [(if simple then skip else out ''(''), ign (pr type False),
                  (if simple then skip else out '')'')]"
  using assms by (simp add: printWithParens_def bnd_def lift_def ret_def)

lemma printBoundGeneric_found:
  assumes "getNumChildren Node = 2" and "SynthesizeSugarOnTypes (Options s)"
    and "getKind Node \<noteq> ''BoundGenericClass''" and "getKind Node \<noteq> ''BoundGenericProtocol''"
    and "findSugar X Node = Inr sugarType"
  shows "printBoundGeneric X pr Node s
         = (case sugarType of
              Sugar_None \<Rightarrow> printBoundGenericNoSugar pr Node
            | Sugar_Optional \<Rightarrow>
                bnd (lift (andThen (getChild Node 1) (\<lambda>c. getChild c 0))) (\<lambda>type.
                  block [printWithParens X pr type, out ''?''])
            | Sugar_ImplicitlyUnwrappedOptional \<Rightarrow>
                bnd (lift (andThen (getChild Node 1) (\<lambda>c. getChild c 0))) (\<lambda>type.
                  block [printWithParens X pr type, out ''!''])
            | Sugar_Array \<Rightarrow>
                bnd (lift (andThen (getChild Node 1) (\<lambda>c. getChild c 0))) (\<lambda>type.
                  block [out ''['', ign (pr type False), out '']''])
            | Sugar_Dictionary \<Rightarrow>
                bnd (lift (andThen (getChild Node 1) (\<lambda>c. getChild c 0))) (\<lambda>keyType.
                bnd (lift (andThen (getChild Node 1) (\<lambda>c. getChild c 1))) (\<lambda>valueType.
                  block [out ''['', ign (pr keyType False), out '' : '',
                         ign (pr valueType False), out '']'']))) s"
  unfolding printBoundGeneric_def
  by (simp only: assms bnd_def opt_def lift_def ret_def sum.case prod.case
        if_False if_True simp_thms less_irrefl numeral_less_iff num.simps
        Num.less_num_simps)

lemma printBoundGeneric_class:
  assumes "getNumChildren Node = 2" and "getKind Node = ''BoundGenericClass''"
  shows "printBoundGeneric X pr Node s = printBoundGenericNoSugar pr Node s"
  using assms by (simp add: printBoundGeneric_def bnd_def opt_def)

lemma bnd_ret: "bnd (ret x) f = f x"
  by (simp add: bnd_def ret_def)

lemma printBoundGeneric_protocol:
  assumes "Children Node = [base, typeArgs]" and "SynthesizeSugarOnTypes (Options s)"
    and "getKind Node = ''BoundGenericProtocol''"
  shows "printBoundGeneric X pr Node s
         = block [printChildren pr typeArgs None, out '' as '', ign (pr base False)] s"
proof -
  have children: "getNumChildren Node = 2" "lift (getChild Node 1) = ret typeArgs"
      "lift (getChild Node 0) = ret base"
    using assms(1) by (simp_all add: getNumChildren_def getChild_def lift_def)
  have "printBoundGeneric X pr Node s
        = bnd (lift (getChild Node 1)) (\<lambda>conforming.
            block [printChildren pr conforming None, out '' as '',
                   print_node pr (getChild Node 0)]) s"
    using assms(2,3) children(1) by (simp add: printBoundGeneric_def bnd_def opt_def)
  then show ?thesis
    by (simp only: children(2,3) bnd_ret print_node_def)
qed

lemma block_block3: "block [block [a, b, c], d] = block [a, b, c, d]"
proof
  fix s
  show "block [block [a, b, c], d] s = block [a, b, c, d] s"
    by (cases "a s") (simp_all add: seq_def bnd_def skip_def ret_def split: sum.splits prod.splits)
qed

lemma first_argument:
  assumes "Children Node = [base, typeArgs]" and "Children typeArgs = T # rest"
  shows "lift (andThen (getChild Node 1) (\<lambda>c. getChild c 0)) = ret T"
  using assms by (simp add: andThen_def getChild_def getNumChildren_def lift_def)

lemma second_argument:
  assumes "Children Node = [base, typeArgs]" and "Children typeArgs = K # V # rest"
  shows "lift (andThen (getChild Node 1) (\<lambda>c. getChild c 1)) = ret V"
  using assms by (simp add: andThen_def getChild_def getNumChildren_def lift_def)

lemma printBoundGenericNoSugar_eq:
  assumes "Children Node = [base, typeArgs]"
  shows "printBoundGenericNoSugar pr Node
         = block [ign (pr base False), out ''<'', printChildren pr typeArgs (Some '', ''),
                  out ''>'']"
  using assms
  by (simp add: printBoundGenericNoSugar_def print_node_def getNumChildren_def getChild_def
        lift_def bnd_ret del: block.simps)

text \<open>
  C1, as it stands, fails for one kind of bound generic node: with sugar enabled a
  \<open>BoundGenericProtocol\<close> node with two children, whose base is of a module that is not
  the standard library, is not printed as the base and its arguments in angle brackets
  but as its argument, \<open> as \<close> and the base.
\<close>

theorem printBoundGeneric_protocol_counterexample:
  "SynthesizeSugarOnTypes example_options
   \<and> nodeToString Swift_headers
       (Some (MkNode ''BoundGenericProtocol'' None None
                [MkNode ''Type'' None None
                   [MkNode ''Protocol'' None None
                      [MkNode ''Module'' (Some ''Foo'') None [],
                       MkNode ''Identifier'' (Some ''P'') None []]],
                 MkNode ''TypeList'' None None [swift_type ''Structure'' ''Int'']]))
       example_options
     = Inr ''Swift.Int as Foo.P''"
  by code_simp

text \<open>
  C1, amended: a bound generic node has exactly two children, the base and the list of type
  arguments; the base holds the unbound type, which holds its owner and its name, an
  \<open>Identifier\<close> with a text in the four cases of sugar; sugar is enabled. The owner is that of the standard library when it is
  a \<open>Module\<close> whose text is the name of the standard library, the whole name. Then a
  \<open>BoundGenericEnum\<close> named \<open>Optional\<close> of the standard library with one argument \<open>T\<close> is
  printed as \<open>T\<close>, in parentheses when \<open>T\<close> is not simple, and \<open>?\<close>; one named
  \<open>ImplicitlyUnwrappedOptional\<close> the same with \<open>!\<close>; a \<open>BoundGenericStructure\<close> named
  \<open>Array\<close> with one argument as \<open>[T]\<close>; one named \<open>Dictionary\<close> with two arguments as
  \<open>[K : V]\<close>. When the owner is not that of the standard library, a node of every kind
  but \<open>BoundGenericProtocol\<close> is printed as the base, \<open><\<close>, the arguments separated by
  commas, and \<open>>\<close>. A \<open>BoundGenericProtocol\<close> is printed as its arguments, \<open> as \<close>
  and the base, whatever the owner.
\<close>

theorem printBoundGeneric_sugar:
  assumes "Children Node = [base, typeArgs]"
    and "SynthesizeSugarOnTypes (Options s)"
    and "getChild base 0 = Inr unbound"
    and "getChild unbound 0 = Inr owner" and "getChild unbound 1 = Inr ident"
    and "getKind ident = ''Identifier'' \<longrightarrow> getText ident = Inr name"
    and "getKind owner = ''Module'' \<longrightarrow> getText owner = Inr owner_name"
  shows
    "(getKind Node = ''BoundGenericEnum''
        \<and> getKind ident = ''Identifier'' \<and> name = ''Optional''
        \<and> getKind owner = ''Module'' \<and> owner_name = STDLIB_NAME X
        \<and> Children typeArgs = [T] \<and> isSimpleType X T = Inr simple \<longrightarrow>
        printBoundGeneric X pr Node s
        = block [(if simple then skip else out ''(''), ign (pr T False),
                 (if simple then skip else out '')''), out ''?''] s)
     \<and> (getKind Node = ''BoundGenericEnum''
        \<and> getKind ident = ''Identifier'' \<and> name = ''ImplicitlyUnwrappedOptional''
        \<and> getKind owner = ''Module'' \<and> owner_name = STDLIB_NAME X
        \<and> Children typeArgs = [T] \<and> isSimpleType X T = Inr simple \<longrightarrow>
        printBoundGeneric X pr Node s
        = block [(if simple then skip else out ''(''), ign (pr T False),
                 (if simple then skip else out '')''), out ''!''] s)
     \<and> (getKind Node = ''BoundGenericStructure''
        \<and> getKind ident = ''Identifier'' \<and> name = ''Array''
        \<and> getKind owner = ''Module'' \<and> owner_name = STDLIB_NAME X
        \<and> Children typeArgs = [T] \<longrightarrow>
        printBoundGeneric X pr Node s = block [out ''['', ign (pr T False), out '']''] s)
     \<and> (getKind Node = ''BoundGenericStructure''
        \<and> getKind ident = ''Identifier'' \<and> name = ''Dictionary''
        \<and> getKind owner = ''Module'' \<and> owner_name = STDLIB_NAME X
        \<and> Children typeArgs = [K, V] \<longrightarrow>
        printBoundGeneric X pr Node s
        = block [out ''['', ign (pr K False), out '' : '', ign (pr V False), out '']''] s)
     \<and> (getKind Node \<noteq> ''BoundGenericProtocol''
        \<and> \<not> (getKind owner = ''Module'' \<and> owner_name = STDLIB_NAME X) \<longrightarrow>
        printBoundGeneric X pr Node s
        = block [ign (pr base False), out ''<'', printChildren pr typeArgs (Some '', ''),
                 out ''>''] s)
     \<and> (getKind Node = ''BoundGenericProtocol'' \<longrightarrow>
        printBoundGeneric X pr Node s
        = block [printChildren pr typeArgs None, out '' as '', ign (pr base False)] s)"
proof -
  note sugar = findSugar_bound_generic [OF assms(1) assms(3-6) isSwiftModule_eq [OF assms(7)]]
  have two: "getNumChildren Node = 2"
    using assms(1) by (simp add: getNumChildren_def)
  note found = printBoundGeneric_found [OF two assms(2)]
  show ?thesis
  proof (intro conjI impI)
    assume a: "getKind Node = ''BoundGenericEnum''
        \<and> getKind ident = ''Identifier'' \<and> name = ''Optional''
        \<and> getKind owner = ''Module'' \<and> owner_name = STDLIB_NAME X
        \<and> Children typeArgs = [T] \<and> isSimpleType X T = Inr simple"
    then have "findSugar X Node = Inr Sugar_Optional"
      using sugar by (simp add: getNumChildren_def)
    then have "printBoundGeneric X pr Node s = block [printWithParens X pr T, out ''?''] s"
      using a found [of X Sugar_Optional pr] first_argument [OF assms(1), of T "[]"]
      by (simp add: bnd_ret del: block.simps)
    then show "printBoundGeneric X pr Node s
        = block [(if simple then skip else out ''(''), ign (pr T False),
                 (if simple then skip else out '')''), out ''?''] s"
      using a by (simp only: printWithParens_eq [of X T simple pr] block_block3)
  next
    assume a: "getKind Node = ''BoundGenericEnum''
        \<and> getKind ident = ''Identifier'' \<and> name = ''ImplicitlyUnwrappedOptional''
        \<and> getKind owner = ''Module'' \<and> owner_name = STDLIB_NAME X
        \<and> Children typeArgs = [T] \<and> isSimpleType X T = Inr simple"
    then have "findSugar X Node = Inr Sugar_ImplicitlyUnwrappedOptional"
      using sugar by (simp add: getNumChildren_def)
    then have "printBoundGeneric X pr Node s = block [printWithParens X pr T, out ''!''] s"
      using a found [of X Sugar_ImplicitlyUnwrappedOptional pr]
        first_argument [OF assms(1), of T "[]"]
      by (simp add: bnd_ret del: block.simps)
    then show "printBoundGeneric X pr Node s
        = block [(if simple then skip else out ''(''), ign (pr T False),
                 (if simple then skip else out '')''), out ''!''] s"
      using a by (simp only: printWithParens_eq [of X T simple pr] block_block3)
  next
    assume a: "getKind Node = ''BoundGenericStructure''
        \<and> getKind ident = ''Identifier'' \<and> name = ''Array''
        \<and> getKind owner = ''Module'' \<and> owner_name = STDLIB_NAME X
        \<and> Children typeArgs = [T]"
    then have "findSugar X Node = Inr Sugar_Array"
      using sugar by (simp add: getNumChildren_def)
    then show "printBoundGeneric X pr Node s = block [out ''['', ign (pr T False), out '']''] s"
      using a found [of X Sugar_Array pr] first_argument [OF assms(1), of T "[]"]
      by (simp add: bnd_ret del: block.simps)
  next
    assume a: "getKind Node = ''BoundGenericStructure''
        \<and> getKind ident = ''Identifier'' \<and> name = ''Dictionary''
        \<and> getKind owner = ''Module'' \<and> owner_name = STDLIB_NAME X
        \<and> Children typeArgs = [K, V]"
    then have "findSugar X Node = Inr Sugar_Dictionary"
      using sugar by (simp add: getNumChildren_def)
    then show "printBoundGeneric X pr Node s
        = block [out ''['', ign (pr K False), out '' : '', ign (pr V False), out '']''] s"
      using a found [of X Sugar_Dictionary pr] first_argument [OF assms(1), of K "[V]"]
        second_argument [OF assms(1), of K V "[]"]
      by (simp add: bnd_ret del: block.simps)
  next
    assume a: "getKind Node \<noteq> ''BoundGenericProtocol''
        \<and> \<not> (getKind owner = ''Module'' \<and> owner_name = STDLIB_NAME X)"
    show "printBoundGeneric X pr Node s
        = block [ign (pr base False), out ''<'', printChildren pr typeArgs (Some '', ''),
                 out ''>''] s"
    proof (cases "getKind Node = ''BoundGenericClass''")
      case True
      then show ?thesis
        by (simp only: printBoundGeneric_class [OF two True]
              printBoundGenericNoSugar_eq [OF assms(1)])
    next
      case False
      have "findSugar X Node = Inr Sugar_None"
        using a sugar by auto
      then show ?thesis
        using a False found [of X Sugar_None pr]
        by (simp add: printBoundGenericNoSugar_eq [OF assms(1)] del: block.simps)
    qed
  next
    assume "getKind Node = ''BoundGenericProtocol''"
    then show "printBoundGeneric X pr Node s
        = block [printChildren pr typeArgs None, out '' as '', ign (pr base False)] s"
      by (rule printBoundGeneric_protocol [OF assms(1,2)])
  qed
qed

theorem printBoundGeneric_sugar_witness:
  "map_sum id (Printer \<circ> snd)
     (printBoundGeneric Swift_headers (print Swift_headers)
        (MkNode ''BoundGenericEnum'' None None
           [swift_type ''Enum'' ''Optional'',
            MkNode ''TypeList'' None None [swift_type ''Structure'' ''Int'']])
        (NodePrinter_new example_options)) = Inr ''Swift.Int?''
   \<and> map_sum id (Printer \<circ> snd)
     (printBoundGeneric Swift_headers (print Swift_headers)
        (MkNode ''BoundGenericEnum'' None None
           [swift_type ''Enum'' ''ImplicitlyUnwrappedOptional'',
            MkNode ''TypeList'' None None [swift_type ''Structure'' ''Int'']])
        (NodePrinter_new example_options)) = Inr ''Swift.Int!''
   \<and> map_sum id (Printer \<circ> snd)
     (printBoundGeneric Swift_headers (print Swift_headers)
        (MkNode ''BoundGenericStructure'' None None
           [swift_type ''Structure'' ''Array'',
            MkNode ''TypeList'' None None [swift_type ''Structure'' ''String'']])
        (NodePrinter_new example_options)) = Inr ''[Swift.String]''
   \<and> map_sum id (Printer \<circ> snd)
     (printBoundGeneric Swift_headers (print Swift_headers)
        (MkNode ''BoundGenericStructure'' None None
           [swift_type ''Structure'' ''Dictionary'',
            MkNode ''TypeList'' None None
              [swift_type ''Structure'' ''String'', swift_type ''Structure'' ''Int'']])
        (NodePrinter_new example_options)) = Inr ''[Swift.String : Swift.Int]''
   \<and> map_sum id (Printer \<circ> snd)
     (printBoundGeneric Swift_headers (print Swift_headers)
        (MkNode ''BoundGenericEnum'' None None
           [MkNode ''Type'' None None
              [MkNode ''Enum'' None None
                 [MkNode ''Module'' (Some ''SwiftUI'') None [],
                  MkNode ''Identifier'' (Some ''Optional'') None []]],
            MkNode ''TypeList'' None None [swift_type ''Structure'' ''Int'']])
        (NodePrinter_new example_options)) = Inr ''SwiftUI.Optional<Swift.Int>''
   \<and> map_sum id (Printer \<circ> snd)
     (printBoundGeneric Swift_headers (print Swift_headers)
        (MkNode ''BoundGenericProtocol'' None None
           [MkNode ''Type'' None None
              [MkNode ''Enum'' None None
                 [MkNode ''Module'' (Some ''SwiftUI'') None [],
                  MkNode ''Identifier'' (Some ''Optional'') None []]],
            MkNode ''TypeList'' None None [swift_type ''Structure'' ''Int'']])
        (NodePrinter_new example_options)) = Inr ''Swift.Int as SwiftUI.Optional''"
proof -
  let ?s = "NodePrinter_new example_options"
  let ?pr = "print Swift_headers"
  let ?Int = "swift_type ''Structure'' ''Int''"
  let ?String = "swift_type ''Structure'' ''String''"
  let ?owner = "MkNode ''Module'' (Some ''Swift'') None []"
  let ?UI = "MkNode ''Module'' (Some ''SwiftUI'') None []"
  let ?Optional = "MkNode ''Identifier'' (Some ''Optional'') None []"
  let ?UIOptional = "MkNode ''Type'' None None [MkNode ''Enum'' None None [?UI, ?Optional]]"
  have s: "SynthesizeSugarOnTypes (Options ?s)"
    by (simp add: NodePrinter_new_def example_options_def)
  have stdlib: "STDLIB_NAME Swift_headers = ''Swift''"
    by (simp add: Swift_headers_def)
  have simple: "isSimpleType Swift_headers ?Int = Inr True"
    by code_simp
  have optional: "map_sum id (Printer \<circ> snd)
      (block [(if True then skip else out ''(''), ign (?pr ?Int False),
              (if True then skip else out '')''), out ''?''] ?s) = Inr ''Swift.Int?''"
    by code_simp
  have iuo: "map_sum id (Printer \<circ> snd)
      (block [(if True then skip else out ''(''), ign (?pr ?Int False),
              (if True then skip else out '')''), out ''!''] ?s) = Inr ''Swift.Int!''"
    by code_simp
  have array: "map_sum id (Printer \<circ> snd)
      (block [out ''['', ign (?pr ?String False), out '']''] ?s) = Inr ''[Swift.String]''"
    by code_simp
  have dictionary: "map_sum id (Printer \<circ> snd)
      (block [out ''['', ign (?pr ?String False), out '' : '', ign (?pr ?Int False),
              out '']''] ?s)
      = Inr ''[Swift.String : Swift.Int]''"
    by code_simp
  have plain: "map_sum id (Printer \<circ> snd)
      (block [ign (?pr ?UIOptional False), out ''<'',
              printChildren ?pr (MkNode ''TypeList'' None None [?Int]) (Some '', ''),
              out ''>''] ?s)
      = Inr ''SwiftUI.Optional<Swift.Int>''"
    by code_simp
  have protocol: "map_sum id (Printer \<circ> snd)
      (block [printChildren ?pr (MkNode ''TypeList'' None None [?Int]) None, out '' as '',
              ign (?pr ?UIOptional False)] ?s)
      = Inr ''Swift.Int as SwiftUI.Optional''"
    by code_simp
  show ?thesis
    using printBoundGeneric_sugar [where Node = "MkNode ''BoundGenericEnum'' None None
           [swift_type ''Enum'' ''Optional'', MkNode ''TypeList'' None None [?Int]]"
        and base = "swift_type ''Enum'' ''Optional''"
        and typeArgs = "MkNode ''TypeList'' None None [?Int]" and s = ?s
        and unbound = "MkNode ''Enum'' None None [?owner, ?Optional]"
        and owner = ?owner and ident = ?Optional and owner_name = "''Swift''"
        and name = "''Optional''" and X = Swift_headers and T = ?Int
        and simple = True and pr = ?pr]
      printBoundGeneric_sugar [where Node = "MkNode ''BoundGenericEnum'' None None
           [swift_type ''Enum'' ''ImplicitlyUnwrappedOptional'',
            MkNode ''TypeList'' None None [?Int]]"
        and base = "swift_type ''Enum'' ''ImplicitlyUnwrappedOptional''"
        and typeArgs = "MkNode ''TypeList'' None None [?Int]" and s = ?s
        and unbound = "MkNode ''Enum'' None None
           [?owner, MkNode ''Identifier'' (Some ''ImplicitlyUnwrappedOptional'') None []]"
        and owner = ?owner and owner_name = "''Swift''"
        and ident = "MkNode ''Identifier'' (Some ''ImplicitlyUnwrappedOptional'') None []"
        and name = "''ImplicitlyUnwrappedOptional''" and X = Swift_headers
        and T = ?Int and simple = True and pr = ?pr]
      printBoundGeneric_sugar [where Node = "MkNode ''BoundGenericStructure'' None None
           [swift_type ''Structure'' ''Array'', MkNode ''TypeList'' None None [?String]]"
        and base = "swift_type ''Structure'' ''Array''"
        and typeArgs = "MkNode ''TypeList'' None None [?String]" and s = ?s
        and unbound = "MkNode ''Structure'' None None
                         [?owner, MkNode ''Identifier'' (Some ''Array'') None []]"
        and owner = ?owner and owner_name = "''Swift''"
        and ident = "MkNode ''Identifier'' (Some ''Array'') None []"
        and name = "''Array''" and X = Swift_headers and T = ?String
        and pr = ?pr]
      printBoundGeneric_sugar [where Node = "MkNode ''BoundGenericStructure'' None None
           [swift_type ''Structure'' ''Dictionary'',
            MkNode ''TypeList'' None None [?String, ?Int]]"
        and base = "swift_type ''Structure'' ''Dictionary''"
        and typeArgs = "MkNode ''TypeList'' None None [?String, ?Int]" and s = ?s
        and unbound = "MkNode ''Structure'' None None
                         [?owner, MkNode ''Identifier'' (Some ''Dictionary'') None []]"
        and owner = ?owner and owner_name = "''Swift''"
        and ident = "MkNode ''Identifier'' (Some ''Dictionary'') None []"
        and name = "''Dictionary''" and X = Swift_headers and K = ?String
        and V = ?Int and pr = ?pr]
      printBoundGeneric_sugar [where Node = "MkNode ''BoundGenericEnum'' None None
           [?UIOptional, MkNode ''TypeList'' None None [?Int]]"
        and base = ?UIOptional
        and typeArgs = "MkNode ''TypeList'' None None [?Int]" and s = ?s
        and unbound = "MkNode ''Enum'' None None [?UI, ?Optional]"
        and owner = ?UI and owner_name = "''SwiftUI''" and ident = ?Optional
        and name = "''Optional''" and X = Swift_headers and pr = ?pr]
      printBoundGeneric_sugar [where Node = "MkNode ''BoundGenericProtocol'' None None
           [?UIOptional, MkNode ''TypeList'' None None [?Int]]"
        and base = ?UIOptional
        and typeArgs = "MkNode ''TypeList'' None None [?Int]" and s = ?s
        and unbound = "MkNode ''Enum'' None None [?UI, ?Optional]"
        and owner = ?UI and owner_name = "''SwiftUI''" and ident = ?Optional
        and name = "''Optional''" and X = Swift_headers and pr = ?pr]
      s stdlib simple optional iuo array dictionary plain protocol
    by (simp add: swift_type_def getChild_def getNumChildren_def getText_def del: block.simps)
qed

section \<open>The context of an entity with a name of several words\<close>

lemma bnd_ret_left: "bnd (ret x) f = f x"
  by (simp add: bnd_def ret_def)

lemma bnd_opt: "bnd (opt g) f s = f (g (Options s)) s"
  by (simp add: bnd_def opt_def)

lemma bnd_if: "bnd (if c then a else b) f = (if c then bnd a f else bnd b f)"
  by simp

lemma printEntity_multi_word:
  assumes "CHR '' '' \<in> set ExtraName"
    and "getKind Node \<noteq> ''BoundGenericFunction'' \<longrightarrow> generics = None \<and> Entity = Node"
    and "getKind Node = ''BoundGenericFunction'' \<longrightarrow>
           (\<exists>g. getChild Node 1 = Inr g \<and> generics = Some g) \<and> getChild Node 0 = Inr Entity"
    and "getChild Entity 0 = Inr Context"
    and "hasName \<longrightarrow> getChild Entity 1 = Inr Name"
  shows "printEntity X pr Node False TypePr hasName ExtraName ExtraIndex OverwriteName s
         = bnd (printContext X Context) (\<lambda>shown.
           bnd (printEntity_name X pr Entity hasName True ExtraName ExtraIndex OverwriteName)
             (\<lambda>ExtraName'.
           seq (if ExtraName' \<noteq> []
                then block [out ExtraName', (if ExtraIndex \<ge> 0 then out_int ExtraIndex else skip)]
                else skip)
          (bnd (printEntity_type X pr Entity TypePr True generics) (\<lambda>continue.
             if continue \<and> shown
                \<and> (hasName \<and> getKind Name = ''LocalDeclName'' \<longrightarrow>
                     DisplayLocalNameContexts (Options s))
             then seq (block [(if getKind Entity = ''DefaultArgumentInitializer''
                                  \<or> getKind Entity = ''Initializer''
                                  \<or> getKind Entity = ''PropertyWrapperBackingInitializer''
                               then out '' of '' else out '' in ''),
                              ign (pr Context False)])
                      (ret None)
             else ret (if continue \<and> shown then Some Context else None))))) s"
proof -
  have start: "lift (if getKind Node = ''BoundGenericFunction''
                then andThen (getChild Node 1) (\<lambda>generics.
                     andThen (getFirstChild Node) (\<lambda>inner. Inr (Some generics, inner)))
                else Inr (None, Node)) = ret (generics, Entity)"
    using assms(2,3) by (auto simp: lift_def andThen_def getFirstChild_def)
  have local: "lift (if hasName
                then andThen (getChild Entity 1) (\<lambda>name. Inr (getKind name = ''LocalDeclName''))
                else Inr False) = ret (hasName \<and> getKind Name = ''LocalDeclName'')"
    using assms(5) by (cases hasName) (simp_all add: lift_def andThen_def)
  have ctx: "lift (getChild Entity 0) = ret Context"
    using assms(4) by (simp add: lift_def)
  show ?thesis
    apply (simp only: printEntity_def start local ctx bnd_ret_left prod.case bnd_opt Let_def
        assms(1) simp_thms if_True if_False bnd_if option.case cong del: if_weak_cong)
    apply (rule arg_cong [where f = "\<lambda>f. bnd (printContext X Context) f s"])
    apply (rule ext)
    subgoal for shown
      apply (cases shown)
       apply (simp_all only: if_True if_False simp_thms if_cancel)
      apply (rule arg_cong [where f = "bnd _"])
      apply (rule ext)
      apply (rule arg_cong [where f = "seq _"])
      apply (rule arg_cong [where f = "bnd _"])
      apply (rule ext)
      subgoal for ExtraName' continue
        by (cases continue) (simp_all only: if_True if_False simp_thms disj_not1)
      done
    done
qed

lemma printContext_eq:
  "printContext X Context s
   = (if \<not> QualifyEntities (Options s) then Inr (False, s)
      else if getKind Context \<noteq> ''Module'' then Inr (True, s)
      else case getText Context of
             Inl e \<Rightarrow> Inl e
           | Inr text \<Rightarrow>
               Inr (if text = STDLIB_NAME X then DisplayStdlibModule (Options s)
                    else if text = MANGLING_MODULE_OBJC X then DisplayObjCModule (Options s)
                    else if text = HidingCurrentModule (Options s) then False
                    else if startswith text (LLDB_EXPRESSIONS_MODULE_NAME_PREFIX X)
                      then DisplayDebuggerGeneratedModule (Options s)
                    else True, s))"
  by (cases "getText Context")
    (simp_all add: printContext_def bnd_def opt_def lift_def ret_def fail_def)

lemma printEntity_name_multi_word:
  assumes "ExtraName \<noteq> []"
  shows "bnd (printEntity_name X pr Entity hasName True ExtraName ExtraIndex OverwriteName)
           (\<lambda>ExtraName'.
              seq (if ExtraName' \<noteq> []
                   then block [out ExtraName',
                               (if ExtraIndex \<ge> 0 then out_int ExtraIndex else skip)]
                   else skip) k)
         = seq (if hasName \<or> OverwriteName \<noteq> [] then
                  block [assert X (ExtraIndex < 0), out ExtraName, out '' of '',
                         (if OverwriteName \<noteq> [] then out OverwriteName
                          else
                            bnd (lift (getChild Entity 1)) (\<lambda>Name.
                              block [(if getKind Name \<noteq> ''PrivateDeclName''
                                      then ign (pr Name False) else skip),
                                     (case getChildIf Entity ''PrivateDeclName'' of
                                        None \<Rightarrow> skip
                                      | Some PrivateName \<Rightarrow> ign (pr PrivateName False))]))]
                else block [out ExtraName,
                            (if ExtraIndex \<ge> 0 then out_int ExtraIndex else skip)]) k"
proof (cases "hasName \<or> OverwriteName \<noteq> []")
  case False
  then show ?thesis
    using assms by (simp add: printEntity_name_def bnd_ret_left)
next
  case True
  define name where "name =
    (if OverwriteName \<noteq> [] then out OverwriteName
     else
       bnd (lift (getChild Entity 1)) (\<lambda>Name.
         block [(if getKind Name \<noteq> ''PrivateDeclName''
                 then ign (pr Name False) else skip),
                (case getChildIf Entity ''PrivateDeclName'' of
                   None \<Rightarrow> skip
                 | Some PrivateName \<Rightarrow> ign (pr PrivateName False))]))"
  have name: "printEntity_name X pr Entity hasName True ExtraName ExtraIndex OverwriteName
        = seq (assert X (ExtraIndex < 0))
            (bnd (seq (block [out ExtraName, out '' of '']) (ret []))
               (\<lambda>ExtraName'.
                  bnd size_of_Printer (\<lambda>CurrentPos.
                  seq name
                    (bnd size_of_Printer (\<lambda>pos.
                     seq (if pos \<noteq> CurrentPos \<and> ExtraName' \<noteq> [] then out ''.'' else skip)
                         (ret ExtraName'))))))"
    using True assms unfolding printEntity_name_def name_def by (simp only: simp_thms if_True)
  have "bnd (seq (assert X (ExtraIndex < 0))
            (bnd (seq (block [out ExtraName, out '' of '']) (ret []))
               (\<lambda>ExtraName'.
                  bnd size_of_Printer (\<lambda>CurrentPos.
                  seq name
                    (bnd size_of_Printer (\<lambda>pos.
                     seq (if pos \<noteq> CurrentPos \<and> ExtraName' \<noteq> [] then out ''.'' else skip)
                         (ret ExtraName')))))))
           (\<lambda>ExtraName'.
              seq (if ExtraName' \<noteq> []
                   then block [out ExtraName',
                               (if ExtraIndex \<ge> 0 then out_int ExtraIndex else skip)]
                   else skip) k)
        = seq (block [assert X (ExtraIndex < 0), out ExtraName, out '' of '', name]) k"
  proof
    fix s
    show "bnd (seq (assert X (ExtraIndex < 0))
            (bnd (seq (block [out ExtraName, out '' of '']) (ret []))
               (\<lambda>ExtraName'.
                  bnd size_of_Printer (\<lambda>CurrentPos.
                  seq name
                    (bnd size_of_Printer (\<lambda>pos.
                     seq (if pos \<noteq> CurrentPos \<and> ExtraName' \<noteq> [] then out ''.'' else skip)
                         (ret ExtraName')))))))
           (\<lambda>ExtraName'.
              seq (if ExtraName' \<noteq> []
                   then block [out ExtraName',
                               (if ExtraIndex \<ge> 0 then out_int ExtraIndex else skip)]
                   else skip) k) s
        = seq (block [assert X (ExtraIndex < 0), out ExtraName, out '' of '', name]) k s"
      by (simp add: bnd_def seq_def skip_def ret_def size_of_Printer_def out_def
            split: sum.splits prod.splits)
  qed
  then show ?thesis
    using True unfolding name name_def by (simp only: if_True)
qed

lemma printEntity_multi_word_unfolded:
  assumes "CHR '' '' \<in> set ExtraName"
    and "getKind Node \<noteq> ''BoundGenericFunction'' \<longrightarrow> generics = None \<and> Entity = Node"
    and "getKind Node = ''BoundGenericFunction'' \<longrightarrow>
           (\<exists>g. getChild Node 1 = Inr g \<and> generics = Some g) \<and> getChild Node 0 = Inr Entity"
    and "getChild Entity 0 = Inr Context"
    and "hasName \<longrightarrow> getChild Entity 1 = Inr Name"
  shows "printEntity X pr Node False TypePr hasName ExtraName ExtraIndex OverwriteName s
         = bnd (printContext X Context) (\<lambda>shown.
           seq (if hasName \<or> OverwriteName \<noteq> [] then
                  block [assert X (ExtraIndex < 0), out ExtraName, out '' of '',
                         (if OverwriteName \<noteq> [] then out OverwriteName
                          else
                            bnd (lift (getChild Entity 1)) (\<lambda>Name.
                              block [(if getKind Name \<noteq> ''PrivateDeclName''
                                      then ign (pr Name False) else skip),
                                     (case getChildIf Entity ''PrivateDeclName'' of
                                        None \<Rightarrow> skip
                                      | Some PrivateName \<Rightarrow> ign (pr PrivateName False))]))]
                else block [out ExtraName,
                            (if ExtraIndex \<ge> 0 then out_int ExtraIndex else skip)])
          (bnd (printEntity_type X pr Entity TypePr True generics) (\<lambda>continue.
             if continue \<and> shown
                \<and> (hasName \<and> getKind Name = ''LocalDeclName'' \<longrightarrow>
                     DisplayLocalNameContexts (Options s))
             then seq (block [(if getKind Entity = ''DefaultArgumentInitializer''
                                  \<or> getKind Entity = ''Initializer''
                                  \<or> getKind Entity = ''PropertyWrapperBackingInitializer''
                               then out '' of '' else out '' in ''),
                              ign (pr Context False)])
                      (ret None)
             else ret (if continue \<and> shown then Some Context else None)))) s"
proof -
  have nonempty: "ExtraName \<noteq> []"
    using assms(1) by auto
  show ?thesis
    using printEntity_multi_word [OF assms, of X pr TypePr ExtraIndex OverwriteName s]
    by (simp only: printEntity_name_multi_word [OF nonempty])
qed

lemma bnd_InrD:
  assumes "bnd m f s = Inr (r, q)"
  shows "\<exists>x s'. m s = Inr (x, s') \<and> f x s' = Inr (r, q)"
  using assms by (cases "m s") (auto simp: bnd_def)

lemma printContext_result:
  "(\<exists>e. printContext X Context s = Inl e) \<or> (\<exists>shown. printContext X Context s = Inr (shown, s))"
  by (cases "getText Context") (auto simp: printContext_eq)

lemma seq_block_out:
  "seq (block (out str # ms)) k s = seq (block ms) k (s\<lparr>Printer := Printer s @ str\<rparr>)"
  by (simp add: seq_def bnd_def out_def)

lemma seq_block_assert:
  assumes "seq (block (assert X c # ms)) k s = Inr (r, q)"
  shows "seq (block ms) k s = Inr (r, q)"
  using assms
  by (simp add: assert_def seq_def bnd_def fail_def skip_def ret_def split: if_splits)

lemma preserves_entity_tail:
  assumes "assign_stable P" and "\<And>c a. preserves P (pr c a)"
  shows "preserves P (bnd (printEntity_type X pr Entity TypePr True generics) (\<lambda>continue.
             if continue \<and> shown \<and> local
             then seq (block [(if initializer then out '' of '' else out '' in ''),
                              ign (pr Context False)])
                      (ret None)
             else ret (if continue \<and> shown then Some Context else None)))"
  by (intro pres assms)

lemma preserves_entity_name:
  assumes "assign_stable P" and "\<And>c a. preserves P (pr c a)" and "preserves P k"
  shows "preserves P (seq (block [out '' of '', (if OverwriteName \<noteq> [] then out OverwriteName
                          else
                            bnd (lift (getChild Entity 1)) (\<lambda>Name.
                              block [(if getKind Name \<noteq> ''PrivateDeclName''
                                      then ign (pr Name False) else skip),
                                     (case getChildIf Entity ''PrivateDeclName'' of
                                        None \<Rightarrow> skip
                                      | Some PrivateName \<Rightarrow> ign (pr PrivateName False))]))]) k)"
  by (intro pres assms)

lemma preserves_entity_index:
  assumes "assign_stable P" and "preserves P k"
  shows "preserves P (seq (block [(if ExtraIndex \<ge> 0 then out_int ExtraIndex else skip)]) k)"
  by (intro pres assms)

lemma printEntity_after_context:
  assumes "CHR '' '' \<in> set ExtraName"
    and "getKind Node \<noteq> ''BoundGenericFunction'' \<longrightarrow> generics = None \<and> Entity = Node"
    and "getKind Node = ''BoundGenericFunction'' \<longrightarrow>
           (\<exists>g. getChild Node 1 = Inr g \<and> generics = Some g) \<and> getChild Node 0 = Inr Entity"
    and "getChild Entity 0 = Inr Context"
    and "hasName \<longrightarrow> getChild Entity 1 = Inr Name"
    and run: "printEntity X pr Node False TypePr hasName ExtraName ExtraIndex OverwriteName s
              = Inr (r, q)"
  shows "\<exists>shown.
           seq (if hasName \<or> OverwriteName \<noteq> [] then
                  block [assert X (ExtraIndex < 0), out ExtraName, out '' of '', (if OverwriteName \<noteq> [] then out OverwriteName
                          else
                            bnd (lift (getChild Entity 1)) (\<lambda>Name.
                              block [(if getKind Name \<noteq> ''PrivateDeclName''
                                      then ign (pr Name False) else skip),
                                     (case getChildIf Entity ''PrivateDeclName'' of
                                        None \<Rightarrow> skip
                                      | Some PrivateName \<Rightarrow> ign (pr PrivateName False))]))]
                else block [out ExtraName,
                            (if ExtraIndex \<ge> 0 then out_int ExtraIndex else skip)])
          (bnd (printEntity_type X pr Entity TypePr True generics) (\<lambda>continue.
             if continue \<and> shown
                \<and> (hasName \<and> getKind Name = ''LocalDeclName'' \<longrightarrow>
                     DisplayLocalNameContexts (Options s))
             then seq (block [(if getKind Entity = ''DefaultArgumentInitializer''
                                  \<or> getKind Entity = ''Initializer''
                                  \<or> getKind Entity = ''PropertyWrapperBackingInitializer''
                               then out '' of '' else out '' in ''),
                              ign (pr Context False)])
                      (ret None)
             else ret (if continue \<and> shown then Some Context else None))) s
           = Inr (r, q)"
proof -
  note eq = printEntity_multi_word_unfolded [OF assms(1-5), of X pr TypePr ExtraIndex
      OverwriteName s]
  note whole = trans [OF sym, OF eq run]
  from bnd_InrD [OF whole] obtain shown s' where
      shown: "printContext X Context s = Inr (shown, s')" and
      rest: "seq (if hasName \<or> OverwriteName \<noteq> [] then
                  block [assert X (ExtraIndex < 0), out ExtraName, out '' of '', (if OverwriteName \<noteq> [] then out OverwriteName
                          else
                            bnd (lift (getChild Entity 1)) (\<lambda>Name.
                              block [(if getKind Name \<noteq> ''PrivateDeclName''
                                      then ign (pr Name False) else skip),
                                     (case getChildIf Entity ''PrivateDeclName'' of
                                        None \<Rightarrow> skip
                                      | Some PrivateName \<Rightarrow> ign (pr PrivateName False))]))]
                else block [out ExtraName,
                            (if ExtraIndex \<ge> 0 then out_int ExtraIndex else skip)])
          (bnd (printEntity_type X pr Entity TypePr True generics) (\<lambda>continue.
             if continue \<and> shown
                \<and> (hasName \<and> getKind Name = ''LocalDeclName'' \<longrightarrow>
                     DisplayLocalNameContexts (Options s))
             then seq (block [(if getKind Entity = ''DefaultArgumentInitializer''
                                  \<or> getKind Entity = ''Initializer''
                                  \<or> getKind Entity = ''PropertyWrapperBackingInitializer''
                               then out '' of '' else out '' in ''),
                              ign (pr Context False)])
                      (ret None)
             else ret (if continue \<and> shown then Some Context else None))) s'
           = Inr (r, q)"
    by blast
  have "s' = s"
    using shown printContext_result [of X Context s] by auto
  then show ?thesis
    using rest by blast
qed

lemma printEntity_starts_with_ExtraName:
  assumes "CHR '' '' \<in> set ExtraName"
    and "getKind Node \<noteq> ''BoundGenericFunction'' \<longrightarrow> generics = None \<and> Entity = Node"
    and "getKind Node = ''BoundGenericFunction'' \<longrightarrow>
           (\<exists>g. getChild Node 1 = Inr g \<and> generics = Some g) \<and> getChild Node 0 = Inr Entity"
    and "getChild Entity 0 = Inr Context"
    and "hasName \<longrightarrow> getChild Entity 1 = Inr Name"
    and pr: "\<And>c a. preserves (\<lambda>s'. \<exists>rest. Printer s' = (Printer s @ ExtraName) @ rest) (pr c a)"
    and run: "printEntity X pr Node False TypePr hasName ExtraName ExtraIndex OverwriteName s
              = Inr (r, q)"
  shows "\<exists>rest. Printer q = Printer s @ ExtraName @ rest"
proof -
  let ?P = "\<lambda>s'. \<exists>rest. Printer s' = (Printer s @ ExtraName) @ rest"
  let ?s1 = "s\<lparr>Printer := Printer s @ ExtraName\<rparr>"
  have stable: "assign_stable ?P"
    by (auto simp: assign_stable_def)
  have start: "?P ?s1"
    by simp
  from printEntity_after_context [OF assms(1-5) run] obtain shown where
    after_context:
      "seq (if hasName \<or> OverwriteName \<noteq> [] then
              block [assert X (ExtraIndex < 0), out ExtraName, out '' of '', (if OverwriteName \<noteq> [] then out OverwriteName
                          else
                            bnd (lift (getChild Entity 1)) (\<lambda>Name.
                              block [(if getKind Name \<noteq> ''PrivateDeclName''
                                      then ign (pr Name False) else skip),
                                     (case getChildIf Entity ''PrivateDeclName'' of
                                        None \<Rightarrow> skip
                                      | Some PrivateName \<Rightarrow> ign (pr PrivateName False))]))]
            else block [out ExtraName,
                        (if ExtraIndex \<ge> 0 then out_int ExtraIndex else skip)])
          (bnd (printEntity_type X pr Entity TypePr True generics) (\<lambda>continue.
             if continue \<and> shown
                \<and> (hasName \<and> getKind Name = ''LocalDeclName'' \<longrightarrow>
                     DisplayLocalNameContexts (Options s))
             then seq (block [(if getKind Entity = ''DefaultArgumentInitializer''
                                  \<or> getKind Entity = ''Initializer''
                                  \<or> getKind Entity = ''PropertyWrapperBackingInitializer''
                               then out '' of '' else out '' in ''),
                              ign (pr Context False)])
                      (ret None)
             else ret (if continue \<and> shown then Some Context else None))) s
       = Inr (r, q)"
    by (rule exE)
  note tail = preserves_entity_tail [OF stable pr, where X = X and Entity = Entity
      and TypePr = TypePr and shown = shown and Context = Context and generics = generics
      and local = "hasName \<and> getKind Name = ''LocalDeclName'' \<longrightarrow>
                     DisplayLocalNameContexts (Options s)"
      and initializer = "getKind Entity = ''DefaultArgumentInitializer''
                         \<or> getKind Entity = ''Initializer''
                         \<or> getKind Entity = ''PropertyWrapperBackingInitializer''"]
  have "?P q"
  proof (cases "hasName \<or> OverwriteName \<noteq> []")
    case True
    note seq_block_assert [OF after_context [unfolded if_P [OF True]]]
    note after = this [unfolded seq_block_out [of ExtraName]]
    note preserves_entity_name [OF stable pr tail, where OverwriteName = OverwriteName
        and Entity = Entity]
    then show ?thesis
      using start after by (rule preservesD)
  next
    case False
    note after_context [unfolded if_not_P [OF False]]
    note after = this [unfolded seq_block_out [of ExtraName]]
    note preserves_entity_index [OF stable tail, where ExtraIndex = ExtraIndex]
    then show ?thesis
      using start after by (rule preservesD)
  qed
  then show ?thesis
    by simp
qed

text \<open>
  C7, as it stands, fails: with qualification of entities enabled, the closure whose
  context is the module of the standard library is printed without any context when
  that module is not displayed, where the claim has a suffix; it is printed with the
  suffix when the module is displayed.
\<close>

theorem printEntity_hidden_context_counterexample:
  "QualifyEntities
     (example_options\<lparr>ShowFunctionArgumentTypes := False, DisplayStdlibModule := False\<rparr>)
   \<and> nodeToString Swift_headers
       (Some (MkNode ''ExplicitClosure'' None None
                [MkNode ''Module'' (Some ''Swift'') None [], MkNode ''Number'' None (Some 0) []]))
       (example_options\<lparr>ShowFunctionArgumentTypes := False, DisplayStdlibModule := False\<rparr>)
     = Inr ''closure #1''
   \<and> nodeToString Swift_headers
       (Some (MkNode ''ExplicitClosure'' None None
                [MkNode ''Module'' (Some ''Swift'') None [], MkNode ''Number'' None (Some 0) []]))
       (example_options\<lparr>ShowFunctionArgumentTypes := False\<rparr>)
     = Inr ''closure #1 in Swift''"
  by code_simp

text \<open>
  C7, amended: for an entity with an extra name that contains a space; the entity is
  the node, or the first child of the node when that is a \<open>BoundGenericFunction\<close>, and
  its first child is its context. Printed as a prefix context, the entity is returned to the caller
  and nothing is printed. Otherwise \<^verbatim>\<open>printContext\<close> decides whether the context is
  shown, and prints nothing; then the extra name is printed, followed by \<open> of \<close> and
  the name when the entity has a name, by the extra index when it has none; then the
  type; and then, when the context is shown, the type did not fail, and the name is not
  a local name whose context is suppressed, the separator and the context, the
  separator \<open> of \<close> for the three initializer kinds and \<open> in \<close> for the others. So when
  the callback only appends to the buffer, what the call appends starts with the extra
  name: no context stands in front of it. \<^verbatim>\<open>printContext\<close> shows no context when entities
  are not qualified; when they are, it shows a context that is not a module, and a
  module by its name: the standard library and the Objective-C module as the option
  for each says, the module that is being hidden not, a module of the debugger as its
  option says, and every other module.
\<close>

theorem printEntity_multi_word_context:
  assumes "CHR '' '' \<in> set ExtraName"
    and "getKind Node \<noteq> ''BoundGenericFunction'' \<longrightarrow> generics = None \<and> Entity = Node"
    and "getKind Node = ''BoundGenericFunction'' \<longrightarrow>
           (\<exists>g. getChild Node 1 = Inr g \<and> generics = Some g) \<and> getChild Node 0 = Inr Entity"
    and "getChild Entity 0 = Inr Context"
    and "hasName \<longrightarrow> getChild Entity 1 = Inr Name"
  shows
    "printEntity X pr Node True TypePr hasName ExtraName ExtraIndex OverwriteName s
     = Inr (Some Entity, s)
     \<and> printEntity X pr Node False TypePr hasName ExtraName ExtraIndex OverwriteName s
       = bnd (printContext X Context) (\<lambda>shown.
         seq (if hasName \<or> OverwriteName \<noteq> [] then
                block [assert X (ExtraIndex < 0), out ExtraName, out '' of '',
                       (if OverwriteName \<noteq> [] then out OverwriteName
                     else
                       bnd (lift (getChild Entity 1)) (\<lambda>Name.
                         block [(if getKind Name \<noteq> ''PrivateDeclName''
                                 then ign (pr Name False) else skip),
                                (case getChildIf Entity ''PrivateDeclName'' of
                                   None \<Rightarrow> skip
                                 | Some PrivateName \<Rightarrow> ign (pr PrivateName False))]))]
              else block [out ExtraName,
                          (if ExtraIndex \<ge> 0 then out_int ExtraIndex else skip)])
        (bnd (printEntity_type X pr Entity TypePr True generics) (\<lambda>continue.
           if continue \<and> shown
              \<and> (hasName \<and> getKind Name = ''LocalDeclName'' \<longrightarrow>
                   DisplayLocalNameContexts (Options s))
           then seq (block [(if getKind Entity = ''DefaultArgumentInitializer''
                                \<or> getKind Entity = ''Initializer''
                                \<or> getKind Entity = ''PropertyWrapperBackingInitializer''
                             then out '' of '' else out '' in ''),
                            ign (pr Context False)])
                    (ret None)
           else ret (if continue \<and> shown then Some Context else None)))) s
     \<and> ((\<forall>c a. preserves (\<lambda>s'. \<exists>rest. Printer s' = (Printer s @ ExtraName) @ rest) (pr c a))
        \<and> printEntity X pr Node False TypePr hasName ExtraName ExtraIndex OverwriteName s
          = Inr (r, q) \<longrightarrow>
        (\<exists>rest. Printer q = Printer s @ ExtraName @ rest))
     \<and> printContext X Context s
       = (if \<not> QualifyEntities (Options s) then Inr (False, s)
          else if getKind Context \<noteq> ''Module'' then Inr (True, s)
          else case getText Context of
                 Inl e \<Rightarrow> Inl e
               | Inr text \<Rightarrow>
                   Inr (if text = STDLIB_NAME X then DisplayStdlibModule (Options s)
                        else if text = MANGLING_MODULE_OBJC X then DisplayObjCModule (Options s)
                        else if text = HidingCurrentModule (Options s) then False
                        else if startswith text (LLDB_EXPRESSIONS_MODULE_NAME_PREFIX X)
                          then DisplayDebuggerGeneratedModule (Options s)
                        else True, s))"
proof (intro conjI impI)
  have start: "lift (if getKind Node = ''BoundGenericFunction''
                then andThen (getChild Node 1) (\<lambda>generics.
                     andThen (getFirstChild Node) (\<lambda>inner. Inr (Some generics, inner)))
                else Inr (None, Node)) = ret (generics, Entity)"
    using assms(2,3) by (auto simp: lift_def andThen_def getFirstChild_def)
  have local: "lift (if hasName
                then andThen (getChild Entity 1) (\<lambda>name. Inr (getKind name = ''LocalDeclName''))
                else Inr False) = ret (hasName \<and> getKind Name = ''LocalDeclName'')"
    using assms(5) by (cases hasName) (simp_all add: lift_def andThen_def)
  show "printEntity X pr Node True TypePr hasName ExtraName ExtraIndex OverwriteName s
        = Inr (Some Entity, s)"
    by (simp only: printEntity_def start local bnd_ret_left prod.case bnd_opt Let_def
          assms(1) simp_thms if_True) (simp add: ret_def)
  show "printEntity X pr Node False TypePr hasName ExtraName ExtraIndex OverwriteName s
       = bnd (printContext X Context) (\<lambda>shown.
         seq (if hasName \<or> OverwriteName \<noteq> [] then
                block [assert X (ExtraIndex < 0), out ExtraName, out '' of '',
                       (if OverwriteName \<noteq> [] then out OverwriteName
                     else
                       bnd (lift (getChild Entity 1)) (\<lambda>Name.
                         block [(if getKind Name \<noteq> ''PrivateDeclName''
                                 then ign (pr Name False) else skip),
                                (case getChildIf Entity ''PrivateDeclName'' of
                                   None \<Rightarrow> skip
                                 | Some PrivateName \<Rightarrow> ign (pr PrivateName False))]))]
              else block [out ExtraName,
                          (if ExtraIndex \<ge> 0 then out_int ExtraIndex else skip)])
        (bnd (printEntity_type X pr Entity TypePr True generics) (\<lambda>continue.
           if continue \<and> shown
              \<and> (hasName \<and> getKind Name = ''LocalDeclName'' \<longrightarrow>
                   DisplayLocalNameContexts (Options s))
           then seq (block [(if getKind Entity = ''DefaultArgumentInitializer''
                                \<or> getKind Entity = ''Initializer''
                                \<or> getKind Entity = ''PropertyWrapperBackingInitializer''
                             then out '' of '' else out '' in ''),
                            ign (pr Context False)])
                    (ret None)
           else ret (if continue \<and> shown then Some Context else None)))) s"
    by (rule printEntity_multi_word_unfolded [OF assms])
  show "printContext X Context s
       = (if \<not> QualifyEntities (Options s) then Inr (False, s)
          else if getKind Context \<noteq> ''Module'' then Inr (True, s)
          else case getText Context of
                 Inl e \<Rightarrow> Inl e
               | Inr text \<Rightarrow>
                   Inr (if text = STDLIB_NAME X then DisplayStdlibModule (Options s)
                        else if text = MANGLING_MODULE_OBJC X then DisplayObjCModule (Options s)
                        else if text = HidingCurrentModule (Options s) then False
                        else if startswith text (LLDB_EXPRESSIONS_MODULE_NAME_PREFIX X)
                          then DisplayDebuggerGeneratedModule (Options s)
                        else True, s))"
    by (rule printContext_eq)
next
  assume a: "(\<forall>c a. preserves (\<lambda>s'. \<exists>rest. Printer s' = (Printer s @ ExtraName) @ rest)
                     (pr c a))
        \<and> printEntity X pr Node False TypePr hasName ExtraName ExtraIndex OverwriteName s
          = Inr (r, q)"
  then have pr: "\<And>c a. preserves (\<lambda>s'. \<exists>rest. Printer s' = (Printer s @ ExtraName) @ rest)
                          (pr c a)"
    by blast
  from a have run: "printEntity X pr Node False TypePr hasName ExtraName ExtraIndex
                      OverwriteName s = Inr (r, q)"
    by (rule conjunct2)
  show "\<exists>rest. Printer q = Printer s @ ExtraName @ rest"
    by (rule printEntity_starts_with_ExtraName [OF assms pr run])
qed

theorem printEntity_multi_word_context_witness:
  "CHR '' '' \<in> set ''closure #''
   \<and> map_sum id (\<lambda>(r, q). (r, Printer q))
       (printEntity Swift_headers (print Swift_headers)
          (MkNode ''ExplicitClosure'' None None
             [MkNode ''Module'' (Some ''Swift'') None [], MkNode ''Number'' None (Some 0) []])
          True NoType False ''closure #'' 1 [] (NodePrinter_new example_options))
     = Inr (Some (MkNode ''ExplicitClosure'' None None
                    [MkNode ''Module'' (Some ''Swift'') None [],
                     MkNode ''Number'' None (Some 0) []]), [])
   \<and> map_sum id (Printer \<circ> snd)
       (printEntity Swift_headers (print Swift_headers)
          (MkNode ''ExplicitClosure'' None None
             [MkNode ''Module'' (Some ''Swift'') None [], MkNode ''Number'' None (Some 0) []])
          False NoType False ''closure #'' 1 [] (NodePrinter_new example_options))
     = Inr ''closure #1 in Swift''
   \<and> (\<exists>rest. ''closure #1 in Swift'' = ''closure #'' @ rest)
   \<and> printContext Swift_headers (MkNode ''Module'' (Some ''Swift'') None [])
       (NodePrinter_new example_options)
     = Inr (True, NodePrinter_new example_options)"
proof -
  let ?s = "NodePrinter_new example_options"
  let ?pr = "print Swift_headers"
  let ?Context = "MkNode ''Module'' (Some ''Swift'') None []"
  let ?Entity = "MkNode ''ExplicitClosure'' None None
                   [?Context, MkNode ''Number'' None (Some 0) []]"
  have suffix: "map_sum id (Printer \<circ> snd)
      (bnd (printContext Swift_headers ?Context) (\<lambda>shown.
         seq (block [out ''closure #'', out_int 1])
        (bnd (printEntity_type Swift_headers ?pr ?Entity NoType True None) (\<lambda>continue.
           if continue \<and> shown
           then seq (block [out '' in '', ign (?pr ?Context False)]) (ret None)
           else ret (if continue \<and> shown then Some ?Context else None)))) ?s)
      = Inr ''closure #1 in Swift''"
    by code_simp
  have options: "QualifyEntities (Options ?s)" "DisplayStdlibModule (Options ?s)"
      "Printer ?s = []"
    by (simp_all add: NodePrinter_new_def example_options_def)
  have stdlib: "getText ?Context = Inr (STDLIB_NAME Swift_headers)"
    by (simp add: getText_def Swift_headers_def)
  have entity: "CHR '' '' \<in> set ''closure #''"
      "getKind ?Entity \<noteq> ''BoundGenericFunction'' \<longrightarrow> None = None \<and> ?Entity = ?Entity"
      "getKind ?Entity = ''BoundGenericFunction'' \<longrightarrow>
         (\<exists>g. getChild ?Entity 1 = Inr g \<and> None = Some g) \<and> getChild ?Entity 0 = Inr ?Entity"
      "getChild ?Entity 0 = Inr ?Context"
      "False \<longrightarrow> getChild ?Entity 1 = Inr ?Context"
    by (simp_all add: getChild_def getNumChildren_def)
  have appends: "\<forall>c a. preserves (\<lambda>s'. \<exists>rest. Printer s' = (Printer ?s @ ''closure #'') @ rest)
                         (?pr c a)"
    by (intro allI preserves_print) (auto simp: assign_stable_def)
  have 2: "map_sum id (Printer \<circ> snd)
       (printEntity Swift_headers ?pr ?Entity False NoType False ''closure #'' 1 [] ?s)
     = Inr ''closure #1 in Swift''"
    using printEntity_multi_word_context [where ExtraName = "''closure #''"
        and Entity = ?Entity and Node = ?Entity and generics = None and Context = ?Context
        and hasName = False and X = Swift_headers
        and pr = ?pr and TypePr = NoType and ExtraIndex = 1 and OverwriteName = "[]"
        and s = ?s and Name = ?Context, OF entity] suffix
    by (simp del: block.simps)
  then obtain r q where run:
      "printEntity Swift_headers ?pr ?Entity False NoType False ''closure #'' 1 [] ?s
       = Inr (r, q)" and q: "Printer q = ''closure #1 in Swift''"
    by (cases "printEntity Swift_headers ?pr ?Entity False NoType False ''closure #'' 1 [] ?s")
      auto
  note inst = printEntity_multi_word_context [where ExtraName = "''closure #''"
        and Entity = ?Entity and Node = ?Entity and generics = None and Context = ?Context
        and hasName = False and X = Swift_headers
        and pr = ?pr and TypePr = NoType and ExtraIndex = 1 and OverwriteName = "[]"
        and s = ?s and Name = ?Context and r = r and q = q, OF entity]
  have 1: "map_sum id (\<lambda>(r, q). (r, Printer q))
       (printEntity Swift_headers ?pr ?Entity True NoType False ''closure #'' 1 [] ?s)
     = Inr (Some ?Entity, [])"
    using inst by (simp add: NodePrinter_new_def)
  have 3: "\<exists>rest. ''closure #1 in Swift'' = ''closure #'' @ rest"
    using inst appends run q options(3) by simp
  have 4: "printContext Swift_headers ?Context ?s = Inr (True, ?s)"
    using inst options stdlib by (simp add: getText_def)
  show ?thesis
    using entity(1) 1 2 3 4 by simp
qed


end
